theory Spec2Isabelle
  imports Main "HOL-Library.Sublist"
begin

section \<open>Release script of Export Layers: \<^verbatim>\<open>utils/make_release.py\<close>\<close>

text \<open>
  The script cuts a release: it computes the next version, retitles the first header of
  the changelog, rewrites two entries of the plug-in's \<^verbatim>\<open>config.py\<close>, commits, tags,
  builds installers, pushes and publishes. This theory embeds the script function by
  function. Python strings are \<^typ>\<open>string\<close>, \<^verbatim>\<open>None\<close> is \<^term>\<open>None\<close>, an exception is a value
  of \<open>exn\<close>.
\<close>

subsection \<open>Characters and exceptions\<close>

abbreviation NL :: char where "NL \<equiv> CHR 0x0A"
abbreviation DQ :: char where "DQ \<equiv> CHR 0x22"
abbreviation BSL :: char where "BSL \<equiv> CHR 0x5C"

text \<open>
  The exceptions the script tells apart in its \<^verbatim>\<open>except\<close> clauses:
  \<^verbatim>\<open>git.GitCommandError\<close> (caught in \<^verbatim>\<open>_rollback\<close>), \<^verbatim>\<open>pg.version.InvalidVersionFormatError\<close>
  and \<^verbatim>\<open>ValueError\<close> with its message (caught in \<^verbatim>\<open>_get_next_version\<close> and
  \<^verbatim>\<open>_prompt_to_proceed\<close>); every other subclass of \<^verbatim>\<open>Exception\<close> goes by its name.
\<close>

datatype exn =
    GitCommandError
  | InvalidVersionFormatError
  | ValueError string
  | PyException string

subsection \<open>Replacement templates of \<^verbatim>\<open>re.sub\<close>\<close>

text \<open>
  \<^verbatim>\<open>re.sub\<close> expands backslash escapes in its replacement string. The script builds each
  replacement from fixed raw pieces (\<^verbatim>\<open>r"\n"\<close>, \<^verbatim>\<open>r'\1"'\<close>) and a version or date string
  spliced in between. A spliced string without a backslash stands for itself, and the
  functions below compute the result. With a backslash in the spliced string the result
  is what the template parser of Python's \<^verbatim>\<open>re\<close> module makes of it (an escape expanded,
  a group inserted, or \<^verbatim>\<open>re.error\<close>). That module is not part of the script: its answer
  is a parameter, a function of which of the three \<^verbatim>\<open>re.sub\<close> calls of the script it is, of
  the spliced string and of the text the call works on.
\<close>

datatype re_sub_call = EntrySub string | HashHeaderSub | UnderlinedHeaderSub

type_synonym re_module = "re_sub_call \<Rightarrow> string \<Rightarrow> string \<Rightarrow> exn + string"

subsection \<open>The entries of \<^verbatim>\<open>config.py\<close> (lines 264 to 277 of the script)\<close>

text \<open>
  \<^verbatim>\<open>get_entry_pattern(entry)\<close> is \<^verbatim>\<open>r'^(c\.' + re.escape(entry) + ' = )"(.*)"$'\<close>. Without
  \<^verbatim>\<open>re.MULTILINE\<close> the anchor \<^verbatim>\<open>^\<close> is the start of the line string and \<^verbatim>\<open>$\<close> is its end or
  the place before a final newline; \<^verbatim>\<open>.\<close> is any character but a newline. So a line
  matches when, one final newline apart, it is the literal \<^verbatim>\<open>c.ENTRY = \<close>, a double quote,
  any text free of newlines, and a closing double quote.
\<close>

definition entry_prefix :: "string \<Rightarrow> string" where
  "entry_prefix entry = ''c.'' @ entry @ '' = ''"

definition entry_body :: "string \<Rightarrow> string \<Rightarrow> bool" where
  "entry_body entry s \<longleftrightarrow>
     (let p = entry_prefix entry @ [DQ] in
      length p < length s \<and> take (length p) s = p \<and> last s = DQ
      \<and> NL \<notin> set (drop (length p) s))"

definition ends_with_newline :: "string \<Rightarrow> bool" where
  "ends_with_newline s \<longleftrightarrow> s \<noteq> [] \<and> last s = NL"

definition entry_search :: "string \<Rightarrow> string \<Rightarrow> bool" where
  "entry_search entry line \<longleftrightarrow>
     (if ends_with_newline line then entry_body entry (butlast line)
      else entry_body entry line)"

text \<open>
  \<^verbatim>\<open>re.sub(get_entry_pattern(entry_name), r'\1"' + new_entry_value + '"', line)\<close>: group 1
  is the literal prefix, the quoted value is replaced, a final newline stays. The
  concatenation raises \<^verbatim>\<open>TypeError\<close> when the value is \<^verbatim>\<open>None\<close>.
\<close>

definition entry_line :: "string \<Rightarrow> string \<Rightarrow> string \<Rightarrow> string" where
  "entry_line entry v line =
     entry_prefix entry @ [DQ] @ v @ [DQ] @ (if ends_with_newline line then [NL] else [])"

definition entry_sub :: "re_module \<Rightarrow> string \<Rightarrow> string option \<Rightarrow> string \<Rightarrow> exn + string" where
  "entry_sub re entry new_entry_value line =
     (case new_entry_value of
        None \<Rightarrow> Inl (PyException ''TypeError'')
      | Some v \<Rightarrow>
          if BSL \<in> set v then re (EntrySub entry) v line
          else Inr (if entry_search entry line then entry_line entry v line else line))"

text \<open>
  The inner loop, over \<^verbatim>\<open>list(entries_to_find.items())\<close>, for one line: every pending
  entry whose pattern matches the line (the loop variable, not \<^verbatim>\<open>lines[i]\<close>) overwrites
  \<^verbatim>\<open>lines[i]\<close> and leaves the dictionary. The result is the new \<^verbatim>\<open>lines[i]\<close> and the
  entries still pending. The dictionary is an association list in iteration order.
\<close>

type_synonym entries = "(string \<times> string option) list"

fun scan_entries ::
  "re_module \<Rightarrow> string \<Rightarrow> entries \<Rightarrow> string \<Rightarrow> exn + (string \<times> entries)" where
  "scan_entries re line [] cur = Inr (cur, [])"
| "scan_entries re line ((entry_name, new_entry_value) # es) cur =
     (if entry_search entry_name line then
        (case entry_sub re entry_name new_entry_value line of
           Inl e \<Rightarrow> Inl e
         | Inr new_line \<Rightarrow> scan_entries re line es new_line)
      else
        (case scan_entries re line es cur of
           Inl e \<Rightarrow> Inl e
         | Inr (c, pending) \<Rightarrow> Inr (c, (entry_name, new_entry_value) # pending)))"

text \<open>
  The outer loop, over \<^verbatim>\<open>enumerate(lines)\<close>, with its \<^verbatim>\<open>break\<close> once nothing is pending.
  The result is the list \<^verbatim>\<open>lines\<close> as the loop leaves it and \<^verbatim>\<open>entries_to_find\<close>.
\<close>

fun scan_lines ::
  "re_module \<Rightarrow> string list \<Rightarrow> entries \<Rightarrow> exn + (string list \<times> entries)" where
  "scan_lines re [] es = Inr ([], es)"
| "scan_lines re (line # ls) es =
     (case scan_entries re line es line of
        Inl e \<Rightarrow> Inl e
      | Inr (new_line, pending) \<Rightarrow>
          if pending = [] then Inr (new_line # ls, [])
          else (case scan_lines re ls pending of
                  Inl e \<Rightarrow> Inl e
                | Inr (ls', pending') \<Rightarrow> Inr (new_line # ls', pending')))"


subsection \<open>The first header of the changelog (lines 210 to 237)\<close>

text \<open>
  \<^verbatim>\<open>first_level_header_pattern = r"(# (.*?)\n|(.*?)\n=+\n)"\<close>. At one start position the
  first alternative is the two characters \<^verbatim>\<open># \<close> and the rest of the line up to its
  newline (group 2); the second is the rest of the line (group 3), its newline, a line
  of one or more \<^verbatim>\<open>=\<close> and the newline of that line.
\<close>

definition after_line :: "string \<Rightarrow> string" where
  "after_line s = tl (dropWhile (\<lambda>c. c \<noteq> NL) s)"

definition hash_header :: "string \<Rightarrow> string option" where
  "hash_header s =
     (if take 2 s = ''# '' \<and> NL \<in> set (drop 2 s)
      then Some (takeWhile (\<lambda>c. c \<noteq> NL) (drop 2 s)) else None)"

definition underlined_header :: "string \<Rightarrow> string option" where
  "underlined_header s =
     (if NL \<in> set s then
        (let u = dropWhile (\<lambda>c. c = CHR ''='') (after_line s) in
         if takeWhile (\<lambda>c. c = CHR ''='') (after_line s) \<noteq> [] \<and> u \<noteq> [] \<and> hd u = NL
         then Some (takeWhile (\<lambda>c. c \<noteq> NL) s) else None)
      else None)"

text \<open>
  The match object of \<^verbatim>\<open>re.search\<close>: exactly one of \<^verbatim>\<open>match.group(2)\<close> and
  \<^verbatim>\<open>match.group(3)\<close> is a string, the other is \<^verbatim>\<open>None\<close>. The search takes the leftmost
  start position, and there the first alternative that matches.
\<close>

datatype header_match = Group2 string | Group3 string

fun search_first_level_header :: "string \<Rightarrow> header_match option" where
  "search_first_level_header [] = None"
| "search_first_level_header (c # cs) =
     (case hash_header (c # cs) of
        Some t \<Rightarrow> Some (Group2 t)
      | None \<Rightarrow>
          (case underlined_header (c # cs) of
             Some t \<Rightarrow> Some (Group3 t)
           | None \<Rightarrow> search_first_level_header cs))"

fun match_title :: "header_match \<Rightarrow> string" where
  "match_title (Group2 t) = t"
| "match_title (Group3 t) = t"

text \<open>
  The condition of line 212: a match, and neither group in \<^verbatim>\<open>released_versions\<close>
  (\<^verbatim>\<open>None\<close> is never in a list of strings).
\<close>

definition unreleased_header :: "string list \<Rightarrow> string \<Rightarrow> header_match option" where
  "unreleased_header released header_raw =
     (case search_first_level_header header_raw of
        None \<Rightarrow> None
      | Some m \<Rightarrow> if match_title m \<in> set released then None else Some m)"

text \<open>
  \<^verbatim>\<open>re.sub(r"# .*?\n", repl, changelog_contents, count=1)\<close> and
  \<^verbatim>\<open>re.sub(r".*?\n=+\n", repl, changelog_contents, count=1)\<close>: the leftmost match in the
  whole document is replaced by the expanded replacement.
\<close>

fun sub_hash_header :: "string \<Rightarrow> string \<Rightarrow> string" where
  "sub_hash_header repl [] = []"
| "sub_hash_header repl (c # cs) =
     (if hash_header (c # cs) \<noteq> None then repl @ after_line (drop 2 (c # cs))
      else c # sub_hash_header repl cs)"

fun sub_underlined_header :: "string \<Rightarrow> string \<Rightarrow> string" where
  "sub_underlined_header repl [] = []"
| "sub_underlined_header repl (c # cs) =
     (if underlined_header (c # cs) \<noteq> None
      then repl @ tl (dropWhile (\<lambda>c. c = CHR ''='') (after_line (c # cs)))
      else c # sub_underlined_header repl cs)"

text \<open>
  Lines 224 to 237: \<^verbatim>\<open>if match.group(2): ... elif match.group(3): ...\<close>. Both tests are
  truth tests, so an empty title takes neither branch and the document stays as it is.
  The replacements are \<^verbatim>\<open>r"# " + new_version + r"\n"\<close> and
  \<^verbatim>\<open>new_version + r"\n" + "=" * len(new_version) + "\n"\<close>; with \<^verbatim>\<open>new_version\<close> still
  \<^verbatim>\<open>None\<close> the concatenation raises \<^verbatim>\<open>TypeError\<close>.
\<close>

definition retitle ::
  "re_module \<Rightarrow> header_match \<Rightarrow> string option \<Rightarrow> string \<Rightarrow> exn + string" where
  "retitle re m new_version changelog_contents =
     (if match_title m = [] then Inr changelog_contents
      else
        (case new_version of
           None \<Rightarrow> Inl (PyException ''TypeError'')
         | Some v \<Rightarrow>
             (case m of
                Group2 _ \<Rightarrow>
                  if BSL \<in> set v then re HashHeaderSub v changelog_contents
                  else Inr (sub_hash_header (''# '' @ v @ [NL]) changelog_contents)
              | Group3 _ \<Rightarrow>
                  if BSL \<in> set v then re UnderlinedHeaderSub v changelog_contents
                  else Inr (sub_underlined_header
                              (v @ [NL] @ replicate (length v) (CHR ''='') @ [NL])
                              changelog_contents))))"


subsection \<open>Small pieces of Python\<close>

text \<open>\<^verbatim>\<open>"{}".format(x)\<close> and \<^verbatim>\<open>print(x)\<close> for a value that is a string or \<^verbatim>\<open>None\<close>.\<close>

definition py_str :: "string option \<Rightarrow> string" where
  "py_str v = (case v of None \<Rightarrow> ''None'' | Some s \<Rightarrow> s)"

text \<open>\<^verbatim>\<open>"'{}'".format(x)\<close>: the text between single quotes.\<close>

definition quoted :: "string \<Rightarrow> string" where
  "quoted x = [CHR 0x27] @ x @ [CHR 0x27]"

text \<open>\<^verbatim>\<open>", ".join(names)\<close>.\<close>

fun join_comma :: "string list \<Rightarrow> string" where
  "join_comma [] = []"
| "join_comma [x] = x"
| "join_comma (x # y # r) = x @ '', '' @ join_comma (y # r)"

text \<open>
  \<^verbatim>\<open>s.strip()\<close> on a text string: the white space characters below code point 256 are
  removed at both ends. \<^verbatim>\<open>s.strip("\n")\<close> removes newlines only, and \<^verbatim>\<open>s.split("\n")\<close>
  cuts at every newline (the empty string gives one empty piece).
\<close>

definition py_space :: "char \<Rightarrow> bool" where
  "py_space c \<longleftrightarrow>
     c \<in> set [CHR 0x09, CHR 0x0A, CHR 0x0B, CHR 0x0C, CHR 0x0D, CHR 0x1C, CHR 0x1D,
              CHR 0x1E, CHR 0x1F, CHR 0x20, CHR 0x85, CHR 0xA0]"

definition py_strip :: "string \<Rightarrow> string" where
  "py_strip s = rev (dropWhile py_space (rev (dropWhile py_space s)))"

definition strip_newlines :: "string \<Rightarrow> string" where
  "strip_newlines s = rev (dropWhile (\<lambda>c. c = NL) (rev (dropWhile (\<lambda>c. c = NL) s)))"

fun split_newlines :: "string \<Rightarrow> string list" where
  "split_newlines [] = [[]]"
| "split_newlines (c # cs) =
     (if c = NL then [] # split_newlines cs
      else (case split_newlines cs of
              [] \<Rightarrow> [[c]]
            | w # ws \<Rightarrow> (c # w) # ws))"

text \<open>
  \<^verbatim>\<open>os.path.splitext(filename)[1]\<close> for a file name without a directory part: the text
  from the last dot on, unless only dots stand before that dot.
\<close>

definition splitext_ext :: "string \<Rightarrow> string" where
  "splitext_ext filename =
     (let ext_rev = takeWhile (\<lambda>c. c \<noteq> CHR ''.'') (rev filename);
          stem_rev = drop (Suc (length ext_rev)) (rev filename)
      in if CHR ''.'' \<in> set filename \<and> (\<exists>c\<in>set stem_rev. c \<noteq> CHR ''.'')
         then CHR ''.'' # rev ext_rev else [])"

text \<open>
  \<^verbatim>\<open>re.sub(r"^(.*)\{.*?$", r"\1", url)\<close> of line 395: when the text is one line (a final
  newline apart) with an opening brace in it, everything from the last such brace to the
  end of the line goes.
\<close>

definition strip_url_template :: "string \<Rightarrow> string" where
  "strip_url_template url =
     (let line1 = takeWhile (\<lambda>c. c \<noteq> NL) url; rest = dropWhile (\<lambda>c. c \<noteq> NL) url
      in if (rest = [] \<or> rest = [NL]) \<and> CHR ''{'' \<in> set line1
         then rev (tl (dropWhile (\<lambda>c. c \<noteq> CHR ''{'') (rev line1))) @ rest
         else url)"

subsection \<open>Constants of the module\<close>

text \<open>
  Paths are symbolic: \<^verbatim>\<open>PLUGINS_DIRPATH\<close> is computed from the place of the script,
  \<^verbatim>\<open>INSTALLERS_OUTPUT_DIRPATH\<close> is \<^verbatim>\<open>make_installers.OUTPUT_DIRPATH_DEFAULT\<close> of another
  module, and \<open>Join\<close> is \<^verbatim>\<open>os.path.join\<close>.
\<close>

datatype path = PLUGINS_DIRPATH | INSTALLERS_OUTPUT_DIRPATH | Join path string

definition PLUGIN_SUBDIRPATH :: path where
  "PLUGIN_SUBDIRPATH = Join PLUGINS_DIRPATH ''export_layers''"

definition GITHUB_PAGE_DIRPATH :: path where
  "GITHUB_PAGE_DIRPATH = Join (Join PLUGINS_DIRPATH ''docs'') ''gh-pages''"

definition PLUGIN_CONFIG_FILEPATH :: path where
  "PLUGIN_CONFIG_FILEPATH = Join PLUGIN_SUBDIRPATH ''config.py''"

definition CHANGELOG_FILEPATH :: path where
  "CHANGELOG_FILEPATH = Join PLUGINS_DIRPATH ''CHANGELOG.md''"

definition VERSION_STRING_FORMAT :: string where
  "VERSION_STRING_FORMAT = ''major.minor[.patch[-prerelease[.patch]]]''"

definition FILE_EXTENSIONS_AND_MIME_TYPES :: "string \<Rightarrow> string option" where
  "FILE_EXTENSIONS_AND_MIME_TYPES ext =
     (if ext = ''zip'' then Some ''application/x-zip-compressed''
      else if ext = ''exe'' then Some ''application/x-msdownload''
      else None)"

definition PROMPT_NO_EXIT_STATUS :: nat where
  "PROMPT_NO_EXIT_STATUS = 2"

subsection \<open>The release metadata, the process state and what the script does to the outside\<close>

text \<open>
  The command line options of \<^verbatim>\<open>main\<close>, passed on as keyword arguments, and the object
  \<^verbatim>\<open>_ReleaseMetadata\<close> that holds them with the fields \<^verbatim>\<open>__init__\<close> adds. The property
  \<^verbatim>\<open>release_tag\<close> is \<^verbatim>\<open>new_version\<close>.
\<close>

record options =
  release_type :: string
  github_access_token :: string
  force :: bool
  installers :: "string list"
  dry_run :: bool
  prerelease :: "string option"
  remote_name :: string
  remote_branch :: string
  interactive :: bool

record release_metadata = options +
  current_version :: "string option"
  released_versions :: "string list"
  username :: string
  remote_repo_name :: string
  new_version :: "string option"
  new_version_release_notes :: string
  last_commit_id_before_release :: string
  last_gh_pages_commit_id_before_release :: string

text \<open>The shared configuration object \<^verbatim>\<open>pg.config\<close>, as far as the script reads or writes it.\<close>

record pg_config =
  PLUGIN_VERSION :: "string option"
  PLUGIN_VERSION_RELEASE_DATE :: "string option"
  AUTHOR_NAME :: string
  REPOSITORY_NAME :: string

text \<open>
  Everything the script does to the outside is an action, recorded in order in the trace
  of the run: what it prints, the commands it gives to git in one of the two
  repositories (the sub-command and its arguments, a \<^verbatim>\<open>None\<close> argument included as the
  script passes it), what it reads and writes, the installer build and the HTTP requests.
\<close>

datatype repo_id = MainRepo | GhPagesRepo

datatype post_data = JsonBody "(string \<times> string option) list" | RawBody string

datatype action =
    Stdout string
  | Stderr string
  | Git repo_id string "string option list"
  | ActiveBranch repo_id
  | Input string
  | GmTime
  | ReadFile path
  | WriteFile path string
  | IsDir path
  | RmTree path
  | CopyTree path path
  | MakeInstallers bool "string list"
  | Post string "(string \<times> string) list" post_data "(string \<times> string) list"
  | OsWalk path
  | ReadBytes path

text \<open>
  The state of the process: the release metadata, \<^verbatim>\<open>pg.config\<close>, the text of the
  changelog, the lines of \<^verbatim>\<open>config.py\<close> (as \<^verbatim>\<open>readlines\<close> gives them), the trace, whether the
  interrupt signal has been delivered, and how often \<^verbatim>\<open>_rollback\<close> has been entered. The
  two files hold what this script writes to them; what git does to the working trees is
  not modelled, a git command is an action of the trace and nothing more.
\<close>

record world =
  rm :: release_metadata
  config :: pg_config
  changelog_file :: string
  config_file :: "string list"
  trace :: "action list"
  sigint_delivered :: bool
  rollback_calls :: nat

text \<open>
  What the outside answers is a parameter: each answer is a function of the trace so far,
  so the same command can succeed once and fail later. The version library
  (\<^verbatim>\<open>pg.version.Version\<close>, with \<open>'v\<close> for its objects), \<^verbatim>\<open>find_section\<close> of
  \<^verbatim>\<open>preprocess_document_contents\<close>, \<^verbatim>\<open>distutils.util.strtobool\<close> and
  \<^verbatim>\<open>traceback.format_exc\<close> are parameters too, and so is \<open>re_sub\<close>, the answer of \<^verbatim>\<open>re.sub\<close>
  to a replacement with a backslash in the spliced string. \<open>sigint_at\<close> is the length of
  the trace at which the interrupt signal arrives, if it does.
\<close>

record response =
  raise_for_status :: "exn option"
  json_upload_url :: "exn + string"

record 'v env =
  sigint_at :: "nat option"
  git_reply :: "action list \<Rightarrow> repo_id \<Rightarrow> string \<Rightarrow> string option list \<Rightarrow> exn + string"
  active_branch_reply :: "action list \<Rightarrow> repo_id \<Rightarrow> exn + string"
  input_reply :: "action list \<Rightarrow> exn + string"
  strtobool :: "string \<Rightarrow> exn + bool"
  version_parse :: "string option \<Rightarrow> exn + 'v"
  version_increment :: "'v \<Rightarrow> string \<Rightarrow> string option \<Rightarrow> exn + 'v"
  version_str :: "'v \<Rightarrow> string"
  find_section :: "string \<Rightarrow> string \<times> string"
  gmtime_reply :: "action list \<Rightarrow> string"
  open_reply :: "action list \<Rightarrow> path \<Rightarrow> exn option"
  isdir_reply :: "action list \<Rightarrow> path \<Rightarrow> bool"
  rmtree_reply :: "action list \<Rightarrow> path \<Rightarrow> exn option"
  copytree_reply :: "action list \<Rightarrow> path \<Rightarrow> path \<Rightarrow> exn option"
  make_installers_reply :: "action list \<Rightarrow> bool \<Rightarrow> string list \<Rightarrow> exn option"
  post_reply :: "action list \<Rightarrow> action \<Rightarrow> exn + response"
  walk_reply :: "action list \<Rightarrow> path \<Rightarrow> (path \<times> string list) list"
  read_reply :: "action list \<Rightarrow> path \<Rightarrow> exn + string"
  format_exc :: "exn \<Rightarrow> string"
  path_text :: "path \<Rightarrow> string"
  re_sub :: re_module

subsection \<open>Control flow\<close>

text \<open>
  A piece of the script runs on a state and ends in a value, or leaves through an
  exception, through \<^verbatim>\<open>sys.exit(status)\<close> (\<^verbatim>\<open>SystemExit\<close>, which \<^verbatim>\<open>except Exception\<close> does
  not catch), or because the interrupt signal has arrived (\<open>Sigint\<close>: the handler that is
  registered then runs at this point, see \<open>on_sigint\<close>).
\<close>

datatype failure = Raise exn | SysExit nat | Sigint

datatype 'a result = Ok 'a | Fail failure

type_synonym 'a prog = "world \<Rightarrow> 'a result \<times> world"

definition ret :: "'a \<Rightarrow> 'a prog" where
  "ret x = (\<lambda>s. (Ok x, s))"

definition fail :: "failure \<Rightarrow> 'a prog" where
  "fail f = (\<lambda>s. (Fail f, s))"

definition bnd :: "'a prog \<Rightarrow> ('a \<Rightarrow> 'b prog) \<Rightarrow> 'b prog" where
  "bnd m f = (\<lambda>s. case m s of (Ok x, s') \<Rightarrow> f x s' | (Fail e, s') \<Rightarrow> (Fail e, s'))"

definition thn :: "'a prog \<Rightarrow> 'b prog \<Rightarrow> 'b prog" where
  "thn m k = bnd m (\<lambda>_. k)"

definition gets :: "(world \<Rightarrow> 'a) \<Rightarrow> 'a prog" where
  "gets f = (\<lambda>s. (Ok (f s), s))"

definition modify :: "(world \<Rightarrow> world) \<Rightarrow> unit prog" where
  "modify f = (\<lambda>s. (Ok (), f s))"

fun run_steps :: "unit prog list \<Rightarrow> unit prog" where
  "run_steps [] = ret ()"
| "run_steps (m # ms) = thn m (run_steps ms)"

text \<open>
  One action: unless the interrupt signal arrives now, the action joins the trace and
  the outside's answer is its value or the exception it raises.
\<close>

definition sigint_now :: "'v env \<Rightarrow> world \<Rightarrow> bool" where
  "sigint_now env s \<longleftrightarrow> \<not> sigint_delivered s \<and> sigint_at env = Some (length (trace s))"

definition act :: "'v env \<Rightarrow> action \<Rightarrow> (action list \<Rightarrow> exn + 'a) \<Rightarrow> 'a prog" where
  "act env a reply =
     (\<lambda>s. if sigint_now env s then (Fail Sigint, s)
          else (case reply (trace s) of Inl e \<Rightarrow> Fail (Raise e) | Inr x \<Rightarrow> Ok x,
                s\<lparr>trace := trace s @ [a]\<rparr>))"

definition may_raise :: "exn option \<Rightarrow> exn + unit" where
  "may_raise r = (case r of None \<Rightarrow> Inr () | Some e \<Rightarrow> Inl e)"

text \<open>The pattern \<^verbatim>\<open>if release_metadata.dry_run: return\<close> before the rest of a function.\<close>

definition unless_dry_run :: "unit prog \<Rightarrow> unit prog" where
  "unless_dry_run m = bnd (gets (\<lambda>s. dry_run (rm s))) (\<lambda>d. if d then ret () else m)"

subsection \<open>Calls to the outside\<close>

definition print :: "'v env \<Rightarrow> string \<Rightarrow> unit prog" where
  "print env message = act env (Stdout message) (\<lambda>_. Inr ())"

definition print_error :: "'v env \<Rightarrow> string \<Rightarrow> unit prog" where
  "print_error env message = act env (Stderr message) (\<lambda>_. Inr ())"

definition print_error_and_exit :: "'v env \<Rightarrow> string \<Rightarrow> nat \<Rightarrow> 'a prog" where
  "print_error_and_exit env message status =
     thn (print_error env message) (fail (SysExit status))"

definition git :: "'v env \<Rightarrow> repo_id \<Rightarrow> string \<Rightarrow> string option list \<Rightarrow> string prog" where
  "git env repo command args =
     act env (Git repo command args) (\<lambda>h. git_reply env h repo command args)"

definition git_do :: "'v env \<Rightarrow> repo_id \<Rightarrow> string \<Rightarrow> string option list \<Rightarrow> unit prog" where
  "git_do env repo command args = bnd (git env repo command args) (\<lambda>_. ret ())"

definition active_branch_name :: "'v env \<Rightarrow> repo_id \<Rightarrow> string prog" where
  "active_branch_name env repo =
     act env (ActiveBranch repo) (\<lambda>h. active_branch_reply env h repo)"

definition isdir :: "'v env \<Rightarrow> path \<Rightarrow> bool prog" where
  "isdir env p = act env (IsDir p) (\<lambda>h. Inr (isdir_reply env h p))"

definition rmtree :: "'v env \<Rightarrow> path \<Rightarrow> unit prog" where
  "rmtree env p = act env (RmTree p) (\<lambda>h. may_raise (rmtree_reply env h p))"

definition copytree :: "'v env \<Rightarrow> path \<Rightarrow> path \<Rightarrow> unit prog" where
  "copytree env src dst =
     act env (CopyTree src dst) (\<lambda>h. may_raise (copytree_reply env h src dst))"

definition read_changelog :: "'v env \<Rightarrow> string prog" where
  "read_changelog env =
     thn (act env (ReadFile CHANGELOG_FILEPATH)
            (\<lambda>h. may_raise (open_reply env h CHANGELOG_FILEPATH)))
         (gets changelog_file)"

definition write_changelog :: "'v env \<Rightarrow> string \<Rightarrow> unit prog" where
  "write_changelog env contents =
     thn (act env (WriteFile CHANGELOG_FILEPATH contents)
            (\<lambda>h. may_raise (open_reply env h CHANGELOG_FILEPATH)))
         (modify (\<lambda>s. s\<lparr>changelog_file := contents\<rparr>))"

definition read_config_lines :: "'v env \<Rightarrow> string list prog" where
  "read_config_lines env =
     thn (act env (ReadFile PLUGIN_CONFIG_FILEPATH)
            (\<lambda>h. may_raise (open_reply env h PLUGIN_CONFIG_FILEPATH)))
         (gets config_file)"

definition write_config_lines :: "'v env \<Rightarrow> string list \<Rightarrow> unit prog" where
  "write_config_lines env ls =
     thn (act env (WriteFile PLUGIN_CONFIG_FILEPATH (concat ls))
            (\<lambda>h. may_raise (open_reply env h PLUGIN_CONFIG_FILEPATH)))
         (modify (\<lambda>s. s\<lparr>config_file := ls\<rparr>))"

subsection \<open>The steps of \<^verbatim>\<open>_make_release\<close>\<close>

text \<open>
  The functions keep their names, less the leading underscore. The function
  \<^verbatim>\<open>_make_release\<close> is \<open>make_release_steps\<close>.
\<close>

definition has_active_branch_local_changes :: "'v env \<Rightarrow> repo_id \<Rightarrow> bool prog" where
  "has_active_branch_local_changes env repo =
     bnd (git env repo ''status'' [Some ''--porcelain'']) (\<lambda>out. ret (out \<noteq> []))"

definition check_branches_for_local_changes :: "'v env \<Rightarrow> unit prog" where
  "check_branches_for_local_changes env =
     bnd (gets (\<lambda>s. force (rm s))) (\<lambda>forced.
     bnd (if \<not> forced then has_active_branch_local_changes env MainRepo else ret False) (\<lambda>dirty.
     thn (if dirty then
            print_error_and_exit env
              ''Repository contains local changes. Please remove or commit changes before proceeding.'' 1
          else ret ())
     (bnd (has_active_branch_local_changes env GhPagesRepo) (\<lambda>dirty_pages.
        if dirty_pages then
          bnd (active_branch_name env GhPagesRepo) (\<lambda>name.
            print_error_and_exit env
              (''Repository in the '' @ quoted name
                @ '' branch contains local changes. Please remove or commit changes before proceeding.'') 1)
        else ret ()))))"

definition check_if_tag_with_new_version_already_exists :: "'v env \<Rightarrow> unit prog" where
  "check_if_tag_with_new_version_already_exists env =
     bnd (gets (\<lambda>s. new_version (rm s))) (\<lambda>v.
     bnd (git env MainRepo ''tag'' [Some ''-l'', v]) (\<lambda>out.
       if out \<noteq> [] then
         print_error_and_exit env
           (''Repository already contains tag '' @ quoted (py_str v)
             @ '', indicating that such a version is already released.'') 1
       else ret ()))"

definition get_next_version :: "'v env \<Rightarrow> string prog" where
  "get_next_version env =
     bnd (gets (\<lambda>s. rm s)) (\<lambda>m.
       case version_parse env (current_version m) of
         Inl InvalidVersionFormatError \<Rightarrow>
           print_error_and_exit env
             (''Version string '' @ quoted (py_str (current_version m))
               @ '' has invalid format; valid format: '' @ VERSION_STRING_FORMAT) 1
       | Inl e \<Rightarrow> fail (Raise e)
       | Inr ver \<Rightarrow>
           (case version_increment env ver (release_type m) (prerelease m) of
              Inl (ValueError message) \<Rightarrow> print_error_and_exit env message 1
            | Inl e \<Rightarrow> fail (Raise e)
            | Inr ver' \<Rightarrow>
                thn (print env (''Current version: '' @ py_str (current_version m)))
               (thn (print env (''New version: '' @ version_str env ver'))
                    (ret (version_str env ver')))))"

definition prompt_to_proceed :: "'v env \<Rightarrow> unit prog" where
  "prompt_to_proceed env =
     bnd (act env (Input ''Proceed with release? [y/n] '') (input_reply env)) (\<lambda>response.
       case strtobool env response of
         Inl (ValueError _) \<Rightarrow> print_error_and_exit env ''Aborting.'' PROMPT_NO_EXIT_STATUS
       | Inl e \<Rightarrow> fail (Raise e)
       | Inr should_proceed \<Rightarrow>
           if \<not> should_proceed then print_error_and_exit env ''Aborting.'' PROMPT_NO_EXIT_STATUS
           else ret ())"

text \<open>
  In the message of line 218, \<^verbatim>\<open>match.group(2) or match.group(3)\<close> is \<^verbatim>\<open>None\<close> when group 2
  is the empty string.
\<close>

definition printed_header_name :: "header_match \<Rightarrow> string" where
  "printed_header_name m =
     (case m of Group2 t \<Rightarrow> (if t = [] then ''None'' else t) | Group3 t \<Rightarrow> t)"

definition get_release_notes_and_modify_changelog_first_header :: "'v env \<Rightarrow> unit prog" where
  "get_release_notes_and_modify_changelog_first_header env =
     bnd (read_changelog env) (\<lambda>changelog_contents.
     bnd (gets (\<lambda>s. released_versions (rm s))) (\<lambda>released.
       case unreleased_header released (fst (find_section env changelog_contents)) of
         None \<Rightarrow> ret ()
       | Some m \<Rightarrow>
           thn (modify (\<lambda>s. s\<lparr>rm := (rm s)\<lparr>new_version_release_notes :=
                                  py_strip (snd (find_section env changelog_contents))\<rparr>\<rparr>))
          (thn (print env (''Replacing header name '' @ quoted (printed_header_name m)
                           @ '' in the changelog with the new version''))
          (unless_dry_run
             (bnd (gets (\<lambda>s. new_version (rm s))) (\<lambda>v.
                case retitle (re_sub env) m v changelog_contents of
                  Inl e \<Rightarrow> fail (Raise e)
                | Inr new_contents \<Rightarrow> write_changelog env new_contents))))))"

text \<open>
  \<^verbatim>\<open>_update_version_and_release_date_in_config\<close> in two parts: lines 254 to 285, which
  print the entries, return in a dry run and otherwise rewrite the file, and the function
  itself, which first assigns the new version and date to \<^verbatim>\<open>pg.config\<close>.
\<close>

definition modify_config_entries :: "'v env \<Rightarrow> entries \<Rightarrow> unit prog" where
  "modify_config_entries env entries_to_modify =
     thn (print env (''Modifying the following entries in file ''
                      @ quoted (path_text env PLUGIN_CONFIG_FILEPATH) @ '': ''
                      @ join_comma (map fst entries_to_modify)))
    (unless_dry_run
       (bnd (read_config_lines env) (\<lambda>ls.
          case scan_lines (re_sub env) ls entries_to_modify of
            Inl e \<Rightarrow> fail (Raise e)
          | Inr (ls', entries_to_find) \<Rightarrow>
              thn (if entries_to_find \<noteq> [] then
                     print_error_and_exit env
                       (''Error: missing the following entries in file ''
                         @ quoted (path_text env PLUGIN_CONFIG_FILEPATH) @ '': ''
                         @ join_comma (map fst entries_to_find)) 1
                   else ret ())
                  (write_config_lines env ls'))))"

definition update_version_and_release_date_in_config :: "'v env \<Rightarrow> unit prog" where
  "update_version_and_release_date_in_config env =
     bnd (gets (\<lambda>s. new_version (rm s))) (\<lambda>v.
     bnd (act env GmTime (\<lambda>h. Inr (gmtime_reply env h))) (\<lambda>new_release_date.
     thn (modify (\<lambda>s. s\<lparr>config := (config s)\<lparr>PLUGIN_VERSION := v,
                          PLUGIN_VERSION_RELEASE_DATE := Some new_release_date\<rparr>\<rparr>))
         (modify_config_entries env
            [(''PLUGIN_VERSION'', v), (''PLUGIN_VERSION_RELEASE_DATE'', Some new_release_date)])))"

definition get_release_message_header :: "world \<Rightarrow> string" where
  "get_release_message_header s = ''Release '' @ py_str (new_version (rm s))"

definition create_release_commit :: "'v env \<Rightarrow> repo_id \<Rightarrow> unit prog" where
  "create_release_commit env repo =
     bnd (active_branch_name env repo) (\<lambda>name.
     thn (print env (''Creating release commit from branch '' @ quoted name))
    (unless_dry_run
       (thn (git_do env repo ''add'' [Some ''--all''])
       (thn (bnd (gets get_release_message_header) (\<lambda>header.
               git_do env repo ''commit'' [Some ''-m'', Some header]))
       (thn (git_do env repo ''add'' [Some ''--all''])
            (git_do env repo ''commit'' [Some ''--amend'', Some ''--no-edit'']))))))"

definition create_release_tag :: "'v env \<Rightarrow> unit prog" where
  "create_release_tag env =
     bnd (gets (\<lambda>s. new_version (rm s))) (\<lambda>release_tag.
     thn (print env (''Creating tag '' @ quoted (py_str release_tag)))
    (unless_dry_run
       (bnd (gets get_release_message_header) (\<lambda>header.
          git_do env MainRepo ''tag'' [Some ''-a'', release_tag, Some ''-m'', Some header]))))"

fun refresh_dirs :: "'v env \<Rightarrow> string list \<Rightarrow> unit prog" where
  "refresh_dirs env [] = ret ()"
| "refresh_dirs env (dirname # ds) =
     thn (rmtree env (Join GITHUB_PAGE_DIRPATH dirname))
    (thn (copytree env (Join (Join GITHUB_PAGE_DIRPATH ''dev'') dirname)
                       (Join GITHUB_PAGE_DIRPATH dirname))
         (refresh_dirs env ds))"

definition prepare_gh_pages_for_update :: "'v env \<Rightarrow> unit prog" where
  "prepare_gh_pages_for_update env =
     bnd (active_branch_name env GhPagesRepo) (\<lambda>name.
     thn (print env (''Preparing branch '' @ quoted name @ '' for update''))
    (unless_dry_run (refresh_dirs env [''images'', ''sections''])))"

definition make_installers :: "'v env \<Rightarrow> unit prog" where
  "make_installers env =
     thn (print env ''Creating installers'')
    (unless_dry_run
       (thn (bnd (isdir env INSTALLERS_OUTPUT_DIRPATH) (\<lambda>present.
               if present then rmtree env INSTALLERS_OUTPUT_DIRPATH else ret ()))
            (bnd (gets (\<lambda>s. rm s)) (\<lambda>m.
               act env (MakeInstallers (force m) (installers m))
                 (\<lambda>h. may_raise (make_installers_reply env h (force m) (installers m)))))))"

definition push_release_commit :: "'v env \<Rightarrow> repo_id \<Rightarrow> string option \<Rightarrow> unit prog" where
  "push_release_commit env repo remote_branch_arg =
     bnd (gets (\<lambda>s. rm s)) (\<lambda>m.
     let branch = (case remote_branch_arg of None \<Rightarrow> remote_branch m | Some b \<Rightarrow> b) in
     bnd (active_branch_name env repo) (\<lambda>name.
     thn (print env (''Pushing release commit from branch '' @ quoted name @ '' to remote ''
                      @ quoted (remote_name m @ '' '' @ branch)))
    (unless_dry_run
       (bnd (active_branch_name env repo) (\<lambda>name'.
          git_do env repo ''push'' [Some (remote_name m), Some (name' @ '':'' @ branch)])))))"

definition push_release_tag :: "'v env \<Rightarrow> unit prog" where
  "push_release_tag env =
     bnd (gets (\<lambda>s. rm s)) (\<lambda>m.
     thn (print env (''Pushing tag '' @ quoted (py_str (new_version m)) @ '' to remote ''
                      @ quoted (remote_name m)))
    (unless_dry_run (git_do env MainRepo ''push'' [Some (remote_name m), new_version m])))"

text \<open>
  The upload of lines 400 to 420. \<^verbatim>\<open>os.walk\<close> is asked once for the whole listing; every
  file with a known extension is read and posted.
\<close>

definition post :: "'v env \<Rightarrow> action \<Rightarrow> response prog" where
  "post env request = act env request (\<lambda>h. post_reply env h request)"

definition check_status :: "response \<Rightarrow> unit prog" where
  "check_status r = (case raise_for_status r of None \<Rightarrow> ret () | Some e \<Rightarrow> fail (Raise e))"

definition upload_file ::
    "'v env \<Rightarrow> string \<Rightarrow> (string \<times> string) list \<Rightarrow> path \<Rightarrow> string \<Rightarrow> unit prog" where
  "upload_file env upload_url access_token_header root_dirpath filename =
     (let file_extension = splitext_ext filename in
      if file_extension = [] then ret ()
      else
        (case FILE_EXTENSIONS_AND_MIME_TYPES (tl file_extension) of
           None \<Rightarrow> ret ()
         | Some mime \<Rightarrow>
             bnd (act env (ReadBytes (Join root_dirpath filename))
                    (\<lambda>h. read_reply env h (Join root_dirpath filename))) (\<lambda>file_contents.
             bnd (post env (Post upload_url (access_token_header @ [(''Content-Type'', mime)])
                              (RawBody file_contents) [(''name'', filename)]))
                 check_status)))"

fun upload_files ::
    "'v env \<Rightarrow> string \<Rightarrow> (string \<times> string) list \<Rightarrow> path \<Rightarrow> string list \<Rightarrow> unit prog" where
  "upload_files env upload_url hdr root_dirpath [] = ret ()"
| "upload_files env upload_url hdr root_dirpath (filename # fs) =
     thn (upload_file env upload_url hdr root_dirpath filename)
         (upload_files env upload_url hdr root_dirpath fs)"

fun upload_dirs ::
    "'v env \<Rightarrow> string \<Rightarrow> (string \<times> string) list \<Rightarrow> (path \<times> string list) list \<Rightarrow> unit prog" where
  "upload_dirs env upload_url hdr [] = ret ()"
| "upload_dirs env upload_url hdr ((root_dirpath, files) # ds) =
     thn (upload_files env upload_url hdr root_dirpath files)
         (upload_dirs env upload_url hdr ds)"

definition upload_installers_to_github ::
    "'v env \<Rightarrow> string \<Rightarrow> (string \<times> string) list \<Rightarrow> unit prog" where
  "upload_installers_to_github env upload_url access_token_header =
     bnd (act env (OsWalk INSTALLERS_OUTPUT_DIRPATH)
            (\<lambda>h. Inr (walk_reply env h INSTALLERS_OUTPUT_DIRPATH)))
         (upload_dirs env upload_url access_token_header)"

definition create_github_release :: "'v env \<Rightarrow> unit prog" where
  "create_github_release env =
     thn (print env ''Creating GitHub release'')
    (unless_dry_run
       (bnd (gets (\<lambda>s. rm s)) (\<lambda>m.
        let releases_url = ''https://api.github.com/repos/'' @ username m @ ''/''
                             @ remote_repo_name m @ ''/releases'';
            data_dict = [(''tag_name'', new_version m),
                         (''target_commitish'', Some (remote_branch m)),
                         (''name'', new_version m),
                         (''body'', Some (new_version_release_notes m))];
            access_token_header = [(''Authorization'', ''token '' @ github_access_token m)]
        in
        bnd (post env (Post releases_url access_token_header (JsonBody data_dict) [])) (\<lambda>r.
        thn (check_status r)
            (case json_upload_url r of
               Inl e \<Rightarrow> fail (Raise e)
             | Inr url \<Rightarrow>
                 upload_installers_to_github env (strip_url_template url) access_token_header)))))"

definition steps_before_tag_check :: "'v env \<Rightarrow> unit prog list" where
  "steps_before_tag_check env =
     [check_branches_for_local_changes env,
      bnd (active_branch_name env MainRepo) (\<lambda>name. print env (''Active branch: '' @ name)),
      bnd (get_next_version env) (\<lambda>v. modify (\<lambda>s. s\<lparr>rm := (rm s)\<lparr>new_version := Some v\<rparr>\<rparr>))]"

definition prompt_step :: "'v env \<Rightarrow> unit prog" where
  "prompt_step env =
     bnd (gets (\<lambda>s. interactive (rm s))) (\<lambda>i. if i then prompt_to_proceed env else ret ())"

definition steps_after_prompt :: "'v env \<Rightarrow> unit prog list" where
  "steps_after_prompt env =
     [get_release_notes_and_modify_changelog_first_header env,
      update_version_and_release_date_in_config env,
      create_release_commit env MainRepo,
      create_release_tag env,
      prepare_gh_pages_for_update env,
      create_release_commit env GhPagesRepo,
      make_installers env,
      push_release_commit env MainRepo None,
      push_release_tag env,
      bnd (active_branch_name env GhPagesRepo) (\<lambda>name.
        push_release_commit env GhPagesRepo (Some name)),
      create_github_release env]"

definition make_release_steps :: "'v env \<Rightarrow> unit prog" where
  "make_release_steps env =
     run_steps (steps_before_tag_check env
                @ [check_if_tag_with_new_version_already_exists env, prompt_step env]
                @ steps_after_prompt env)"

subsection \<open>Rollback, the interrupt handler and \<^verbatim>\<open>make_release\<close>\<close>

text \<open>\<^verbatim>\<open>try: m except git.GitCommandError: pass\<close>.\<close>

definition except_GitCommandError_pass :: "unit prog \<Rightarrow> unit prog" where
  "except_GitCommandError_pass m =
     (\<lambda>s. case m s of
            (Fail (Raise GitCommandError), s') \<Rightarrow> (Ok (), s')
          | other \<Rightarrow> other)"

definition rollback_actions :: "'v env \<Rightarrow> unit prog" where
  "rollback_actions env =
     unless_dry_run
       (thn (bnd (gets (\<lambda>s. new_version (rm s))) (\<lambda>v.
               except_GitCommandError_pass (git_do env MainRepo ''tag'' [Some ''-d'', v])))
       (thn (bnd (isdir env INSTALLERS_OUTPUT_DIRPATH) (\<lambda>present.
               if present then rmtree env INSTALLERS_OUTPUT_DIRPATH else ret ()))
       (thn (bnd (gets (\<lambda>s. last_commit_id_before_release (rm s))) (\<lambda>c.
               git_do env MainRepo ''reset'' [Some ''--hard'', Some c]))
            (bnd (gets (\<lambda>s. last_gh_pages_commit_id_before_release (rm s))) (\<lambda>c.
               git_do env GhPagesRepo ''reset'' [Some ''--hard'', Some c])))))"

text \<open>
  \<^verbatim>\<open>_rollback\<close>: the state counts every entry into the function, so that a call is
  visible where the function does nothing.
\<close>

definition rollback :: "'v env \<Rightarrow> unit prog" where
  "rollback env =
     thn (modify (\<lambda>s. s\<lparr>rollback_calls := Suc (rollback_calls s)\<rparr>)) (rollback_actions env)"

text \<open>
  \<^verbatim>\<open>handle_sigint\<close> of lines 96 to 99, and its registration: where a piece of the script
  is left because the signal has arrived, the handler runs in the state reached, and
  what it ends in (\<^verbatim>\<open>sys.exit(1)\<close>, or an exception of the rollback) goes on from there.
\<close>

definition handle_sigint :: "'v env \<Rightarrow> unit prog" where
  "handle_sigint env =
     thn (modify (\<lambda>s. s\<lparr>sigint_delivered := True\<rparr>))
    (thn (print_error env (NL # ''Performing rollback and aborting.''))
    (thn (rollback env) (fail (SysExit 1))))"

definition on_sigint :: "'v env \<Rightarrow> unit prog \<Rightarrow> unit prog" where
  "on_sigint env m =
     (\<lambda>s. case m s of
            (Fail Sigint, s') \<Rightarrow> handle_sigint env s'
          | other \<Rightarrow> other)"

text \<open>The \<^verbatim>\<open>except Exception\<close> clause of lines 105 to 110.\<close>

definition except_Exception :: "'v env \<Rightarrow> exn \<Rightarrow> unit prog" where
  "except_Exception env e =
     thn (print_error env (NL # ''The following error has occurred:'' @ [NL] @ format_exc env e
                           @ [NL] @ ''Performing rollback and aborting.''))
    (thn (rollback env) (fail (SysExit 1)))"

definition try_make_release :: "'v env \<Rightarrow> unit prog" where
  "try_make_release env =
     (\<lambda>s. case on_sigint env (make_release_steps env) s of
            (Fail (Raise e), s') \<Rightarrow> on_sigint env (except_Exception env e) s'
          | other \<Rightarrow> other)"

text \<open>
  \<^verbatim>\<open>make_release\<close> from its first line: the tag list for \<^verbatim>\<open>released_versions\<close>, then
  \<^verbatim>\<open>_ReleaseMetadata.__init__\<close> with the two \<^verbatim>\<open>rev_parse("HEAD")\<close> calls, then the handler and
  the \<^verbatim>\<open>try\<close>. The keyword arguments are the fixed options of \<^verbatim>\<open>main\<close>, none of which
  collides with a field of the class, so the \<^verbatim>\<open>TypeError\<close> of line 465 has no branch. An
  interrupt before the handler is registered is a \<^verbatim>\<open>KeyboardInterrupt\<close> outside every
  \<^verbatim>\<open>try\<close>: the result \<open>Fail Sigint\<close> of \<open>make_release\<close>.
\<close>

definition new_release_metadata :: "'v env \<Rightarrow> options \<Rightarrow> unit prog" where
  "new_release_metadata env kwargs =
     bnd (gets config) (\<lambda>c.
     bnd (git env MainRepo ''tag'' [Some ''-l'']) (\<lambda>tags.
     bnd (git env MainRepo ''rev-parse'' [Some ''HEAD'']) (\<lambda>head.
     bnd (git env GhPagesRepo ''rev-parse'' [Some ''HEAD'']) (\<lambda>pages_head.
       modify (\<lambda>s. s\<lparr>rm := options.extend kwargs
         (release_metadata.fields
            (PLUGIN_VERSION c) (split_newlines (strip_newlines tags))
            (AUTHOR_NAME c) (REPOSITORY_NAME c)
            None [] head pages_head)\<rparr>)))))"

definition make_release :: "'v env \<Rightarrow> options \<Rightarrow> unit prog" where
  "make_release env kwargs = thn (new_release_metadata env kwargs) (try_make_release env)"

text \<open>
  The exit status of the process: 0 at the end of the script, the argument of
  \<^verbatim>\<open>sys.exit\<close>, and 1 for a traceback (an exception or a \<^verbatim>\<open>KeyboardInterrupt\<close> that nothing
  catches).
\<close>

fun exit_status :: "unit result \<Rightarrow> nat" where
  "exit_status (Ok _) = 0"
| "exit_status (Fail (SysExit n)) = n"
| "exit_status (Fail (Raise _)) = 1"
| "exit_status (Fail Sigint) = 1"

subsection \<open>A sample environment\<close>

text \<open>
  An outside in which everything succeeds, for the instances below: the plug-in is at
  version 1.2.0, the tags 1.1.0 and 1.2.0 exist, the version library knows the minor
  release after 1.2.0, and \<^verbatim>\<open>find_section\<close> takes the first line of the document as the
  header.
\<close>

definition sample_env :: "string env" where
  "sample_env =
     \<lparr>sigint_at = None,
      git_reply = (\<lambda>h repo command args.
        if command = ''rev-parse'' then Inr (if repo = MainRepo then ''c0ffee'' else ''d0c5'')
        else if command = ''tag'' \<and> args = [Some ''-l''] then Inr ''1.1.0\<newline>1.2.0''
        else Inr []),
      active_branch_reply = (\<lambda>h repo. Inr (if repo = MainRepo then ''master'' else ''gh-pages'')),
      input_reply = (\<lambda>h. Inr ''y''),
      strtobool = (\<lambda>r. if r = ''y'' then Inr True else if r = ''n'' then Inr False
                        else Inl (ValueError ''invalid truth value'')),
      version_parse = (\<lambda>v. if v = Some ''1.2.0'' then Inr ''1.2.0''
                            else Inl InvalidVersionFormatError),
      version_increment = (\<lambda>v kind pre. if v = ''1.2.0'' \<and> kind = ''minor'' \<and> pre = None
                                         then Inr ''1.3.0'' else Inl (ValueError ''no such release'')),
      version_str = (\<lambda>v. v),
      find_section = (\<lambda>doc. (takeWhile (\<lambda>c. c \<noteq> NL) doc @ [NL], after_line doc)),
      gmtime_reply = (\<lambda>h. ''May 01, 2019''),
      open_reply = (\<lambda>h p. None),
      isdir_reply = (\<lambda>h p. True),
      rmtree_reply = (\<lambda>h p. None),
      copytree_reply = (\<lambda>h src dst. None),
      make_installers_reply = (\<lambda>h f i. None),
      post_reply = (\<lambda>h a. Inr \<lparr>raise_for_status = None,
                                json_upload_url = Inr ''https://uploads/assets{?name,label}''\<rparr>),
      walk_reply = (\<lambda>h p. [(p, [''export-layers.zip'', ''notes'', ''setup.exe''])]),
      read_reply = (\<lambda>h p. Inr ''bytes''),
      format_exc = (\<lambda>e. ''Traceback''),
      path_text = (\<lambda>p. ''config.py''),
      re_sub = (\<lambda>call v text. Inl (PyException ''re.error''))\<rparr>"

definition sample_options :: options where
  "sample_options =
     \<lparr>release_type = ''minor'', github_access_token = ''secret'', force = False,
      installers = [''all''], dry_run = False, prerelease = None, remote_name = ''origin'',
      remote_branch = ''master'', interactive = False\<rparr>"

definition config_line :: "string \<Rightarrow> string \<Rightarrow> string" where
  "config_line entry v = entry_prefix entry @ [DQ] @ v @ [DQ, NL]"

definition sample_world :: world where
  "sample_world =
     \<lparr>rm = options.extend sample_options
             (release_metadata.fields (Some ''1.2.0'') [''1.1.0'', ''1.2.0''] ''khalim19''
                ''gimp-plugin-export-layers'' None [] ''c0ffee'' ''d0c5''),
      config = \<lparr>PLUGIN_VERSION = Some ''1.2.0'',
                 PLUGIN_VERSION_RELEASE_DATE = Some ''April 01, 2019'',
                 AUTHOR_NAME = ''khalim19'', REPOSITORY_NAME = ''gimp-plugin-export-layers''\<rparr>,
      changelog_file = ''# Unreleased\<newline>\<newline>* Fixed a bug.\<newline>\<newline># 1.2.0\<newline>'',
      config_file = [config_line ''PLUGIN_VERSION'' ''1.2.0'',
                     config_line ''PLUGIN_VERSION_RELEASE_DATE'' ''April 01, 2019''],
      trace = [], sigint_delivered = False, rollback_calls = 0\<rparr>"

text \<open>The same outside, but the tag 1.3.0 exists already.\<close>

definition tag_exists_env :: "string env" where
  "tag_exists_env =
     sample_env\<lparr>git_reply := (\<lambda>h repo command args.
        if command = ''tag'' \<and> args = [Some ''-l'', Some ''1.3.0''] then Inr ''1.3.0''
        else git_reply sample_env h repo command args)\<rparr>"

text \<open>The same outside, but the first \<^verbatim>\<open>git commit\<close> fails.\<close>

definition commit_fails_env :: "string env" where
  "commit_fails_env =
     sample_env\<lparr>git_reply := (\<lambda>h repo command args.
        if command = ''commit'' then Inl GitCommandError
        else git_reply sample_env h repo command args)\<rparr>"

text \<open>The same outside, but the user answers the prompt with \<^verbatim>\<open>n\<close>.\<close>

definition declining_env :: "string env" where
  "declining_env = sample_env\<lparr>input_reply := (\<lambda>h. Inr ''n'')\<rparr>"

definition dry_world :: world where
  "dry_world = sample_world\<lparr>rm := (rm sample_world)\<lparr>dry_run := True\<rparr>\<rparr>"

definition interactive_world :: world where
  "interactive_world = sample_world\<lparr>rm := (rm sample_world)\<lparr>interactive := True\<rparr>\<rparr>"

subsection \<open>Well-formed requests to the entry scan\<close>

text \<open>
  An entry the scan is asked for, as the script asks: the name has no space in it (the
  two names of the script are identifiers) and the new value is a string without a
  backslash (a version, a date).
\<close>

definition entry_ok :: "string \<times> string option \<Rightarrow> bool" where
  "entry_ok x \<longleftrightarrow> CHR '' '' \<notin> set (fst x) \<and> (\<exists>s. snd x = Some s \<and> BSL \<notin> set s)"

subsection \<open>Notions used in the statements\<close>

text \<open>
  A piece of the script guards a property \<open>I\<close> of the state and a set \<open>E\<close> of failures
  when, started in a state with \<open>I\<close>, it ends in a state with \<open>I\<close>, and every failure it
  ends in is one of \<open>E\<close>.
\<close>

definition guards :: "(world \<Rightarrow> bool) \<Rightarrow> (failure \<Rightarrow> bool) \<Rightarrow> 'a prog \<Rightarrow> bool" where
  "guards I E m \<longleftrightarrow> (\<forall>s. I s \<longrightarrow> I (snd (m s)) \<and> (\<forall>f. fst (m s) = Fail f \<longrightarrow> E f))"

text \<open>
  The actions that change nothing in a repository, a file or on the network: printing,
  asking for input or the time, reading a file or the name of the active branch, and the
  git queries \<^verbatim>\<open>status --porcelain\<close>, \<^verbatim>\<open>rev-parse HEAD\<close> and \<^verbatim>\<open>tag -l ...\<close>.
\<close>

fun read_only :: "action \<Rightarrow> bool" where
  "read_only (Stdout _) = True"
| "read_only (Stderr _) = True"
| "read_only (Git _ command args) =
     ((command = ''status'' \<and> args = [Some ''--porcelain''])
      \<or> (command = ''rev-parse'' \<and> args = [Some ''HEAD''])
      \<or> (command = ''tag'' \<and> take 1 args = [Some ''-l'']))"
| "read_only (ActiveBranch _) = True"
| "read_only (Input _) = True"
| "read_only GmTime = True"
| "read_only (ReadFile _) = True"
| "read_only (WriteFile _ _) = False"
| "read_only (IsDir _) = True"
| "read_only (RmTree _) = False"
| "read_only (CopyTree _ _) = False"
| "read_only (MakeInstallers _ _) = False"
| "read_only (Post _ _ _ _) = False"
| "read_only (OsWalk _) = True"
| "read_only (ReadBytes _) = True"

text \<open>The trace \<open>t\<close> is the trace \<open>t0\<close> and, after it, read-only actions.\<close>

definition read_only_since :: "action list \<Rightarrow> action list \<Rightarrow> bool" where
  "read_only_since t0 t \<longleftrightarrow>
     take (length t0) t = t0 \<and> list_all read_only (drop (length t0) t)"

definition untouched :: "world \<Rightarrow> world \<Rightarrow> bool" where
  "untouched s0 s \<longleftrightarrow>
     changelog_file s = changelog_file s0 \<and> config_file s = config_file s0
     \<and> read_only_since (trace s0) (trace s)"

definition checkpoints :: "world \<Rightarrow> string \<times> string" where
  "checkpoints s =
     (last_commit_id_before_release (rm s), last_gh_pages_commit_id_before_release (rm s))"

text \<open>
  The exit statuses the script passes to \<^verbatim>\<open>sys.exit\<close> are 1 and
  \<^verbatim>\<open>PROMPT_NO_EXIT_STATUS\<close>.
\<close>

definition script_failure :: "failure \<Rightarrow> bool" where
  "script_failure f \<longleftrightarrow> (case f of SysExit n \<Rightarrow> n = 1 \<or> n = 2 | _ \<Rightarrow> True)"

text \<open>
  A property of the state that does not depend on what the steps of the release write:
  the trace, \<^verbatim>\<open>new_version\<close>, the release notes, \<^verbatim>\<open>pg.config\<close> and the two files.
\<close>

definition frame :: "(world \<Rightarrow> bool) \<Rightarrow> bool" where
  "frame I \<longleftrightarrow>
     (\<forall>s. I s \<longrightarrow>
        (\<forall>t. I (s\<lparr>trace := t\<rparr>))
        \<and> (\<forall>v. I (s\<lparr>rm := (rm s)\<lparr>new_version := v\<rparr>\<rparr>))
        \<and> (\<forall>n. I (s\<lparr>rm := (rm s)\<lparr>new_version_release_notes := n\<rparr>\<rparr>))
        \<and> (\<forall>c. I (s\<lparr>config := c\<rparr>))
        \<and> (\<forall>c. I (s\<lparr>changelog_file := c\<rparr>))
        \<and> (\<forall>c. I (s\<lparr>config_file := c\<rparr>)))"

text \<open>The release metadata, \<^verbatim>\<open>pg.config\<close> and the two files are the same in both states.\<close>

definition same_release :: "world \<Rightarrow> world \<Rightarrow> bool" where
  "same_release s0 s \<longleftrightarrow> rm s = rm s0 \<and> config s = config s0
     \<and> changelog_file s = changelog_file s0 \<and> config_file s = config_file s0"

text \<open>The state \<open>s\<close> belongs to a dry run that has touched nothing since the state \<open>s0\<close>.\<close>

definition dry :: "world \<Rightarrow> world \<Rightarrow> bool" where
  "dry s0 s \<longleftrightarrow> dry_run (rm s) \<and> untouched s0 s"

text \<open>
  The three git commands of \<^verbatim>\<open>_rollback\<close>, and the answers to the tag deletion after
  which \<^verbatim>\<open>_rollback\<close> goes on: success, and the \<^verbatim>\<open>GitCommandError\<close> it catches.
\<close>

definition tag_deletion :: "world \<Rightarrow> action" where
  "tag_deletion s = Git MainRepo ''tag'' [Some ''-d'', new_version (rm s)]"

definition reset_main :: "world \<Rightarrow> action" where
  "reset_main s =
     Git MainRepo ''reset'' [Some ''--hard'', Some (last_commit_id_before_release (rm s))]"

definition reset_pages :: "world \<Rightarrow> action" where
  "reset_pages s =
     Git GhPagesRepo ''reset''
       [Some ''--hard'', Some (last_gh_pages_commit_id_before_release (rm s))]"

definition passed_or_swallowed :: "exn + string \<Rightarrow> bool" where
  "passed_or_swallowed reply \<longleftrightarrow> (case reply of Inl e \<Rightarrow> e = GitCommandError | Inr _ \<Rightarrow> True)"

text \<open>The same outside, but no tag 1.3.0 exists when the rollback wants to delete it.\<close>

definition no_tag_env :: "string env" where
  "no_tag_env =
     sample_env\<lparr>git_reply := (\<lambda>h repo command args.
        if command = ''tag'' \<and> take 1 args = [Some ''-d''] then Inl GitCommandError
        else git_reply sample_env h repo command args)\<rparr>"

definition tagged_world :: world where
  "tagged_world = sample_world\<lparr>rm := (rm sample_world)\<lparr>new_version := Some ''1.3.0''\<rparr>\<rparr>"

text \<open>The sample state with a \<^verbatim>\<open>config.py\<close> that has no entry for the release date.\<close>

definition undated_world :: world where
  "undated_world =
     tagged_world\<lparr>config_file := [config_line ''PLUGIN_VERSION'' ''1.2.0'',
                                   ''# no date here\<newline>'']\<rparr>"

definition sample_entries :: entries where
  "sample_entries =
     [(''PLUGIN_VERSION'', Some ''1.3.0''),
      (''PLUGIN_VERSION_RELEASE_DATE'', Some ''May 01, 2019'')]"

text \<open>The same outside, but the interrupt signal arrives after twelve actions.\<close>

definition interrupted_env :: "string env" where
  "interrupted_env = sample_env\<lparr>sigint_at := Some 12\<rparr>"

text \<open>The same outside, but the working tree of the main repository has local changes.\<close>

definition dirty_env :: "string env" where
  "dirty_env =
     sample_env\<lparr>git_reply := (\<lambda>h repo command args.
        if command = ''status'' \<and> repo = MainRepo then Inr '' M README.md''
        else git_reply sample_env h repo command args)\<rparr>"

text \<open>The sample state of a dry run in which the new version 1.3.0 is known.\<close>

definition dry_tagged_world :: world where
  "dry_tagged_world = tagged_world\<lparr>rm := (rm tagged_world)\<lparr>dry_run := True\<rparr>\<rparr>"

text \<open>
  No interrupt arrives during the next \<open>n\<close> actions after the state \<open>s\<close>: the signal has
  been delivered already (the handler is running), or it never arrives, or it arrives
  at a length of the trace that is not among the next \<open>n\<close>.
\<close>

definition interrupt_free :: "'v env \<Rightarrow> world \<Rightarrow> nat \<Rightarrow> bool" where
  "interrupt_free env s n \<longleftrightarrow>
     sigint_delivered s
     \<or> (case sigint_at env of
           None \<Rightarrow> True
         | Some k \<Rightarrow> k < length (trace s) \<or> length (trace s) + n \<le> k)"

text \<open>
  The state in which the interrupt handler calls \<^verbatim>\<open>_rollback\<close> in the sample run that is
  interrupted after twelve actions.
\<close>

definition interrupted_world :: world where
  "interrupted_world =
     (let s0 = snd (make_release_steps interrupted_env sample_world)
      in s0\<lparr>sigint_delivered := True,
            trace := trace s0 @ [Stderr (NL # ''Performing rollback and aborting.'')]\<rparr>)"

text \<open>
  The sample state with a changelog whose first header has an empty title, and the
  sample state and outside for a changelog with an underlined first header, where
  \<^verbatim>\<open>find_section\<close> takes the first two lines of the document as the header.
\<close>

definition untitled_world :: world where
  "untitled_world =
     tagged_world\<lparr>changelog_file := ''# \<newline>\<newline>* Fixed a bug.\<newline>\<newline># 1.2.0\<newline>''\<rparr>"

definition underlined_world :: world where
  "underlined_world =
     tagged_world\<lparr>changelog_file :=
       ''Unreleased\<newline>==========\<newline>\<newline>* Fixed a bug.\<newline>''\<rparr>"

definition underline_env :: "string env" where
  "underline_env =
     sample_env\<lparr>find_section := (\<lambda>doc.
        (takeWhile (\<lambda>c. c \<noteq> NL) doc @ [NL]
           @ takeWhile (\<lambda>c. c \<noteq> NL) (after_line doc) @ [NL],
         after_line (after_line doc)))\<rparr>"

text \<open>A later state of the same run: the new version is among the released versions.\<close>

definition released_in :: "world \<Rightarrow> world" where
  "released_in s =
     s\<lparr>rm := (rm s)\<lparr>released_versions := released_versions (rm s) @ [''1.3.0'']\<rparr>\<rparr>"

section \<open>Properties\<close>

subsection \<open>The scan of \<^verbatim>\<open>config.py\<close>\<close>


lemma entry_body_name:
  assumes "entry_body n s" and "CHR '' '' \<notin> set n"
  shows "takeWhile (\<lambda>c. c \<noteq> CHR '' '') (drop 2 s) = n"
proof -
  let ?p = "entry_prefix n @ [DQ]"
  from assms(1) have "take (length ?p) s = ?p"
    by (simp add: entry_body_def Let_def)
  then have "s = ?p @ drop (length ?p) s"
    by (metis append_take_drop_id)
  then obtain r where "s = ''c.'' @ n @ '' = '' @ [DQ] @ r"
    by (auto simp: entry_prefix_def)
  then have "drop 2 s = n @ ('' = '' @ [DQ] @ r)" by simp
  with assms(2) show ?thesis
    by (auto simp: takeWhile_tail)
qed

lemma entry_search_name:
  assumes "entry_search n l" and "CHR '' '' \<notin> set n"
  shows "takeWhile (\<lambda>c. c \<noteq> CHR '' '') (drop 2 (if ends_with_newline l then butlast l else l)) = n"
  using assms by (auto simp: entry_search_def entry_body_name split: if_splits)

lemma entry_search_unique:
  "entry_search n l \<Longrightarrow> entry_search m l \<Longrightarrow> CHR '' '' \<notin> set n \<Longrightarrow> CHR '' '' \<notin> set m \<Longrightarrow> n = m"
  using entry_search_name by metis

lemma scan_entries_pending:
  "\<forall>x\<in>set es. entry_ok x \<Longrightarrow>
   \<exists>c. scan_entries re line es cur = Inr (c, filter (\<lambda>x. \<not> entry_search (fst x) line) es)"
proof (induction es arbitrary: cur)
  case Nil
  then show ?case by simp
next
  case (Cons x es)
  obtain n v where x: "x = (n, v)" by (cases x)
  from Cons.prems x obtain s where v: "v = Some s" "BSL \<notin> set s"
    by (auto simp: entry_ok_def)
  from Cons.prems have rest: "\<forall>x\<in>set es. entry_ok x" by simp
  show ?case
  proof (cases "entry_search n line")
    case True
    from Cons.IH [OF rest, of "entry_line n s line"] True x v show ?thesis
      by (auto simp: entry_sub_def)
  next
    case False
    from Cons.IH [OF rest, of cur] False x show ?thesis
      by auto
  qed
qed

lemma scan_entries_unmatched:
  "scan_entries re line es cur = Inr (c, p) \<Longrightarrow> \<forall>x\<in>set es. \<not> entry_search (fst x) line \<Longrightarrow> c = cur"
  by (induction es arbitrary: cur c p) (auto split: sum.splits)

lemma scan_entries_matched:
  assumes "scan_entries re line es cur = Inr (c, p)"
    and "(n, Some s) \<in> set es" and "entry_search n line" and "BSL \<notin> set s"
    and "\<forall>x\<in>set es. entry_search (fst x) line \<longrightarrow> x = (n, Some s)"
  shows "c = entry_line n s line"
  using assms
proof (induction es arbitrary: cur c p)
  case Nil
  then show ?case by simp
next
  case (Cons x es)
  obtain m v where x: "x = (m, v)" by (cases x)
  show ?case
  proof (cases "entry_search m line")
    case True
    with Cons.prems(5) x have mv: "m = n" "v = Some s" by auto
    from Cons.prems(1) x True mv Cons.prems(4)
    have run: "scan_entries re line es (entry_line n s line) = Inr (c, p)"
      by (auto simp: entry_sub_def Cons.prems(3))
    show ?thesis
    proof (cases "(n, Some s) \<in> set es")
      case True
      from Cons.IH [OF run True Cons.prems(3,4)] Cons.prems(5) show ?thesis by simp
    next
      case False
      with Cons.prems(5) have "\<forall>x\<in>set es. \<not> entry_search (fst x) line" by auto
      from scan_entries_unmatched [OF run this] show ?thesis .
    qed
  next
    case False
    with Cons.prems(1) x obtain p' where run: "scan_entries re line es cur = Inr (c, p')"
      by (auto split: sum.splits)
    from False Cons.prems(2,3) x have "(n, Some s) \<in> set es" by auto
    from Cons.IH [OF run this Cons.prems(3,4)] Cons.prems(5) show ?thesis by simp
  qed
qed


lemma scan_lines_result:
  assumes "distinct (map fst es)" and "\<forall>x\<in>set es. entry_ok x"
  shows "\<exists>ls'. scan_lines re ls es = Inr (ls', filter (\<lambda>x. \<forall>l\<in>set ls. \<not> entry_search (fst x) l) es)
     \<and> length ls' = length ls
     \<and> (\<forall>n s i. (n, Some s) \<in> set es \<longrightarrow> i < length ls \<longrightarrow> entry_search n (ls ! i)
           \<longrightarrow> (\<forall>j<i. \<not> entry_search n (ls ! j)) \<longrightarrow> ls' ! i = entry_line n s (ls ! i))"
  using assms
proof (induction ls arbitrary: es)
  case Nil
  then show ?case by simp
next
  case (Cons line ls)
  let ?pending = "filter (\<lambda>x. \<not> entry_search (fst x) line) es"
  from scan_entries_pending [OF Cons.prems(2), of re line line]
  obtain c where c: "scan_entries re line es line = Inr (c, ?pending)" by blast
  have first: "c = entry_line n s line"
    if "(n, Some s) \<in> set es" "entry_search n line" for n s
  proof -
    from that(1) Cons.prems(2) have ok: "CHR '' '' \<notin> set n" "BSL \<notin> set s"
      by (auto simp: entry_ok_def)
    have "\<forall>x\<in>set es. entry_search (fst x) line \<longrightarrow> x = (n, Some s)"
    proof (intro ballI impI)
      fix x assume x: "x \<in> set es" "entry_search (fst x) line"
      with Cons.prems(2) have "CHR '' '' \<notin> set (fst x)" by (auto simp: entry_ok_def)
      with entry_search_unique [OF x(2) that(2)] ok have "fst x = n" by simp
      with x(1) that(1) Cons.prems(1) show "x = (n, Some s)"
        by (metis eq_key_imp_eq_value prod.collapse)
    qed
    from scan_entries_matched [OF c that(1) that(2) ok(2) this] show ?thesis .
  qed
  show ?case
  proof (cases "?pending = []")
    case True
    then have all: "\<forall>x\<in>set es. entry_search (fst x) line"
      by (simp add: filter_empty_conv)
    then have "filter (\<lambda>x. \<forall>l\<in>set (line # ls). \<not> entry_search (fst x) l) es = []"
      by (auto simp: filter_empty_conv)
    moreover have "(c # ls) ! i = entry_line n s ((line # ls) ! i)"
      if "(n, Some s) \<in> set es" "entry_search n ((line # ls) ! i)"
         "\<forall>j<i. \<not> entry_search n ((line # ls) ! j)" for n s i
    proof (cases i)
      case 0
      with that first show ?thesis by simp
    next
      case (Suc k)
      with that(3) have "\<not> entry_search n line" by auto
      with all that(1) show ?thesis by auto
    qed
    ultimately show ?thesis using c True by auto
  next
    case False
    have d: "distinct (map fst ?pending)" using Cons.prems(1) by (simp add: distinct_map_filter)
    have o: "\<forall>x\<in>set ?pending. entry_ok x" using Cons.prems(2) by simp
    from Cons.IH [OF d o] obtain ls' where
      run: "scan_lines re ls ?pending = Inr (ls', filter (\<lambda>x. \<forall>l\<in>set ls. \<not> entry_search (fst x) l) ?pending)"
      and len: "length ls' = length ls"
      and sub: "\<And>n s i. (n, Some s) \<in> set ?pending \<Longrightarrow> i < length ls \<Longrightarrow> entry_search n (ls ! i)
           \<Longrightarrow> (\<forall>j<i. \<not> entry_search n (ls ! j)) \<Longrightarrow> ls' ! i = entry_line n s (ls ! i)"
      by blast
    have f: "filter (\<lambda>x. \<forall>l\<in>set ls. \<not> entry_search (fst x) l) ?pending
          = filter (\<lambda>x. \<forall>l\<in>set (line # ls). \<not> entry_search (fst x) l) es"
      by (auto intro: filter_cong)
    have "(c # ls') ! i = entry_line n s ((line # ls) ! i)"
      if "(n, Some s) \<in> set es" "i < length (line # ls)" "entry_search n ((line # ls) ! i)"
         "\<forall>j<i. \<not> entry_search n ((line # ls) ! j)" for n s i
    proof (cases i)
      case 0
      with that first show ?thesis by simp
    next
      case (Suc k)
      with that(4) have no: "\<not> entry_search n line" by auto
      with that(1) have mem: "(n, Some s) \<in> set ?pending" by simp
      from that(4) Suc have "\<forall>j<k. \<not> entry_search n (ls ! j)" by auto
      from sub [OF mem _ _ this, of ] that(2,3) Suc show ?thesis by simp
    qed
    then show ?thesis using c False run len f by auto
  qed
qed

subsection \<open>Rules for \<open>guards\<close>\<close>

named_theorems grd

lemma guards_ret [grd]: "guards I E (ret x)"
  by (simp add: guards_def ret_def)

lemma guards_fail: "E f \<Longrightarrow> guards I E (fail f)"
  by (simp add: guards_def fail_def)

lemma guards_gets [grd]: "guards I E (gets f)"
  by (simp add: guards_def gets_def)

lemma guards_modify: "(\<And>s. I s \<Longrightarrow> I (f s)) \<Longrightarrow> guards I E (modify f)"
  by (simp add: guards_def modify_def)

lemma guards_act:
  "(\<And>s. I s \<Longrightarrow> I (s\<lparr>trace := trace s @ [a]\<rparr>)) \<Longrightarrow> (\<And>e. E (Raise e))
   \<Longrightarrow> (\<And>s. I s \<Longrightarrow> sigint_now env s \<Longrightarrow> E Sigint) \<Longrightarrow> guards I E (act env a r)"
  by (auto simp: guards_def act_def split: sum.splits)

lemma guards_bnd [grd]:
  "guards I E m \<Longrightarrow> (\<And>x. guards I E (f x)) \<Longrightarrow> guards I E (bnd m f)"
  unfolding guards_def bnd_def
  by (auto split: prod.splits result.splits)

lemma guards_thn [grd]: "guards I E m \<Longrightarrow> guards I E k \<Longrightarrow> guards I E (thn m k)"
  by (simp add: thn_def guards_bnd)

lemma guards_run_steps: "(\<And>m. m \<in> set ms \<Longrightarrow> guards I E m) \<Longrightarrow> guards I E (run_steps ms)"
  by (induction ms) (auto intro: grd)

lemma guards_unless_dry_run [grd]: "guards I E m \<Longrightarrow> guards I E (unless_dry_run m)"
  by (auto simp: unless_dry_run_def intro!: grd)

lemma guards_dry_run: "(\<And>s. I s \<Longrightarrow> dry_run (rm s)) \<Longrightarrow> guards I E (unless_dry_run m)"
  by (auto simp: guards_def unless_dry_run_def bnd_def gets_def ret_def)

lemma guards_conj:
  "guards I E m \<Longrightarrow> guards J E m \<Longrightarrow> guards (\<lambda>s. I s \<and> J s) E m"
  by (auto simp: guards_def)

lemma guards_weaken: "guards I E m \<Longrightarrow> (\<And>f. E f \<Longrightarrow> E' f) \<Longrightarrow> guards I E' m"
  by (simp add: guards_def)

lemma guardsD: "guards I E m \<Longrightarrow> I s \<Longrightarrow> I (snd (m s))"
  and guards_failD: "guards I E m \<Longrightarrow> I s \<Longrightarrow> fst (m s) = Fail f \<Longrightarrow> E f"
  by (simp_all add: guards_def)

subsection \<open>What no step of the release touches\<close>

lemma frame_act [grd]: "frame I \<Longrightarrow> guards I script_failure (act env a r)"
  by (rule guards_act) (simp_all add: frame_def script_failure_def)

lemma frame_exit [grd]:
  "n = 1 \<or> n = 2 \<Longrightarrow> guards I script_failure (fail (SysExit n))"
  "guards I script_failure (fail (Raise e))"
  by (auto simp: guards_fail script_failure_def)

lemma frame_modify_new_version [grd]:
  "frame I \<Longrightarrow> guards I E (modify (\<lambda>s. s\<lparr>rm := (rm s)\<lparr>new_version := v\<rparr>\<rparr>))"
  by (rule guards_modify) (simp add: frame_def)

lemma frame_modify_notes [grd]:
  "frame I \<Longrightarrow> guards I E (modify (\<lambda>s. s\<lparr>rm := (rm s)\<lparr>new_version_release_notes := n\<rparr>\<rparr>))"
  by (rule guards_modify) (simp add: frame_def)

lemma frame_modify_config [grd]:
  "frame I \<Longrightarrow> guards I E (modify (\<lambda>s. s\<lparr>config := f (config s)\<rparr>))"
  by (rule guards_modify) (simp add: frame_def)

lemma frame_modify_changelog [grd]:
  "frame I \<Longrightarrow> guards I E (modify (\<lambda>s. s\<lparr>changelog_file := c\<rparr>))"
  by (rule guards_modify) (simp add: frame_def)

lemma frame_modify_config_file [grd]:
  "frame I \<Longrightarrow> guards I E (modify (\<lambda>s. s\<lparr>config_file := c\<rparr>))"
  by (rule guards_modify) (simp add: frame_def)

lemma frame_prims [grd]:
  assumes "frame I"
  shows "guards I script_failure (print env msg)"
    and "guards I script_failure (print_error env msg)"
    and "n = 1 \<or> n = 2 \<Longrightarrow> guards I script_failure (print_error_and_exit env msg n)"
    and "guards I script_failure (git env repo c a)"
    and "guards I script_failure (git_do env repo c a)"
    and "guards I script_failure (active_branch_name env repo)"
    and "guards I script_failure (isdir env p)"
    and "guards I script_failure (rmtree env p)"
    and "guards I script_failure (copytree env p q)"
    and "guards I script_failure (read_changelog env)"
    and "guards I script_failure (write_changelog env contents)"
    and "guards I script_failure (read_config_lines env)"
    and "guards I script_failure (write_config_lines env ls)"
    and "guards I script_failure (post env request)"
    and "guards I script_failure (check_status r)"
  using assms
  unfolding print_def print_error_def print_error_and_exit_def git_def git_do_def
    active_branch_name_def isdir_def rmtree_def copytree_def read_changelog_def
    write_changelog_def read_config_lines_def write_config_lines_def post_def check_status_def
  by (auto intro!: grd split: option.splits)

lemma frame_check_branches:
  "frame I \<Longrightarrow> guards I script_failure (check_branches_for_local_changes env)"
  unfolding check_branches_for_local_changes_def has_active_branch_local_changes_def
  by (auto intro!: grd)

lemma frame_get_next_version:
  "frame I \<Longrightarrow> guards I script_failure (get_next_version env)"
  unfolding get_next_version_def
  by (auto intro!: grd split: sum.splits exn.splits)

lemma frame_check_tag:
  "frame I \<Longrightarrow> guards I script_failure (check_if_tag_with_new_version_already_exists env)"
  unfolding check_if_tag_with_new_version_already_exists_def
  by (auto intro!: grd)

lemma frame_prompt_step:
  "frame I \<Longrightarrow> guards I script_failure (prompt_step env)"
  unfolding prompt_step_def prompt_to_proceed_def
  by (auto intro!: grd simp: PROMPT_NO_EXIT_STATUS_def split: sum.splits exn.splits)

lemma frame_changelog_step:
  "frame I \<Longrightarrow> guards I script_failure (get_release_notes_and_modify_changelog_first_header env)"
  unfolding get_release_notes_and_modify_changelog_first_header_def
  by (auto intro!: grd split: sum.splits option.splits)

lemma frame_config_step:
  "frame I \<Longrightarrow> guards I script_failure (update_version_and_release_date_in_config env)"
  unfolding update_version_and_release_date_in_config_def modify_config_entries_def
  by (auto intro!: grd split: sum.splits option.splits prod.splits)

lemma frame_commit:
  "frame I \<Longrightarrow> guards I script_failure (create_release_commit env repo)"
  unfolding create_release_commit_def
  by (auto intro!: grd)

lemma frame_tag:
  "frame I \<Longrightarrow> guards I script_failure (create_release_tag env)"
  unfolding create_release_tag_def
  by (auto intro!: grd)

lemma frame_refresh_dirs [grd]: "frame I \<Longrightarrow> guards I script_failure (refresh_dirs env ds)"
  by (induction ds) (auto intro!: grd)

lemma frame_prepare:
  "frame I \<Longrightarrow> guards I script_failure (prepare_gh_pages_for_update env)"
  unfolding prepare_gh_pages_for_update_def
  by (auto intro!: grd)

lemma frame_make_installers:
  "frame I \<Longrightarrow> guards I script_failure (make_installers env)"
  unfolding make_installers_def
  by (auto intro!: grd)

lemma frame_push_commit:
  "frame I \<Longrightarrow> guards I script_failure (push_release_commit env repo b)"
  unfolding push_release_commit_def Let_def
  by (auto intro!: grd)

lemma frame_push_tag:
  "frame I \<Longrightarrow> guards I script_failure (push_release_tag env)"
  unfolding push_release_tag_def
  by (auto intro!: grd)

lemma frame_upload_file [grd]: "frame I \<Longrightarrow> guards I script_failure (upload_file env u h r f)"
  unfolding upload_file_def Let_def
  by (auto intro!: grd split: option.splits)

lemma frame_upload_files [grd]: "frame I \<Longrightarrow> guards I script_failure (upload_files env u h r fs)"
  by (induction fs) (auto intro!: grd)

lemma frame_upload_dirs [grd]: "frame I \<Longrightarrow> guards I script_failure (upload_dirs env u h ds)"
  by (induction ds) (auto intro!: grd)

lemma frame_github:
  "frame I \<Longrightarrow> guards I script_failure (create_github_release env)"
  unfolding create_github_release_def upload_installers_to_github_def Let_def
  by (auto intro!: grd split: option.splits sum.splits)

lemmas frame_steps = frame_check_branches frame_get_next_version frame_check_tag
  frame_prompt_step frame_changelog_step frame_config_step frame_commit frame_tag
  frame_prepare frame_make_installers frame_push_commit frame_push_tag frame_github

lemma frame_make_release_steps:
  "frame I \<Longrightarrow> guards I script_failure (make_release_steps env)"
  unfolding make_release_steps_def steps_before_tag_check_def steps_after_prompt_def
  by (rule guards_run_steps)
    (auto intro!: grd frame_steps)

subsection \<open>Rollback and the two handlers\<close>

lemmas prog_defs = bnd_def thn_def ret_def fail_def gets_def modify_def act_def
  unless_dry_run_def may_raise_def

lemma guards_except_GitCommandError_pass [grd]:
  "guards I E m \<Longrightarrow> guards I E (except_GitCommandError_pass m)"
  unfolding guards_def except_GitCommandError_pass_def
  by (auto split: prod.splits result.splits failure.splits exn.splits)

lemma rollback_unfold:
  "rollback env s = rollback_actions env (s\<lparr>rollback_calls := Suc (rollback_calls s)\<rparr>)"
  by (simp add: rollback_def thn_def bnd_def modify_def)

lemma guards_rollback_actions:
  assumes "\<And>s t. I s \<Longrightarrow> I (s\<lparr>trace := t\<rparr>)" and "\<And>e. E (Raise e)"
    and "\<And>s. I s \<Longrightarrow> sigint_now env s \<Longrightarrow> E Sigint"
  shows "guards I E (rollback_actions env)"
  unfolding rollback_actions_def git_do_def git_def isdir_def rmtree_def
  by (intro grd guards_act allI) (auto intro!: grd guards_act assms)

lemma rollback_result:
  assumes "rollback env s = (r, s')"
  shows "rollback_calls s' = Suc (rollback_calls s) \<and> same_release s s'
     \<and> sigint_delivered s' = sigint_delivered s
     \<and> (r = Ok () \<or> (\<exists>e. r = Fail (Raise e)) \<or> (r = Fail Sigint \<and> \<not> sigint_delivered s))"
proof -
  let ?I = "\<lambda>x. rollback_calls x = Suc (rollback_calls s) \<and> same_release s x
     \<and> sigint_delivered x = sigint_delivered s"
  let ?E = "\<lambda>f. (\<exists>e. f = Raise e) \<or> (f = Sigint \<and> \<not> sigint_delivered s)"
  have g: "guards ?I ?E (rollback_actions env)"
    by (rule guards_rollback_actions) (auto simp: same_release_def sigint_now_def)
  have i: "?I (s\<lparr>rollback_calls := Suc (rollback_calls s)\<rparr>)"
    by (simp add: same_release_def)
  from assms have run: "rollback_actions env (s\<lparr>rollback_calls := Suc (rollback_calls s)\<rparr>) = (r, s')"
    by (simp add: rollback_unfold)
  from guardsD [OF g i] run have "?I s'" by simp
  moreover have "r = Ok () \<or> ?E (case r of Fail f \<Rightarrow> f)"
  proof (cases r)
    case (Ok u) then show ?thesis by simp
  next
    case (Fail f)
    with guards_failD [OF g i, of f] run show ?thesis by simp
  qed
  ultimately show ?thesis by (cases r) auto
qed


lemma sigint_now_delivered [simp]: "sigint_delivered s \<Longrightarrow> \<not> sigint_now env s"
  by (simp add: sigint_now_def)

lemma sigint_now_none [simp]: "sigint_at env = None \<Longrightarrow> \<not> sigint_now env s"
  by (simp add: sigint_now_def)

lemma sigint_now_trace [simp]:
  "sigint_now env (s\<lparr>rollback_calls := n\<rparr>) = sigint_now env s"
  by (simp add: sigint_now_def)

lemma act_run:
  "\<not> sigint_now env s \<Longrightarrow>
   act env a r s = (case r (trace s) of Inl e \<Rightarrow> Fail (Raise e) | Inr x \<Rightarrow> Ok x,
                    s\<lparr>trace := trace s @ [a]\<rparr>)"
  by (simp add: act_def)

lemma act_sigint: "sigint_now env s \<Longrightarrow> act env a r s = (Fail Sigint, s)"
  by (simp add: act_def)

lemma print_error_run:
  "\<not> sigint_now env s \<Longrightarrow> print_error env msg s = (Ok (), s\<lparr>trace := trace s @ [Stderr msg]\<rparr>)"
  by (simp add: print_error_def act_run)

lemma handle_sigint_result:
  assumes "handle_sigint env s = (r, s')"
  shows "rollback_calls s' = Suc (rollback_calls s) \<and> same_release s s' \<and> sigint_delivered s'
     \<and> (r = Fail (SysExit 1) \<or> (\<exists>e. r = Fail (Raise e)))"
proof -
  let ?s1 = "s\<lparr>sigint_delivered := True\<rparr>"
  let ?s2 = "?s1\<lparr>trace := trace ?s1 @ [Stderr (NL # ''Performing rollback and aborting.'')]\<rparr>"
  obtain r3 s3 where rb: "rollback env ?s2 = (r3, s3)" by (cases "rollback env ?s2")
  from rollback_result [OF rb]
  have 3: "rollback_calls s3 = Suc (rollback_calls s)" "same_release ?s2 s3" "sigint_delivered s3"
    "r3 = Ok () \<or> (\<exists>e. r3 = Fail (Raise e))"
    by auto
  have "handle_sigint env s = (case r3 of Ok _ \<Rightarrow> Fail (SysExit 1) | Fail f \<Rightarrow> Fail f, s3)"
    using rb
    by (simp add: handle_sigint_def thn_def bnd_def modify_def print_error_run fail_def
        split: result.splits)
  with assms 3 show ?thesis
    by (auto simp: same_release_def)
qed

lemma except_Exception_result:
  assumes "on_sigint env (except_Exception env e) s = (r, s')"
  shows "rollback_calls s < rollback_calls s' \<and> same_release s s'
     \<and> (r = Fail (SysExit 1) \<or> (\<exists>e'. r = Fail (Raise e')))"
proof (cases "sigint_now env s")
  case True
  then have "on_sigint env (except_Exception env e) s = handle_sigint env s"
    by (simp add: on_sigint_def except_Exception_def thn_def bnd_def print_error_def act_sigint)
  with assms handle_sigint_result [of env s r s'] show ?thesis by auto
next
  case False
  let ?msg = "NL # ''The following error has occurred:'' @ [NL] @ format_exc env e
                           @ [NL] @ ''Performing rollback and aborting.''"
  let ?s1 = "s\<lparr>trace := trace s @ [Stderr ?msg]\<rparr>"
  obtain r2 s2 where rb: "rollback env ?s1 = (r2, s2)" by (cases "rollback env ?s1")
  from rollback_result [OF rb]
  have 2: "rollback_calls s2 = Suc (rollback_calls s)" "same_release ?s1 s2"
    "r2 = Ok () \<or> (\<exists>e. r2 = Fail (Raise e)) \<or> r2 = Fail Sigint"
    by auto
  have ex: "except_Exception env e s
      = (case r2 of Ok _ \<Rightarrow> Fail (SysExit 1) | Fail f \<Rightarrow> Fail f, s2)"
    using rb False
    by (simp add: except_Exception_def thn_def bnd_def print_error_run fail_def
        split: result.splits)
  show ?thesis
  proof (cases "r2 = Fail Sigint")
    case True
    with ex assms have "handle_sigint env s2 = (r, s')"
      by (simp add: on_sigint_def)
    from handle_sigint_result [OF this] 2 show ?thesis
      by (auto simp: same_release_def)
  next
    case False
    with ex assms 2 show ?thesis
      by (auto simp: on_sigint_def same_release_def)
  qed
qed

subsection \<open>How \<^verbatim>\<open>make_release\<close> ends\<close>

lemma frame_rollback_calls: "frame (\<lambda>x. rollback_calls x = k)"
  by (simp add: frame_def)

lemma steps_keep_rollback_calls:
  "rollback_calls (snd (make_release_steps env s)) = rollback_calls s"
proof -
  have "guards (\<lambda>x. rollback_calls x = rollback_calls s) script_failure (make_release_steps env)"
    by (rule frame_make_release_steps) (rule frame_rollback_calls)
  from guardsD [OF this] show ?thesis by simp
qed

lemma steps_script_failure:
  "fst (make_release_steps env s) = Fail f \<Longrightarrow> script_failure f"
proof -
  assume f: "fst (make_release_steps env s) = Fail f"
  have "guards (\<lambda>_. True) script_failure (make_release_steps env)"
    by (rule frame_make_release_steps) (simp add: frame_def)
  from guards_failD [OF this _ f] show ?thesis by simp
qed

lemma try_make_release_cases:
  assumes "make_release_steps env s = (r0, s0)" and "try_make_release env s = (r, s')"
  shows "rollback_calls s0 = rollback_calls s
     \<and> (r0 = Ok () \<longrightarrow> r = Ok () \<and> s' = s0)
     \<and> (\<forall>n. r0 = Fail (SysExit n) \<longrightarrow> r = r0 \<and> s' = s0 \<and> (n = 1 \<or> n = 2))
     \<and> ((\<exists>e. r0 = Fail (Raise e)) \<or> r0 = Fail Sigint \<longrightarrow>
          rollback_calls s0 < rollback_calls s' \<and> same_release s0 s'
          \<and> (r = Fail (SysExit 1) \<or> (\<exists>e'. r = Fail (Raise e'))))"
proof -
  from steps_keep_rollback_calls [of env s] assms(1)
  have keep: "rollback_calls s0 = rollback_calls s" by simp
  show ?thesis
  proof (cases r0)
    case (Ok u)
    with assms keep show ?thesis
      by (auto simp: try_make_release_def on_sigint_def)
  next
    case (Fail f)
    from steps_script_failure [of env s f] assms(1) Fail have sf: "script_failure f" by simp
    show ?thesis
    proof (cases f)
      case (SysExit n)
      with Fail assms sf keep show ?thesis
        by (auto simp: try_make_release_def on_sigint_def script_failure_def)
    next
      case (Raise e)
      with Fail assms have "on_sigint env (except_Exception env e) s0 = (r, s')"
        by (simp add: try_make_release_def on_sigint_def)
      from except_Exception_result [OF this] Fail Raise keep show ?thesis by auto
    next
      case Sigint
      obtain r1 s1 where h: "handle_sigint env s0 = (r1, s1)" by (cases "handle_sigint env s0")
      from handle_sigint_result [OF h]
      have 1: "rollback_calls s1 = Suc (rollback_calls s0)" "same_release s0 s1"
        "r1 = Fail (SysExit 1) \<or> (\<exists>e. r1 = Fail (Raise e))" by auto
      from 1(3) show ?thesis
      proof
        assume "r1 = Fail (SysExit 1)"
        with Fail Sigint assms h 1 keep show ?thesis
          by (auto simp: try_make_release_def on_sigint_def)
      next
        assume "\<exists>e. r1 = Fail (Raise e)"
        then obtain e where e: "r1 = Fail (Raise e)" ..
        with Fail Sigint assms h have "on_sigint env (except_Exception env e) s1 = (r, s')"
          by (simp add: try_make_release_def on_sigint_def)
        from except_Exception_result [OF this] 1 Fail Sigint keep show ?thesis
          by (auto simp: same_release_def)
      qed
    qed
  qed
qed

subsection \<open>Steps that only read\<close>

lemma read_only_since_refl [simp]: "read_only_since t t"
  by (simp add: read_only_since_def)

lemma read_only_since_snoc:
  "read_only_since t0 t \<Longrightarrow> read_only a \<Longrightarrow> read_only_since t0 (t @ [a])"
  unfolding read_only_since_def
  by (cases "length t0 \<le> length t") (auto simp: take_all_iff)

lemma read_only_since_trans:
  "read_only_since t0 t1 \<Longrightarrow> read_only_since t1 t2 \<Longrightarrow> read_only_since t0 t2"
proof -
  assume a: "read_only_since t0 t1" and b: "read_only_since t1 t2"
  from a obtain x where x: "t1 = t0 @ x" "list_all read_only x"
    unfolding read_only_since_def by (metis append_take_drop_id)
  from b obtain y where y: "t2 = t1 @ y" "list_all read_only y"
    unfolding read_only_since_def by (metis append_take_drop_id)
  from x y show ?thesis by (simp add: read_only_since_def)
qed

lemma untouched_refl [simp]: "untouched s s"
  by (simp add: untouched_def)

lemma untouched_trans: "untouched s0 s1 \<Longrightarrow> untouched s1 s2 \<Longrightarrow> untouched s0 s2"
  by (auto simp: untouched_def intro: read_only_since_trans)

lemma untouched_act:
  "read_only a \<Longrightarrow> guards (untouched s0) (\<lambda>_. True) (act env a r)"
  by (rule guards_act) (auto simp: untouched_def intro: read_only_since_snoc)

lemma untouched_modify:
  "(\<And>s. changelog_file (f s) = changelog_file s \<and> config_file (f s) = config_file s
        \<and> trace (f s) = trace s)
   \<Longrightarrow> guards (untouched s0) E (modify f)"
  by (rule guards_modify) (simp add: untouched_def)

lemma untouched_prims [grd]:
  "guards (untouched s0) (\<lambda>_. True) (print env msg)"
  "guards (untouched s0) (\<lambda>_. True) (print_error env msg)"
  "guards (untouched s0) (\<lambda>_. True) (print_error_and_exit env msg n)"
  "guards (untouched s0) (\<lambda>_. True) (git env repo ''status'' [Some ''--porcelain''])"
  "guards (untouched s0) (\<lambda>_. True) (git env repo ''rev-parse'' [Some ''HEAD''])"
  "guards (untouched s0) (\<lambda>_. True) (git env repo ''tag'' (Some ''-l'' # args))"
  "guards (untouched s0) (\<lambda>_. True) (active_branch_name env repo)"
  "guards (untouched s0) (\<lambda>_. True) (read_changelog env)"
  "guards (untouched s0) (\<lambda>_. True) (act env (Input q) r)"
  "guards (untouched s0) (\<lambda>_. True) (act env GmTime r')"
  "guards (untouched s0) (\<lambda>_. True) (fail f)"
  unfolding print_def print_error_def print_error_and_exit_def git_def
    active_branch_name_def read_changelog_def
  by (auto intro!: grd untouched_act guards_fail)

lemma untouched_modify_rm [grd]:
  "guards (untouched s0) E (modify (\<lambda>s. s\<lparr>rm := f s\<rparr>))"
  "guards (untouched s0) E (modify (\<lambda>s. s\<lparr>config := g s\<rparr>))"
  "guards (untouched s0) E (modify (\<lambda>s. s\<lparr>rollback_calls := h s\<rparr>))"
  "guards (untouched s0) E (modify (\<lambda>s. s\<lparr>sigint_delivered := b\<rparr>))"
  by (rule untouched_modify; simp)+

lemma untouched_check_branches:
  "guards (untouched s0) (\<lambda>_. True) (check_branches_for_local_changes env)"
  unfolding check_branches_for_local_changes_def has_active_branch_local_changes_def
  by (auto intro!: grd)

lemma untouched_get_next_version:
  "guards (untouched s0) (\<lambda>_. True) (get_next_version env)"
  unfolding get_next_version_def
  by (auto intro!: grd split: sum.splits exn.splits)

lemma untouched_check_tag:
  "guards (untouched s0) (\<lambda>_. True) (check_if_tag_with_new_version_already_exists env)"
  unfolding check_if_tag_with_new_version_already_exists_def
  by (auto intro!: grd)

lemma untouched_prompt_step:
  "guards (untouched s0) (\<lambda>_. True) (prompt_step env)"
  unfolding prompt_step_def prompt_to_proceed_def
  by (auto intro!: grd split: sum.splits exn.splits)

lemma untouched_steps_before_tag_check:
  "guards (untouched s0) (\<lambda>_. True) (run_steps (steps_before_tag_check env))"
  unfolding steps_before_tag_check_def
  by (rule guards_run_steps)
    (auto intro!: grd untouched_check_branches untouched_get_next_version)

subsection \<open>Dry runs\<close>

lemma dry_act: "read_only a \<Longrightarrow> guards (dry s0) (\<lambda>_. True) (act env a r)"
  by (rule guards_act) (auto simp: dry_def untouched_def intro: read_only_since_snoc)

lemma dry_unless_dry_run [grd]: "guards (dry s0) E (unless_dry_run m)"
  by (rule guards_dry_run) (simp add: dry_def)

lemma dry_prims [grd]:
  "guards (dry s0) (\<lambda>_. True) (print env msg)"
  "guards (dry s0) (\<lambda>_. True) (print_error env msg)"
  "guards (dry s0) (\<lambda>_. True) (print_error_and_exit env msg n)"
  "guards (dry s0) (\<lambda>_. True) (git env repo ''status'' [Some ''--porcelain''])"
  "guards (dry s0) (\<lambda>_. True) (git env repo ''tag'' (Some ''-l'' # args))"
  "guards (dry s0) (\<lambda>_. True) (active_branch_name env repo)"
  "guards (dry s0) (\<lambda>_. True) (read_changelog env)"
  "guards (dry s0) (\<lambda>_. True) (act env (Input q) r)"
  "guards (dry s0) (\<lambda>_. True) (act env GmTime r')"
  "guards (dry s0) (\<lambda>_. True) (fail f)"
  unfolding print_def print_error_def print_error_and_exit_def git_def
    active_branch_name_def read_changelog_def
  by (auto intro!: grd dry_act guards_fail)

lemma dry_modify [grd]:
  "guards (dry s0) E (modify (\<lambda>s. s\<lparr>rm := (rm s)\<lparr>new_version := v\<rparr>\<rparr>))"
  "guards (dry s0) E (modify (\<lambda>s. s\<lparr>rm := (rm s)\<lparr>new_version_release_notes := n\<rparr>\<rparr>))"
  "guards (dry s0) E (modify (\<lambda>s. s\<lparr>config := g s\<rparr>))"
  "guards (dry s0) E (modify (\<lambda>s. s\<lparr>rollback_calls := h s\<rparr>))"
  "guards (dry s0) E (modify (\<lambda>s. s\<lparr>sigint_delivered := b\<rparr>))"
  by (rule guards_modify; simp add: dry_def untouched_def)+

lemma dry_check_branches:
  "guards (dry s0) (\<lambda>_. True) (check_branches_for_local_changes env)"
  unfolding check_branches_for_local_changes_def has_active_branch_local_changes_def
  by (auto intro!: grd)

lemma dry_get_next_version:
  "guards (dry s0) (\<lambda>_. True) (get_next_version env)"
  unfolding get_next_version_def
  by (auto intro!: grd split: sum.splits exn.splits)

lemma dry_check_tag:
  "guards (dry s0) (\<lambda>_. True) (check_if_tag_with_new_version_already_exists env)"
  unfolding check_if_tag_with_new_version_already_exists_def
  by (auto intro!: grd)

lemma dry_prompt_step:
  "guards (dry s0) (\<lambda>_. True) (prompt_step env)"
  unfolding prompt_step_def prompt_to_proceed_def
  by (auto intro!: grd split: sum.splits exn.splits)

lemma dry_changelog_step:
  "guards (dry s0) (\<lambda>_. True) (get_release_notes_and_modify_changelog_first_header env)"
  unfolding get_release_notes_and_modify_changelog_first_header_def
  by (auto intro!: grd split: option.splits)

lemma dry_config_step:
  "guards (dry s0) (\<lambda>_. True) (update_version_and_release_date_in_config env)"
  unfolding update_version_and_release_date_in_config_def modify_config_entries_def
  by (auto intro!: grd)

lemma dry_commit: "guards (dry s0) (\<lambda>_. True) (create_release_commit env repo)"
  unfolding create_release_commit_def by (auto intro!: grd)

lemma dry_tag: "guards (dry s0) (\<lambda>_. True) (create_release_tag env)"
  unfolding create_release_tag_def by (auto intro!: grd)

lemma dry_prepare: "guards (dry s0) (\<lambda>_. True) (prepare_gh_pages_for_update env)"
  unfolding prepare_gh_pages_for_update_def by (auto intro!: grd)

lemma dry_make_installers: "guards (dry s0) (\<lambda>_. True) (make_installers env)"
  unfolding make_installers_def by (auto intro!: grd)

lemma dry_push_commit: "guards (dry s0) (\<lambda>_. True) (push_release_commit env repo b)"
  unfolding push_release_commit_def Let_def by (auto intro!: grd)

lemma dry_push_tag: "guards (dry s0) (\<lambda>_. True) (push_release_tag env)"
  unfolding push_release_tag_def by (auto intro!: grd)

lemma dry_github: "guards (dry s0) (\<lambda>_. True) (create_github_release env)"
  unfolding create_github_release_def by (auto intro!: grd)

lemmas dry_steps = dry_check_branches dry_get_next_version dry_check_tag dry_prompt_step
  dry_changelog_step dry_config_step dry_commit dry_tag dry_prepare dry_make_installers
  dry_push_commit dry_push_tag dry_github

lemma dry_make_release_steps: "guards (dry s0) (\<lambda>_. True) (make_release_steps env)"
  unfolding make_release_steps_def steps_before_tag_check_def steps_after_prompt_def
  by (rule guards_run_steps) (auto intro!: grd dry_steps)

lemma dry_rollback: "guards (dry s0) (\<lambda>_. True) (rollback env)"
  unfolding rollback_def rollback_actions_def by (auto intro!: grd)

lemma dry_handle_sigint: "guards (dry s0) (\<lambda>_. True) (handle_sigint env)"
  unfolding handle_sigint_def by (auto intro!: grd dry_rollback)

lemma dry_except_Exception: "guards (dry s0) (\<lambda>_. True) (except_Exception env e)"
  unfolding except_Exception_def by (auto intro!: grd dry_rollback)

lemma guards_on_sigint:
  "guards I (\<lambda>_. True) m \<Longrightarrow> guards I (\<lambda>_. True) (handle_sigint env)
   \<Longrightarrow> guards I (\<lambda>_. True) (on_sigint env m)"
  unfolding guards_def on_sigint_def
  by (auto split: prod.splits result.splits failure.splits)

lemma dry_try_make_release: "guards (dry s0) (\<lambda>_. True) (try_make_release env)"
proof -
  have 1: "guards (dry s0) (\<lambda>_. True) (on_sigint env (make_release_steps env))"
    by (rule guards_on_sigint [OF dry_make_release_steps dry_handle_sigint])
  have 2: "guards (dry s0) (\<lambda>_. True) (on_sigint env (except_Exception env e))" for e
    by (rule guards_on_sigint [OF dry_except_Exception dry_handle_sigint])
  show ?thesis
    unfolding guards_def try_make_release_def
  proof (intro allI impI conjI)
    fix s assume d: "dry s0 s"
    obtain r1 s1 where a: "on_sigint env (make_release_steps env) s = (r1, s1)"
      by (cases "on_sigint env (make_release_steps env) s")
    from guardsD [OF 1 d] a have d1: "dry s0 s1" by simp
    show "dry s0 (snd (case on_sigint env (make_release_steps env) s of
            (Fail (Raise e), s') \<Rightarrow> on_sigint env (except_Exception env e) s'
          | (other, s') \<Rightarrow> (other, s')))"
      using a d1 guardsD [OF 2 d1]
      by (auto split: result.splits failure.splits)
  qed simp
qed

lemma untouched_new_release_metadata:
  "guards (untouched s0) (\<lambda>_. True) (new_release_metadata env kwargs)"
  unfolding new_release_metadata_def
  by (auto intro!: grd untouched_prims(6) [where args = "[]"])

lemma thn_run: "thn m k s = (case m s of (Ok x, s') \<Rightarrow> k s' | (Fail f, s') \<Rightarrow> (Fail f, s'))"
  by (simp add: thn_def bnd_def)

lemma bnd_Ok: "bnd m f s = (Ok y, s2) \<Longrightarrow> \<exists>x s1. m s = (Ok x, s1) \<and> f x s1 = (Ok y, s2)"
  by (auto simp: bnd_def split: prod.splits result.splits)

lemma new_release_metadata_dry_run:
  assumes "new_release_metadata env kwargs s = (Ok u, s1)"
  shows "dry_run (rm s1) = dry_run kwargs"
proof -
  from assms obtain c sa where a: "gets config s = (Ok c, sa)"
    and b: "bnd (git env MainRepo ''tag'' [Some ''-l'']) (\<lambda>tags.
     bnd (git env MainRepo ''rev-parse'' [Some ''HEAD'']) (\<lambda>head.
     bnd (git env GhPagesRepo ''rev-parse'' [Some ''HEAD'']) (\<lambda>pages_head.
       modify (\<lambda>s. s\<lparr>rm := options.extend kwargs
         (release_metadata.fields
            (PLUGIN_VERSION c) (split_newlines (strip_newlines tags))
            (AUTHOR_NAME c) (REPOSITORY_NAME c)
            None [] head pages_head)\<rparr>)))) sa = (Ok u, s1)"
    unfolding new_release_metadata_def by (blast dest: bnd_Ok)
  from bnd_Ok [OF b] obtain tags sb where c: "bnd (git env MainRepo ''rev-parse'' [Some ''HEAD'']) (\<lambda>head.
     bnd (git env GhPagesRepo ''rev-parse'' [Some ''HEAD'']) (\<lambda>pages_head.
       modify (\<lambda>s. s\<lparr>rm := options.extend kwargs
         (release_metadata.fields
            (PLUGIN_VERSION c) (split_newlines (strip_newlines tags))
            (AUTHOR_NAME c) (REPOSITORY_NAME c)
            None [] head pages_head)\<rparr>))) sb = (Ok u, s1)" by blast
  from bnd_Ok [OF c] obtain head sc where d: "bnd (git env GhPagesRepo ''rev-parse'' [Some ''HEAD'']) (\<lambda>pages_head.
       modify (\<lambda>s. s\<lparr>rm := options.extend kwargs
         (release_metadata.fields
            (PLUGIN_VERSION c) (split_newlines (strip_newlines tags))
            (AUTHOR_NAME c) (REPOSITORY_NAME c)
            None [] head pages_head)\<rparr>)) sc = (Ok u, s1)" by blast
  from bnd_Ok [OF d] obtain ph sd where "modify (\<lambda>s. s\<lparr>rm := options.extend kwargs
         (release_metadata.fields
            (PLUGIN_VERSION c) (split_newlines (strip_newlines tags))
            (AUTHOR_NAME c) (REPOSITORY_NAME c)
            None [] head ph)\<rparr>) sd = (Ok u, s1)" by blast
  then show ?thesis
    by (auto simp: modify_def options.defs)
qed

lemma dry_run_untouched:
  assumes "dry_run kwargs"
  shows "untouched s (snd (make_release env kwargs s))"
proof -
  obtain r1 s1 where c: "new_release_metadata env kwargs s = (r1, s1)"
    by (cases "new_release_metadata env kwargs s")
  from guardsD [OF untouched_new_release_metadata, of s s env kwargs] c
  have u: "untouched s s1" by simp
  show ?thesis
  proof (cases r1)
    case (Ok x)
    with c assms new_release_metadata_dry_run have "dry_run (rm s1)" by blast
    with u have "dry s s1" by (simp add: dry_def)
    from guardsD [OF dry_try_make_release this] have "dry s (snd (try_make_release env s1))" .
    with c Ok show ?thesis
      by (simp add: make_release_def thn_run dry_def)
  next
    case (Fail f)
    with c u show ?thesis by (simp add: make_release_def thn_run)
  qed
qed

subsection \<open>Rollback, action by action\<close>

lemma git_do_run:
  "\<not> sigint_now env s \<Longrightarrow>
   git_do env repo c a s =
     (case git_reply env (trace s) repo c a of Inl e \<Rightarrow> Fail (Raise e) | Inr x \<Rightarrow> Ok (),
      s\<lparr>trace := trace s @ [Git repo c a]\<rparr>)"
  by (simp add: git_do_def git_def bnd_def act_run ret_def split: sum.splits)

lemma isdir_run:
  "\<not> sigint_now env s \<Longrightarrow>
   isdir env p s = (Ok (isdir_reply env (trace s) p), s\<lparr>trace := trace s @ [IsDir p]\<rparr>)"
  by (simp add: isdir_def act_run)

lemma rmtree_run:
  "\<not> sigint_now env s \<Longrightarrow>
   rmtree env p s = (case rmtree_reply env (trace s) p of None \<Rightarrow> Ok () | Some e \<Rightarrow> Fail (Raise e),
                     s\<lparr>trace := trace s @ [RmTree p]\<rparr>)"
  by (simp add: rmtree_def act_run may_raise_def split: option.splits)

lemma sigint_now_upd [simp]:
  "sigint_at env = None \<Longrightarrow> sigint_now env s = False"
  by (simp add: sigint_now_def)

lemma tag_stage:
  "\<not> sigint_now env s \<Longrightarrow>
   bnd (gets (\<lambda>s. new_version (rm s))) (\<lambda>v.
       except_GitCommandError_pass (git_do env MainRepo ''tag'' [Some ''-d'', v])) s
   = (case git_reply env (trace s) MainRepo ''tag'' [Some ''-d'', new_version (rm s)] of
        Inl e \<Rightarrow> if e = GitCommandError then Ok () else Fail (Raise e)
      | Inr x \<Rightarrow> Ok (),
      s\<lparr>trace := trace s @ [tag_deletion s]\<rparr>)"
  by (simp add: bnd_def gets_def except_GitCommandError_pass_def git_do_run tag_deletion_def
      split: sum.splits exn.splits)

lemma dir_stage:
  "\<not> sigint_now env s \<Longrightarrow> \<not> sigint_now env (s\<lparr>trace := trace s @ [IsDir p]\<rparr>) \<Longrightarrow>
   bnd (isdir env p) (\<lambda>present. if present then rmtree env p else ret ()) s
   = (if isdir_reply env (trace s) p
      then (case rmtree_reply env (trace s @ [IsDir p]) p of
              None \<Rightarrow> Ok () | Some e \<Rightarrow> Fail (Raise e),
            s\<lparr>trace := trace s @ [IsDir p] @ [RmTree p]\<rparr>)
      else (Ok (), s\<lparr>trace := trace s @ [IsDir p]\<rparr>))"
  by (simp add: bnd_def isdir_run rmtree_run ret_def)

lemma reset_main_stage:
  "\<not> sigint_now env s \<Longrightarrow>
   bnd (gets (\<lambda>s. last_commit_id_before_release (rm s))) (\<lambda>c.
       git_do env MainRepo ''reset'' [Some ''--hard'', Some c]) s
   = (case git_reply env (trace s) MainRepo ''reset''
             [Some ''--hard'', Some (last_commit_id_before_release (rm s))] of
        Inl e \<Rightarrow> Fail (Raise e) | Inr x \<Rightarrow> Ok (),
      s\<lparr>trace := trace s @ [reset_main s]\<rparr>)"
  by (simp add: bnd_def gets_def git_do_run reset_main_def)

lemma reset_pages_stage:
  "\<not> sigint_now env s \<Longrightarrow>
   bnd (gets (\<lambda>s. last_gh_pages_commit_id_before_release (rm s))) (\<lambda>c.
       git_do env GhPagesRepo ''reset'' [Some ''--hard'', Some c]) s
   = (case git_reply env (trace s) GhPagesRepo ''reset''
             [Some ''--hard'', Some (last_gh_pages_commit_id_before_release (rm s))] of
        Inl e \<Rightarrow> Fail (Raise e) | Inr x \<Rightarrow> Ok (),
      s\<lparr>trace := trace s @ [reset_pages s]\<rparr>)"
  by (simp add: bnd_def gets_def git_do_run reset_pages_def)

lemma unless_dry_run_run:
  "unless_dry_run m s = (if dry_run (rm s) then (Ok (), s) else m s)"
  by (simp add: unless_dry_run_def bnd_def gets_def ret_def)

lemmas rollback_stages = rollback_unfold rollback_actions_def unless_dry_run_run thn_run
  tag_stage dir_stage reset_main_stage reset_pages_stage tag_deletion_def reset_main_def
  reset_pages_def passed_or_swallowed_def

lemma rollback_tag_error:
  assumes "\<not> dry_run (rm s)" and "sigint_at env = None"
    and "git_reply env (trace s) MainRepo ''tag'' [Some ''-d'', new_version (rm s)] = Inl e"
    and "e \<noteq> GitCommandError"
  shows "rollback env s
    = (Fail (Raise e),
       s\<lparr>rollback_calls := Suc (rollback_calls s), trace := trace s @ [tag_deletion s]\<rparr>)"
  using assms by (simp add: rollback_stages)


lemma try_make_release_checkpoints:
  "checkpoints (snd (try_make_release env s)) = checkpoints s"
proof -
  obtain r0 s0 where a: "make_release_steps env s = (r0, s0)"
    by (cases "make_release_steps env s")
  obtain r s' where b: "try_make_release env s = (r, s')"
    by (cases "try_make_release env s")
  have "guards (\<lambda>x. checkpoints x = checkpoints s) script_failure (make_release_steps env)"
    by (rule frame_make_release_steps) (simp add: frame_def checkpoints_def)
  from guardsD [OF this refl] a have c: "checkpoints s0 = checkpoints s" by simp
  from try_make_release_cases [OF a b] have "s' = s0 \<or> same_release s0 s'"
    by (cases r0 rule: result.exhaust; cases "case r0 of Fail f \<Rightarrow> f"; auto)
  with b c show ?thesis by (auto simp: same_release_def checkpoints_def)
qed

subsection \<open>The tag check and the prompt, action by action\<close>

lemma run_steps_append: "run_steps (xs @ ys) = thn (run_steps xs) (run_steps ys)"
  by (induction xs) (auto simp: thn_def bnd_def ret_def fun_eq_iff split: prod.splits result.splits)

lemma git_run:
  "\<not> sigint_now env s \<Longrightarrow>
   git env repo c a s =
     (case git_reply env (trace s) repo c a of Inl e \<Rightarrow> Fail (Raise e) | Inr x \<Rightarrow> Ok x,
      s\<lparr>trace := trace s @ [Git repo c a]\<rparr>)"
  by (simp add: git_def act_run)

lemma print_error_and_exit_run:
  "\<not> sigint_now env s \<Longrightarrow>
   print_error_and_exit env msg n s = (Fail (SysExit n), s\<lparr>trace := trace s @ [Stderr msg]\<rparr>)"
  by (simp add: print_error_and_exit_def thn_run print_error_run fail_def)

lemma check_tag_exists:
  assumes "sigint_at env = None"
    and "git_reply env (trace s) MainRepo ''tag'' [Some ''-l'', new_version (rm s)] = Inr out"
    and "out \<noteq> []"
  shows "check_if_tag_with_new_version_already_exists env s
    = (Fail (SysExit 1),
       s\<lparr>trace := trace s @
           [Git MainRepo ''tag'' [Some ''-l'', new_version (rm s)],
            Stderr (''Repository already contains tag '' @ quoted (py_str (new_version (rm s)))
                    @ '', indicating that such a version is already released.'')]\<rparr>)"
  using assms
  by (simp add: check_if_tag_with_new_version_already_exists_def bnd_def gets_def git_run
      print_error_and_exit_run)

lemma prompt_declined:
  assumes "sigint_at env = None" and "interactive (rm s)"
    and "input_reply env (trace s) = Inr response"
    and "strtobool env response = Inr False \<or> (\<exists>m. strtobool env response = Inl (ValueError m))"
  shows "prompt_step env s
    = (Fail (SysExit 2),
       s\<lparr>trace := trace s @ [Input ''Proceed with release? [y/n] '', Stderr ''Aborting.'']\<rparr>)"
  using assms
  by (auto simp: prompt_step_def prompt_to_proceed_def bnd_def gets_def act_run
      print_error_and_exit_run PROMPT_NO_EXIT_STATUS_def)

lemma try_make_release_exit:
  "make_release_steps env s = (Fail (SysExit n), s') \<Longrightarrow>
   try_make_release env s = (Fail (SysExit n), s')"
  by (simp add: try_make_release_def on_sigint_def)

lemma make_release_steps_split:
  "make_release_steps env
   = thn (run_steps (steps_before_tag_check env))
      (thn (check_if_tag_with_new_version_already_exists env)
        (thn (prompt_step env) (run_steps (steps_after_prompt env))))"
  by (simp add: make_release_steps_def run_steps_append)

lemma make_release_steps_split2:
  "make_release_steps env
   = thn (run_steps (steps_before_tag_check env @ [check_if_tag_with_new_version_already_exists env]))
        (thn (prompt_step env) (run_steps (steps_after_prompt env)))"
  by (simp add: make_release_steps_def run_steps_append thn_def bnd_def ret_def fun_eq_iff
      split: prod.splits result.splits)

lemma steps_before_tag_check_frame:
  "frame I \<Longrightarrow> guards I script_failure (run_steps (steps_before_tag_check env))"
  unfolding steps_before_tag_check_def
  by (rule guards_run_steps) (auto intro!: grd frame_steps)

lemma steps_through_tag_check_frame:
  "frame I \<Longrightarrow> guards I script_failure
     (run_steps (steps_before_tag_check env @ [check_if_tag_with_new_version_already_exists env]))"
  unfolding steps_before_tag_check_def
  by (rule guards_run_steps) (auto intro!: grd frame_steps)

lemma interrupt_free_now:
  "interrupt_free env s n \<Longrightarrow> sigint_delivered x = sigint_delivered s \<Longrightarrow>
   length (trace s) \<le> length (trace x) \<Longrightarrow> length (trace x) < length (trace s) + n \<Longrightarrow>
   sigint_now env x = False"
  by (auto simp: interrupt_free_def sigint_now_def split: option.splits)

lemma git_Ok:
  "git env repo c a s = (Ok x, s1) \<Longrightarrow>
   git_reply env (trace s) repo c a = Inr x \<and> s1 = s\<lparr>trace := trace s @ [Git repo c a]\<rparr>"
  by (auto simp: git_def act_def split: if_splits sum.splits)

lemma new_release_metadata_checkpoints:
  assumes "new_release_metadata env kwargs s = (Ok u, s1)"
  shows "git_reply env (trace s @ [Git MainRepo ''tag'' [Some ''-l'']])
             MainRepo ''rev-parse'' [Some ''HEAD'']
           = Inr (last_commit_id_before_release (rm s1))
     \<and> git_reply env (trace s @ [Git MainRepo ''tag'' [Some ''-l''],
                                 Git MainRepo ''rev-parse'' [Some ''HEAD'']])
             GhPagesRepo ''rev-parse'' [Some ''HEAD'']
           = Inr (last_gh_pages_commit_id_before_release (rm s1))"
proof -
  from assms obtain c sa where a: "gets config s = (Ok c, sa)"
    and b: "bnd (git env MainRepo ''tag'' [Some ''-l'']) (\<lambda>tags.
     bnd (git env MainRepo ''rev-parse'' [Some ''HEAD'']) (\<lambda>head.
     bnd (git env GhPagesRepo ''rev-parse'' [Some ''HEAD'']) (\<lambda>pages_head.
       modify (\<lambda>s. s\<lparr>rm := options.extend kwargs
         (release_metadata.fields
            (PLUGIN_VERSION c) (split_newlines (strip_newlines tags))
            (AUTHOR_NAME c) (REPOSITORY_NAME c)
            None [] head pages_head)\<rparr>)))) sa = (Ok u, s1)"
    unfolding new_release_metadata_def by (blast dest: bnd_Ok)
  from a have sa: "sa = s" by (simp add: gets_def)
  from bnd_Ok [OF b] obtain tags sb where t: "git env MainRepo ''tag'' [Some ''-l''] sa = (Ok tags, sb)"
    and c: "bnd (git env MainRepo ''rev-parse'' [Some ''HEAD'']) (\<lambda>head.
     bnd (git env GhPagesRepo ''rev-parse'' [Some ''HEAD'']) (\<lambda>pages_head.
       modify (\<lambda>s. s\<lparr>rm := options.extend kwargs
         (release_metadata.fields
            (PLUGIN_VERSION c) (split_newlines (strip_newlines tags))
            (AUTHOR_NAME c) (REPOSITORY_NAME c)
            None [] head pages_head)\<rparr>))) sb = (Ok u, s1)" by blast
  from git_Ok [OF t] sa have sb: "trace sb = trace s @ [Git MainRepo ''tag'' [Some ''-l'']]"
    by simp
  from bnd_Ok [OF c] obtain head sc
    where h: "git env MainRepo ''rev-parse'' [Some ''HEAD''] sb = (Ok head, sc)"
    and d: "bnd (git env GhPagesRepo ''rev-parse'' [Some ''HEAD'']) (\<lambda>pages_head.
       modify (\<lambda>s. s\<lparr>rm := options.extend kwargs
         (release_metadata.fields
            (PLUGIN_VERSION c) (split_newlines (strip_newlines tags))
            (AUTHOR_NAME c) (REPOSITORY_NAME c)
            None [] head pages_head)\<rparr>)) sc = (Ok u, s1)" by blast
  from git_Ok [OF h] sb
  have head: "git_reply env (trace s @ [Git MainRepo ''tag'' [Some ''-l'']])
      MainRepo ''rev-parse'' [Some ''HEAD''] = Inr head"
    and sc: "trace sc = trace s @ [Git MainRepo ''tag'' [Some ''-l''],
                                   Git MainRepo ''rev-parse'' [Some ''HEAD'']]"
    by simp_all
  from bnd_Ok [OF d] obtain ph sd
    where p: "git env GhPagesRepo ''rev-parse'' [Some ''HEAD''] sc = (Ok ph, sd)"
    and m: "modify (\<lambda>s. s\<lparr>rm := options.extend kwargs
         (release_metadata.fields
            (PLUGIN_VERSION c) (split_newlines (strip_newlines tags))
            (AUTHOR_NAME c) (REPOSITORY_NAME c)
            None [] head ph)\<rparr>) sd = (Ok u, s1)" by blast
  from git_Ok [OF p] sc
  have pages: "git_reply env (trace s @ [Git MainRepo ''tag'' [Some ''-l''],
                                 Git MainRepo ''rev-parse'' [Some ''HEAD'']])
      GhPagesRepo ''rev-parse'' [Some ''HEAD''] = Inr ph" by simp
  from m have "last_commit_id_before_release (rm s1) = head"
    "last_gh_pages_commit_id_before_release (rm s1) = ph"
    by (auto simp: modify_def options.defs release_metadata.defs)
  with head pages show ?thesis by simp
qed

subsection \<open>The claims about rollback, the tag check and the prompt\<close>

text \<open>
  Claim C2. When it is not a dry run and no interrupt arrives during its five actions
  (so also where the interrupt handler calls it, the signal being delivered by then),
  \<^verbatim>\<open>_rollback\<close> first deletes the tag named \<^verbatim>\<open>new_version\<close>; a \<^verbatim>\<open>GitCommandError\<close> of that
  deletion is swallowed and any other error of it propagates. It then looks for the
  output directory of the installers and removes it if it is there, and resets the main
  repository and the pages repository with \<^verbatim>\<open>--hard\<close> to the two commit identifiers
  recorded in the release metadata. An error of the removal or of either reset
  propagates, and nothing after it is run. In every case the release metadata,
  \<^verbatim>\<open>pg.config\<close> and the two files are as they were. The two recorded identifiers are what
  \<^verbatim>\<open>git rev-parse HEAD\<close> answered in the two repositories when \<^verbatim>\<open>make_release\<close> built the
  release metadata, right after the tag list was read; they are the same at the end of
  \<^verbatim>\<open>_make_release\<close> (where a handler calls \<^verbatim>\<open>_rollback\<close>) and at the end of the \<^verbatim>\<open>try\<close>
  statement as at its start, from every state, and so at the end of \<^verbatim>\<open>make_release\<close> as
  after the construction.
\<close>

theorem rollback_behaviour:
  fixes env :: "'v env" and s :: world
  defines "OUT \<equiv> INSTALLERS_OUTPUT_DIRPATH"
  defines "t1 \<equiv> trace s @ [tag_deletion s]"
  defines "t2 \<equiv> t1 @ [IsDir OUT]"
  defines "t3 \<equiv> (if isdir_reply env t1 OUT then t2 @ [RmTree OUT] else t2)"
  defines "t4 \<equiv> t3 @ [reset_main s]"
  defines "t5 \<equiv> t4 @ [reset_pages s]"
  defines "tag \<equiv> git_reply env (trace s) MainRepo ''tag'' [Some ''-d'', new_version (rm s)]"
    and "main \<equiv> git_reply env t3 MainRepo ''reset''
                   [Some ''--hard'', Some (last_commit_id_before_release (rm s))]"
    and "pages \<equiv> git_reply env t4 GhPagesRepo ''reset''
                   [Some ''--hard'', Some (last_gh_pages_commit_id_before_release (rm s))]"
    and "r \<equiv> fst (rollback env s)" and "s' \<equiv> snd (rollback env s)"
  shows "same_release s s'
     \<and> (\<not> dry_run (rm s) \<and> interrupt_free env s 5 \<longrightarrow>
          (\<forall>e. tag = Inl e \<and> e \<noteq> GitCommandError \<longrightarrow> r = Fail (Raise e) \<and> trace s' = t1)
          \<and> (passed_or_swallowed tag \<longrightarrow>
               (\<forall>e. isdir_reply env t1 OUT \<and> rmtree_reply env t2 OUT = Some e
                     \<longrightarrow> r = Fail (Raise e) \<and> trace s' = t3)
               \<and> (\<not> isdir_reply env t1 OUT \<or> rmtree_reply env t2 OUT = None \<longrightarrow>
                    (\<forall>e. main = Inl e \<longrightarrow> r = Fail (Raise e) \<and> trace s' = t4)
                    \<and> (\<forall>out. main = Inr out \<longrightarrow>
                         (\<forall>e. pages = Inl e \<longrightarrow> r = Fail (Raise e) \<and> trace s' = t5)
                         \<and> (\<forall>out'. pages = Inr out' \<longrightarrow> r = Ok () \<and> trace s' = t5)))))
     \<and> (\<forall>w. checkpoints (snd (make_release_steps env w)) = checkpoints w
            \<and> checkpoints (snd (try_make_release env w)) = checkpoints w)
     \<and> (\<forall>kwargs w w1. new_release_metadata env kwargs w = (Ok (), w1) \<longrightarrow>
          git_reply env (trace w @ [Git MainRepo ''tag'' [Some ''-l'']])
              MainRepo ''rev-parse'' [Some ''HEAD'']
            = Inr (last_commit_id_before_release (rm w1))
          \<and> git_reply env (trace w @ [Git MainRepo ''tag'' [Some ''-l''],
                                      Git MainRepo ''rev-parse'' [Some ''HEAD'']])
              GhPagesRepo ''rev-parse'' [Some ''HEAD'']
            = Inr (last_gh_pages_commit_id_before_release (rm w1))
          \<and> checkpoints (snd (make_release env kwargs w)) = checkpoints w1)"
proof (intro conjI allI impI)
  obtain r0 s0 where rb: "rollback env s = (r0, s0)" by (cases "rollback env s")
  from rollback_result [OF rb] rb show "same_release s s'" by (simp add: s'_def)
next
  fix e assume "\<not> dry_run (rm s) \<and> interrupt_free env s 5"
  then have d: "\<not> dry_run (rm s)" and f: "interrupt_free env s 5" by simp_all
  note q = interrupt_free_now [OF f]
  assume "tag = Inl e \<and> e \<noteq> GitCommandError"
  with d show "r = Fail (Raise e)" "trace s' = t1"
    unfolding r_def s'_def tag_def t1_def by (simp_all add: rollback_stages q)
next
  fix e assume "\<not> dry_run (rm s) \<and> interrupt_free env s 5"
  then have d: "\<not> dry_run (rm s)" and f: "interrupt_free env s 5" by simp_all
  note q = interrupt_free_now [OF f]
  assume "passed_or_swallowed tag" "isdir_reply env t1 OUT \<and> rmtree_reply env t2 OUT = Some e"
  with d show "r = Fail (Raise e)" "trace s' = t3"
    unfolding r_def s'_def tag_def t1_def t2_def t3_def OUT_def
    by (cases "isdir_reply env (trace s @ [tag_deletion s]) INSTALLERS_OUTPUT_DIRPATH";
        simp add: rollback_stages q split: sum.splits)+
next
  fix e assume "\<not> dry_run (rm s) \<and> interrupt_free env s 5"
  then have d: "\<not> dry_run (rm s)" and f: "interrupt_free env s 5" by simp_all
  note q = interrupt_free_now [OF f]
  assume "passed_or_swallowed tag" "\<not> isdir_reply env t1 OUT \<or> rmtree_reply env t2 OUT = None"
    "main = Inl e"
  with d show "r = Fail (Raise e)" "trace s' = t4"
    unfolding r_def s'_def tag_def main_def t1_def t2_def t3_def t4_def OUT_def
    by (cases "isdir_reply env (trace s @ [tag_deletion s]) INSTALLERS_OUTPUT_DIRPATH";
        simp add: rollback_stages q split: sum.splits)+
next
  fix out e assume "\<not> dry_run (rm s) \<and> interrupt_free env s 5"
  then have d: "\<not> dry_run (rm s)" and f: "interrupt_free env s 5" by simp_all
  note q = interrupt_free_now [OF f]
  assume "passed_or_swallowed tag" "\<not> isdir_reply env t1 OUT \<or> rmtree_reply env t2 OUT = None"
    "main = Inr out" "pages = Inl e"
  with d show "r = Fail (Raise e)" "trace s' = t5"
    unfolding r_def s'_def tag_def main_def pages_def t1_def t2_def t3_def t4_def t5_def OUT_def
    by (cases "isdir_reply env (trace s @ [tag_deletion s]) INSTALLERS_OUTPUT_DIRPATH";
        simp add: rollback_stages q split: sum.splits)+
next
  fix out out' assume "\<not> dry_run (rm s) \<and> interrupt_free env s 5"
  then have d: "\<not> dry_run (rm s)" and f: "interrupt_free env s 5" by simp_all
  note q = interrupt_free_now [OF f]
  assume "passed_or_swallowed tag" "\<not> isdir_reply env t1 OUT \<or> rmtree_reply env t2 OUT = None"
    "main = Inr out" "pages = Inr out'"
  with d show "r = Ok ()" "trace s' = t5"
    unfolding r_def s'_def tag_def main_def pages_def t1_def t2_def t3_def t4_def t5_def OUT_def
    by (cases "isdir_reply env (trace s @ [tag_deletion s]) INSTALLERS_OUTPUT_DIRPATH";
        simp add: rollback_stages q split: sum.splits)+
next
  fix w show "checkpoints (snd (try_make_release env w)) = checkpoints w"
    by (rule try_make_release_checkpoints)
next
  fix w
  have "guards (\<lambda>x. checkpoints x = checkpoints w) script_failure (make_release_steps env)"
    by (rule frame_make_release_steps) (simp add: frame_def checkpoints_def)
  from guardsD [OF this refl]
  show "checkpoints (snd (make_release_steps env w)) = checkpoints w" .
next
  fix kwargs w w1 assume c: "new_release_metadata env kwargs w = (Ok (), w1)"
  from new_release_metadata_checkpoints [OF c]
  show "git_reply env (trace w @ [Git MainRepo ''tag'' [Some ''-l'']])
              MainRepo ''rev-parse'' [Some ''HEAD'']
            = Inr (last_commit_id_before_release (rm w1))"
    "git_reply env (trace w @ [Git MainRepo ''tag'' [Some ''-l''],
                                      Git MainRepo ''rev-parse'' [Some ''HEAD'']])
              GhPagesRepo ''rev-parse'' [Some ''HEAD'']
            = Inr (last_gh_pages_commit_id_before_release (rm w1))"
    by simp_all
  from c have "make_release env kwargs w = try_make_release env w1"
    by (simp add: make_release_def thn_run)
  then show "checkpoints (snd (make_release env kwargs w)) = checkpoints w1"
    by (simp add: try_make_release_checkpoints)
qed

theorem rollback_behaviour_witness:
  "\<not> dry_run (rm tagged_world) \<and> interrupt_free no_tag_env tagged_world 5
   \<and> git_reply no_tag_env (trace tagged_world) MainRepo ''tag''
        [Some ''-d'', new_version (rm tagged_world)] = Inl GitCommandError
   \<and> rollback no_tag_env tagged_world
      = (Ok (), tagged_world\<lparr>rollback_calls := 1,
           trace := [Git MainRepo ''tag'' [Some ''-d'', Some ''1.3.0''],
                     IsDir INSTALLERS_OUTPUT_DIRPATH, RmTree INSTALLERS_OUTPUT_DIRPATH,
                     Git MainRepo ''reset'' [Some ''--hard'', Some ''c0ffee''],
                     Git GhPagesRepo ''reset'' [Some ''--hard'', Some ''d0c5'']]\<rparr>)
   \<and> sigint_at interrupted_env = Some 12 \<and> length (trace interrupted_world) = 13
   \<and> \<not> dry_run (rm interrupted_world) \<and> interrupt_free interrupted_env interrupted_world 5
   \<and> fst (rollback interrupted_env interrupted_world) = Ok ()
   \<and> trace (snd (rollback interrupted_env interrupted_world))
      = trace interrupted_world @
          [Git MainRepo ''tag'' [Some ''-d'', Some ''1.3.0''],
           IsDir INSTALLERS_OUTPUT_DIRPATH, RmTree INSTALLERS_OUTPUT_DIRPATH,
           Git MainRepo ''reset'' [Some ''--hard'', Some ''c0ffee''],
           Git GhPagesRepo ''reset'' [Some ''--hard'', Some ''d0c5'']]
   \<and> fst (new_release_metadata sample_env sample_options sample_world) = Ok ()
   \<and> checkpoints (snd (new_release_metadata sample_env sample_options sample_world))
      = (''c0ffee'', ''d0c5'')
   \<and> checkpoints (snd (make_release commit_fails_env sample_options sample_world))
      = (''c0ffee'', ''d0c5'')
   \<and> Git MainRepo ''reset'' [Some ''--hard'', Some ''c0ffee'']
        \<in> set (trace (snd (make_release commit_fails_env sample_options sample_world)))
   \<and> Git GhPagesRepo ''reset'' [Some ''--hard'', Some ''d0c5'']
        \<in> set (trace (snd (make_release commit_fails_env sample_options sample_world)))"
proof -
  have a: "\<not> dry_run (rm tagged_world)" "interrupt_free no_tag_env tagged_world 5"
    by code_simp+
  have c: "git_reply no_tag_env (trace tagged_world) MainRepo ''tag''
        [Some ''-d'', new_version (rm tagged_world)] = Inl GitCommandError" by code_simp
  have d: "rollback no_tag_env tagged_world
      = (Ok (), tagged_world\<lparr>rollback_calls := 1,
           trace := [Git MainRepo ''tag'' [Some ''-d'', Some ''1.3.0''],
                     IsDir INSTALLERS_OUTPUT_DIRPATH, RmTree INSTALLERS_OUTPUT_DIRPATH,
                     Git MainRepo ''reset'' [Some ''--hard'', Some ''c0ffee''],
                     Git GhPagesRepo ''reset'' [Some ''--hard'', Some ''d0c5'']]\<rparr>)"
    by code_simp
  have e: "sigint_at interrupted_env = Some 12" "length (trace interrupted_world) = 13"
    "\<not> dry_run (rm interrupted_world)" "interrupt_free interrupted_env interrupted_world 5"
    by code_simp+
  have f: "fst (rollback interrupted_env interrupted_world) = Ok ()" by code_simp
  have g: "trace (snd (rollback interrupted_env interrupted_world))
      = trace interrupted_world @
          [Git MainRepo ''tag'' [Some ''-d'', Some ''1.3.0''],
           IsDir INSTALLERS_OUTPUT_DIRPATH, RmTree INSTALLERS_OUTPUT_DIRPATH,
           Git MainRepo ''reset'' [Some ''--hard'', Some ''c0ffee''],
           Git GhPagesRepo ''reset'' [Some ''--hard'', Some ''d0c5'']]" by code_simp
  have h: "fst (new_release_metadata sample_env sample_options sample_world) = Ok ()"
    "checkpoints (snd (new_release_metadata sample_env sample_options sample_world))
      = (''c0ffee'', ''d0c5'')" by code_simp+
  have i: "fst (new_release_metadata commit_fails_env sample_options sample_world) = Ok ()"
    "checkpoints (snd (new_release_metadata commit_fails_env sample_options sample_world))
      = (''c0ffee'', ''d0c5'')" by code_simp+
  from i(1) have "new_release_metadata commit_fails_env sample_options sample_world
      = (Ok (), snd (new_release_metadata commit_fails_env sample_options sample_world))"
    by (simp add: prod_eq_iff)
  with rollback_behaviour [where env = commit_fails_env and s = tagged_world] i(2)
  have j: "checkpoints (snd (make_release commit_fails_env sample_options sample_world))
      = (''c0ffee'', ''d0c5'')" by metis
  have k: "Git MainRepo ''reset'' [Some ''--hard'', Some ''c0ffee'']
        \<in> set (trace (snd (make_release commit_fails_env sample_options sample_world)))"
    "Git GhPagesRepo ''reset'' [Some ''--hard'', Some ''d0c5'']
        \<in> set (trace (snd (make_release commit_fails_env sample_options sample_world)))"
    by code_simp+
  from a c d e f g h j k show ?thesis by blast
qed

text \<open>
  Claim C4. In a run without an interrupt that gets as far as the tag check, if the
  query \<^verbatim>\<open>git tag -l new_version\<close> in the main repository answers with a non-empty text,
  the run ends with the message that the repository already contains the tag and with
  exit status 1. Up to that point the changelog and \<^verbatim>\<open>config.py\<close> are as at the start,
  the trace holds nothing but read-only actions, and \<^verbatim>\<open>_rollback\<close> has not been
  entered.
\<close>

theorem existing_tag_aborts_before_any_write:
  fixes env :: "'v env" and s :: world
  defines "s1 \<equiv> snd (run_steps (steps_before_tag_check env) s)"
  defines "s' \<equiv> snd (try_make_release env s)"
  assumes "sigint_at env = None"
    and "fst (run_steps (steps_before_tag_check env) s) = Ok ()"
    and "git_reply env (trace s1) MainRepo ''tag'' [Some ''-l'', new_version (rm s1)] = Inr out"
    and "out \<noteq> []"
  shows "fst (try_make_release env s) = Fail (SysExit 1)
     \<and> trace s' = trace s1 @
          [Git MainRepo ''tag'' [Some ''-l'', new_version (rm s1)],
           Stderr (''Repository already contains tag '' @ quoted (py_str (new_version (rm s1)))
                   @ '', indicating that such a version is already released.'')]
     \<and> changelog_file s' = changelog_file s \<and> config_file s' = config_file s
     \<and> read_only_since (trace s) (trace s')
     \<and> rollback_calls s' = rollback_calls s"
proof -
  let ?s2 = "s1\<lparr>trace := trace s1 @
          [Git MainRepo ''tag'' [Some ''-l'', new_version (rm s1)],
           Stderr (''Repository already contains tag '' @ quoted (py_str (new_version (rm s1)))
                   @ '', indicating that such a version is already released.'')]\<rparr>"
  from assms(4) have pre: "run_steps (steps_before_tag_check env) s = (Ok (), s1)"
    by (simp add: s1_def prod_eq_iff)
  have "make_release_steps env s = (Fail (SysExit 1), ?s2)"
    using pre check_tag_exists [OF assms(3,5,6)]
    by (simp add: make_release_steps_split thn_run)
  then have t: "try_make_release env s = (Fail (SysExit 1), ?s2)"
    by (rule try_make_release_exit)
  from guardsD [OF untouched_steps_before_tag_check untouched_refl, of s env]
  have u: "untouched s s1" by (simp add: s1_def)
  have "guards (\<lambda>x. rollback_calls x = rollback_calls s) script_failure
          (run_steps (steps_before_tag_check env))"
    by (rule steps_before_tag_check_frame) (rule frame_rollback_calls)
  from guardsD [OF this refl] have k: "rollback_calls s1 = rollback_calls s"
    by (simp add: s1_def)
  from u have "read_only_since (trace s) (trace s1)"
    by (simp add: untouched_def)
  then have "read_only_since (trace s)
      (trace s1 @ [Git MainRepo ''tag'' [Some ''-l'', new_version (rm s1)]])"
    by (rule read_only_since_snoc) simp
  then have "read_only_since (trace s)
      ((trace s1 @ [Git MainRepo ''tag'' [Some ''-l'', new_version (rm s1)]])
       @ [Stderr (''Repository already contains tag '' @ quoted (py_str (new_version (rm s1)))
                   @ '', indicating that such a version is already released.'')])"
    by (rule read_only_since_snoc) simp
  then have "read_only_since (trace s) (trace ?s2)"
    by simp
  with t u k show ?thesis
    by (simp add: s'_def untouched_def)
qed

theorem existing_tag_aborts_before_any_write_witness:
  "sigint_at tag_exists_env = None
   \<and> fst (run_steps (steps_before_tag_check tag_exists_env) sample_world) = Ok ()
   \<and> git_reply tag_exists_env
        (trace (snd (run_steps (steps_before_tag_check tag_exists_env) sample_world)))
        MainRepo ''tag''
        [Some ''-l'',
         new_version (rm (snd (run_steps (steps_before_tag_check tag_exists_env) sample_world)))]
      = Inr ''1.3.0''
   \<and> fst (try_make_release tag_exists_env sample_world) = Fail (SysExit 1)
   \<and> changelog_file (snd (try_make_release tag_exists_env sample_world))
      = changelog_file sample_world
   \<and> config_file (snd (try_make_release tag_exists_env sample_world)) = config_file sample_world
   \<and> rollback_calls (snd (try_make_release tag_exists_env sample_world)) = 0"
proof -
  have a: "sigint_at tag_exists_env = None" by code_simp
  have b: "fst (run_steps (steps_before_tag_check tag_exists_env) sample_world) = Ok ()"
    by code_simp
  have c: "git_reply tag_exists_env
        (trace (snd (run_steps (steps_before_tag_check tag_exists_env) sample_world)))
        MainRepo ''tag''
        [Some ''-l'',
         new_version (rm (snd (run_steps (steps_before_tag_check tag_exists_env) sample_world)))]
      = Inr ''1.3.0''" by code_simp
  have d: "''1.3.0'' \<noteq> []" by simp
  have e: "rollback_calls sample_world = 0" by code_simp
  from existing_tag_aborts_before_any_write [OF a b c d] a b c e show ?thesis by simp
qed

text \<open>
  Claim C8, as the code has it. In an interactive run without an interrupt that gets as
  far as the prompt, a response that \<^verbatim>\<open>strtobool\<close> reads as false, or rejects with
  \<^verbatim>\<open>ValueError\<close>, makes the script print \<^verbatim>\<open>Aborting.\<close> on the error stream and exit with
  status 2. The state at the exit is the state at the prompt with these two actions
  added to the trace: \<^verbatim>\<open>_rollback\<close> is not entered on this path.
\<close>

theorem declined_prompt_exits_without_rollback:
  fixes env :: "'v env" and s :: world
  defines "s1 \<equiv> snd (run_steps (steps_before_tag_check env
                                   @ [check_if_tag_with_new_version_already_exists env]) s)"
  assumes "sigint_at env = None"
    and "fst (run_steps (steps_before_tag_check env
                          @ [check_if_tag_with_new_version_already_exists env]) s) = Ok ()"
    and "interactive (rm s1)"
    and "input_reply env (trace s1) = Inr response"
    and "strtobool env response = Inr False \<or> (\<exists>m. strtobool env response = Inl (ValueError m))"
  shows "try_make_release env s
     = (Fail (SysExit 2),
        s1\<lparr>trace := trace s1 @ [Input ''Proceed with release? [y/n] '', Stderr ''Aborting.'']\<rparr>)
     \<and> rollback_calls s1 = rollback_calls s"
proof -
  from assms(3) have pre: "run_steps (steps_before_tag_check env
      @ [check_if_tag_with_new_version_already_exists env]) s = (Ok (), s1)"
    by (simp add: s1_def prod_eq_iff)
  have "make_release_steps env s = (Fail (SysExit 2),
        s1\<lparr>trace := trace s1 @ [Input ''Proceed with release? [y/n] '', Stderr ''Aborting.'']\<rparr>)"
    using pre prompt_declined [OF assms(2,4,5,6)]
    by (simp add: make_release_steps_split2 thn_run)
  then have t: "try_make_release env s = (Fail (SysExit 2),
        s1\<lparr>trace := trace s1 @ [Input ''Proceed with release? [y/n] '', Stderr ''Aborting.'']\<rparr>)"
    by (rule try_make_release_exit)
  have "guards (\<lambda>x. rollback_calls x = rollback_calls s) script_failure
          (run_steps (steps_before_tag_check env
             @ [check_if_tag_with_new_version_already_exists env]))"
    by (rule steps_through_tag_check_frame) (rule frame_rollback_calls)
  from guardsD [OF this refl] have "rollback_calls s1 = rollback_calls s"
    by (simp add: s1_def)
  with t show ?thesis by simp
qed

theorem declined_prompt_exits_without_rollback_witness:
  "sigint_at declining_env = None
   \<and> fst (run_steps (steps_before_tag_check declining_env
                      @ [check_if_tag_with_new_version_already_exists declining_env])
            interactive_world) = Ok ()
   \<and> interactive (rm (snd (run_steps (steps_before_tag_check declining_env
                      @ [check_if_tag_with_new_version_already_exists declining_env])
            interactive_world)))
   \<and> input_reply declining_env (trace (snd (run_steps (steps_before_tag_check declining_env
                      @ [check_if_tag_with_new_version_already_exists declining_env])
            interactive_world))) = Inr ''n''
   \<and> strtobool declining_env ''n'' = Inr False
   \<and> fst (try_make_release declining_env interactive_world) = Fail (SysExit 2)"
proof -
  have a: "sigint_at declining_env = None" by code_simp
  have b: "fst (run_steps (steps_before_tag_check declining_env
                      @ [check_if_tag_with_new_version_already_exists declining_env])
            interactive_world) = Ok ()" by code_simp
  have c: "interactive (rm (snd (run_steps (steps_before_tag_check declining_env
                      @ [check_if_tag_with_new_version_already_exists declining_env])
            interactive_world)))" by code_simp
  have d: "input_reply declining_env (trace (snd (run_steps (steps_before_tag_check declining_env
                      @ [check_if_tag_with_new_version_already_exists declining_env])
            interactive_world))) = Inr ''n''" by code_simp
  have e: "strtobool declining_env ''n'' = Inr False" by code_simp
  from e have e': "strtobool declining_env ''n'' = Inr False
      \<or> (\<exists>m. strtobool declining_env ''n'' = Inl (ValueError m))" by simp
  from declined_prompt_exits_without_rollback [OF a b c d e'] a b c d e show ?thesis by simp
qed

text \<open>
  Claim C8 as it is written says that the rollback routine still runs when the user
  declines. In this run the user answers \<^verbatim>\<open>n\<close>: the script prints \<^verbatim>\<open>Aborting.\<close>, exits with
  status 2, and \<^verbatim>\<open>_rollback\<close> has not been entered; no tag deletion is in the trace.
\<close>

theorem declined_prompt_counterexample:
  "fst (try_make_release declining_env interactive_world) = Fail (SysExit 2)
   \<and> last (trace (snd (try_make_release declining_env interactive_world))) = Stderr ''Aborting.''
   \<and> rollback_calls (snd (try_make_release declining_env interactive_world)) = 0
   \<and> Git MainRepo ''tag'' [Some ''-d'', Some ''1.3.0'']
        \<notin> set (trace (snd (try_make_release declining_env interactive_world)))"
  by code_simp

subsection \<open>The configuration step and the handlers in a dry run\<close>

lemma config_kept_after_assignment:
  "guards (\<lambda>x. config x = c) (\<lambda>_. True) (modify_config_entries env es)"
  unfolding modify_config_entries_def print_def read_config_lines_def write_config_lines_def
    print_error_and_exit_def print_error_def
  by (auto intro!: grd guards_act guards_modify guards_fail split: sum.splits prod.splits)

lemma config_step_assigns:
  assumes "\<not> sigint_now env s"
  shows "config (snd (update_version_and_release_date_in_config env s))
    = (config s)\<lparr>PLUGIN_VERSION := new_version (rm s),
                 PLUGIN_VERSION_RELEASE_DATE := Some (gmtime_reply env (trace s))\<rparr>"
proof -
  let ?c = "(config s)\<lparr>PLUGIN_VERSION := new_version (rm s),
                 PLUGIN_VERSION_RELEASE_DATE := Some (gmtime_reply env (trace s))\<rparr>"
  let ?s1 = "s\<lparr>trace := trace s @ [GmTime], config := ?c\<rparr>"
  have r: "update_version_and_release_date_in_config env s
      = modify_config_entries env
          [(''PLUGIN_VERSION'', new_version (rm s)),
           (''PLUGIN_VERSION_RELEASE_DATE'', Some (gmtime_reply env (trace s)))] ?s1"
    using assms
    by (simp add: update_version_and_release_date_in_config_def bnd_def gets_def act_run
        thn_def modify_def)
  from guardsD [OF config_kept_after_assignment, of ?s1 ?c] r show ?thesis by simp
qed

lemma print_run:
  "\<not> sigint_now env s \<Longrightarrow> print env msg s = (Ok (), s\<lparr>trace := trace s @ [Stdout msg]\<rparr>)"
  by (simp add: print_def act_run)

lemma config_step_dry_run:
  assumes "sigint_at env = None" and "dry_run (rm s)"
  shows "update_version_and_release_date_in_config env s
    = (Ok (),
       s\<lparr>trace := trace s @
            [GmTime,
             Stdout (''Modifying the following entries in file ''
                     @ quoted (path_text env PLUGIN_CONFIG_FILEPATH)
                     @ '': PLUGIN_VERSION, PLUGIN_VERSION_RELEASE_DATE'')],
         config := (config s)\<lparr>PLUGIN_VERSION := new_version (rm s),
                     PLUGIN_VERSION_RELEASE_DATE := Some (gmtime_reply env (trace s))\<rparr>\<rparr>)"
  using assms
  by (simp add: update_version_and_release_date_in_config_def modify_config_entries_def
      bnd_def gets_def act_run thn_def modify_def print_run unless_dry_run_run)

lemma except_Exception_dry_run:
  assumes "\<not> sigint_now env s" and "dry_run (rm s)"
  shows "except_Exception env e s
    = (Fail (SysExit 1),
       s\<lparr>trace := trace s @
            [Stderr (NL # ''The following error has occurred:'' @ [NL] @ format_exc env e
                     @ [NL] @ ''Performing rollback and aborting.'')],
         rollback_calls := Suc (rollback_calls s)\<rparr>)"
  using assms
  by (simp add: except_Exception_def thn_run print_error_run rollback_unfold
      rollback_actions_def unless_dry_run_run fail_def)

lemma rollback_dry_run:
  "dry_run (rm s) \<Longrightarrow> rollback env s = (Ok (), s\<lparr>rollback_calls := Suc (rollback_calls s)\<rparr>)"
  by (simp add: rollback_unfold rollback_actions_def unless_dry_run_run)

lemma handle_sigint_dry_run:
  "dry_run (rm s) \<Longrightarrow> handle_sigint env s =
     (Fail (SysExit 1),
      s\<lparr>sigint_delivered := True,
        trace := trace s @ [Stderr (NL # ''Performing rollback and aborting.'')],
        rollback_calls := Suc (rollback_calls s)\<rparr>)"
  by (simp add: handle_sigint_def thn_run modify_def print_error_run rollback_dry_run fail_def)

lemma read_config_lines_run:
  "\<not> sigint_now env s \<Longrightarrow> open_reply env (trace s) PLUGIN_CONFIG_FILEPATH = None \<Longrightarrow>
   read_config_lines env s
     = (Ok (config_file s), s\<lparr>trace := trace s @ [ReadFile PLUGIN_CONFIG_FILEPATH]\<rparr>)"
  by (simp add: read_config_lines_def thn_run act_run may_raise_def gets_def)

lemma write_config_lines_run:
  "\<not> sigint_now env s \<Longrightarrow> open_reply env (trace s) PLUGIN_CONFIG_FILEPATH = None \<Longrightarrow>
   write_config_lines env ls s
     = (Ok (), s\<lparr>trace := trace s @ [WriteFile PLUGIN_CONFIG_FILEPATH (concat ls)],
                 config_file := ls\<rparr>)"
  by (simp add: write_config_lines_def thn_run act_run may_raise_def modify_def)

lemma modify_config_entries_run:
  fixes env :: "'v env" and s :: world and es :: entries
  defines "t1 \<equiv> trace s @ [Stdout (''Modifying the following entries in file ''
                      @ quoted (path_text env PLUGIN_CONFIG_FILEPATH) @ '': ''
                      @ join_comma (map fst es))]"
  assumes "\<not> dry_run (rm s)" and "sigint_at env = None"
    and "open_reply env t1 PLUGIN_CONFIG_FILEPATH = None"
    and "scan_lines (re_sub env) (config_file s) es = Inr (ls', missing)"
  shows "missing \<noteq> [] \<Longrightarrow>
         modify_config_entries env es s
           = (Fail (SysExit 1),
              s\<lparr>trace := t1 @ [ReadFile PLUGIN_CONFIG_FILEPATH,
                   Stderr (''Error: missing the following entries in file ''
                           @ quoted (path_text env PLUGIN_CONFIG_FILEPATH) @ '': ''
                           @ join_comma (map fst missing))]\<rparr>)"
    and "missing = [] \<Longrightarrow>
         open_reply env (t1 @ [ReadFile PLUGIN_CONFIG_FILEPATH]) PLUGIN_CONFIG_FILEPATH = None \<Longrightarrow>
         modify_config_entries env es s
           = (Ok (),
              s\<lparr>trace := t1 @ [ReadFile PLUGIN_CONFIG_FILEPATH,
                                WriteFile PLUGIN_CONFIG_FILEPATH (concat ls')],
                config_file := ls'\<rparr>)"
  using assms(2-5) unfolding t1_def
  by (simp_all add: modify_config_entries_def thn_run print_run unless_dry_run_run bnd_def
      read_config_lines_run write_config_lines_run print_error_and_exit_run ret_def)

subsection \<open>The claim about the entries of \<^verbatim>\<open>config.py\<close>\<close>

text \<open>
  Claim C5. For every \<^verbatim>\<open>config.py\<close> and every requested set of entries (distinct names
  without a space, new values that are strings without a backslash), the scan of
  \<^verbatim>\<open>_update_version_and_release_date_in_config\<close> ends with \<^verbatim>\<open>entries_to_find\<close> holding
  exactly the requested entries whose pattern matches no line. Every entry that was
  found has its new value in the list \<^verbatim>\<open>lines\<close>, at the first line that matches it. When an
  entry is missing, the function (outside a dry run, with no interrupt and a readable
  file) prints the error with exactly the missing names and exits with status 1, before
  it writes the file; when none is missing it raises no such error and writes the
  list to the file.
\<close>

theorem config_update_missing_entries:
  fixes env :: "'v env" and s :: world and es :: entries
  defines "missing \<equiv> filter (\<lambda>x. \<forall>l\<in>set (config_file s). \<not> entry_search (fst x) l) es"
  defines "t1 \<equiv> trace s @ [Stdout (''Modifying the following entries in file ''
                      @ quoted (path_text env PLUGIN_CONFIG_FILEPATH) @ '': ''
                      @ join_comma (map fst es))]"
  assumes "distinct (map fst es)" and "\<forall>x\<in>set es. entry_ok x"
  shows "\<exists>ls'. scan_lines (re_sub env) (config_file s) es = Inr (ls', missing)
     \<and> length ls' = length (config_file s)
     \<and> (\<forall>n v i. (n, Some v) \<in> set es \<longrightarrow> i < length (config_file s)
           \<longrightarrow> entry_search n (config_file s ! i)
           \<longrightarrow> (\<forall>j<i. \<not> entry_search n (config_file s ! j))
           \<longrightarrow> ls' ! i = entry_line n v (config_file s ! i))
     \<and> (\<not> dry_run (rm s) \<and> sigint_at env = None
          \<and> open_reply env t1 PLUGIN_CONFIG_FILEPATH = None \<longrightarrow>
          (missing \<noteq> [] \<longrightarrow>
             modify_config_entries env es s
               = (Fail (SysExit 1),
                  s\<lparr>trace := t1 @ [ReadFile PLUGIN_CONFIG_FILEPATH,
                       Stderr (''Error: missing the following entries in file ''
                               @ quoted (path_text env PLUGIN_CONFIG_FILEPATH) @ '': ''
                               @ join_comma (map fst missing))]\<rparr>))
          \<and> (missing = []
              \<and> open_reply env (t1 @ [ReadFile PLUGIN_CONFIG_FILEPATH]) PLUGIN_CONFIG_FILEPATH = None
              \<longrightarrow>
             modify_config_entries env es s
               = (Ok (),
                  s\<lparr>trace := t1 @ [ReadFile PLUGIN_CONFIG_FILEPATH,
                                    WriteFile PLUGIN_CONFIG_FILEPATH (concat ls')],
                    config_file := ls'\<rparr>)))"
proof -
  from scan_lines_result [OF assms(3,4), of "re_sub env" "config_file s"] obtain ls' where
    scan: "scan_lines (re_sub env) (config_file s) es = Inr (ls', missing)"
    and len: "length ls' = length (config_file s)"
    and sub: "\<forall>n v i. (n, Some v) \<in> set es \<longrightarrow> i < length (config_file s)
           \<longrightarrow> entry_search n (config_file s ! i)
           \<longrightarrow> (\<forall>j<i. \<not> entry_search n (config_file s ! j))
           \<longrightarrow> ls' ! i = entry_line n v (config_file s ! i)"
    unfolding missing_def by blast
  have "modify_config_entries env es s
      = (Fail (SysExit 1),
         s\<lparr>trace := t1 @ [ReadFile PLUGIN_CONFIG_FILEPATH,
              Stderr (''Error: missing the following entries in file ''
                      @ quoted (path_text env PLUGIN_CONFIG_FILEPATH) @ '': ''
                      @ join_comma (map fst missing))]\<rparr>)"
    if "\<not> dry_run (rm s)" "sigint_at env = None"
      "open_reply env t1 PLUGIN_CONFIG_FILEPATH = None" "missing \<noteq> []"
    using modify_config_entries_run(1) [OF that(1,2) _ scan that(4)] that(3)
    by (simp add: t1_def)
  moreover have "modify_config_entries env es s
      = (Ok (),
         s\<lparr>trace := t1 @ [ReadFile PLUGIN_CONFIG_FILEPATH,
                           WriteFile PLUGIN_CONFIG_FILEPATH (concat ls')],
           config_file := ls'\<rparr>)"
    if "\<not> dry_run (rm s)" "sigint_at env = None"
      "open_reply env t1 PLUGIN_CONFIG_FILEPATH = None" "missing = []"
      "open_reply env (t1 @ [ReadFile PLUGIN_CONFIG_FILEPATH]) PLUGIN_CONFIG_FILEPATH = None"
    using modify_config_entries_run(2) [OF that(1,2) _ scan that(4)] that(3,5)
    by (simp add: t1_def)
  ultimately show ?thesis using scan len sub by - (rule exI [of _ ls'], simp)
qed

theorem config_update_missing_entries_witness:
  "distinct (map fst sample_entries)
   \<and> entry_ok (''PLUGIN_VERSION'', Some ''1.3.0'')
   \<and> entry_ok (''PLUGIN_VERSION_RELEASE_DATE'', Some ''May 01, 2019'')
   \<and> \<not> dry_run (rm undated_world) \<and> sigint_at sample_env = None
   \<and> scan_lines (re_sub sample_env) (config_file undated_world) sample_entries
      = Inr ([config_line ''PLUGIN_VERSION'' ''1.3.0'', ''# no date here\<newline>''],
             [(''PLUGIN_VERSION_RELEASE_DATE'', Some ''May 01, 2019'')])
   \<and> fst (modify_config_entries sample_env sample_entries undated_world) = Fail (SysExit 1)
   \<and> last (trace (snd (modify_config_entries sample_env sample_entries undated_world)))
      = Stderr (''Error: missing the following entries in file '' @ quoted ''config.py''
                @ '': PLUGIN_VERSION_RELEASE_DATE'')
   \<and> config_file (snd (modify_config_entries sample_env sample_entries undated_world))
      = config_file undated_world"
proof -
  have a: "distinct (map fst sample_entries)" by code_simp
  have b: "entry_ok (''PLUGIN_VERSION'', Some ''1.3.0'')"
    "entry_ok (''PLUGIN_VERSION_RELEASE_DATE'', Some ''May 01, 2019'')"
    by (simp_all add: entry_ok_def)
  then have b': "\<forall>x\<in>set sample_entries. entry_ok x" by (simp add: sample_entries_def)
  have c: "\<not> dry_run (rm undated_world)" "sigint_at sample_env = None" by code_simp+
  have d: "scan_lines (re_sub sample_env) (config_file undated_world) sample_entries
      = Inr ([config_line ''PLUGIN_VERSION'' ''1.3.0'', ''# no date here\<newline>''],
             [(''PLUGIN_VERSION_RELEASE_DATE'', Some ''May 01, 2019'')])" by code_simp
  have e: "fst (modify_config_entries sample_env sample_entries undated_world) = Fail (SysExit 1)"
    by code_simp
  have f: "last (trace (snd (modify_config_entries sample_env sample_entries undated_world)))
      = Stderr (''Error: missing the following entries in file '' @ quoted ''config.py''
                @ '': PLUGIN_VERSION_RELEASE_DATE'')" by code_simp
  have g: "config_file (snd (modify_config_entries sample_env sample_entries undated_world))
      = config_file undated_world" by code_simp
  from config_update_missing_entries [OF a b', where env = sample_env and s = undated_world] a b c d e f g
  show ?thesis by simp
qed

subsection \<open>The claim about failures and the rollback\<close>

lemma untouched_steps_through_prompt:
  "guards (untouched s0) (\<lambda>_. True)
     (run_steps (steps_before_tag_check env
                 @ [check_if_tag_with_new_version_already_exists env, prompt_step env]))"
  unfolding steps_before_tag_check_def
  by (rule guards_run_steps)
    (auto intro!: grd untouched_check_branches untouched_get_next_version untouched_check_tag
      untouched_prompt_step)

lemma make_release_steps_stop:
  assumes "fst (run_steps (steps_before_tag_check env
                 @ [check_if_tag_with_new_version_already_exists env, prompt_step env]) s)
           = Fail f"
  shows "make_release_steps env s
    = run_steps (steps_before_tag_check env
                 @ [check_if_tag_with_new_version_already_exists env, prompt_step env]) s"
proof -
  have "make_release_steps env
      = thn (run_steps (steps_before_tag_check env
                 @ [check_if_tag_with_new_version_already_exists env, prompt_step env]))
            (run_steps (steps_after_prompt env))"
    unfolding make_release_steps_def run_steps_append [symmetric] by simp
  with assms show ?thesis
    by (simp add: thn_run prod_eq_iff split: prod.splits result.splits)
qed

text \<open>
  Claim C1, as the code has it. Let \<^verbatim>\<open>_make_release\<close> end in a failure. If the failure is
  an exception (a failed git command, a failed build of the installers, a failed request
  or upload) or the interrupt signal, then \<^verbatim>\<open>_rollback\<close> is entered before the process
  ends, the process ends with a non-zero status, and the release metadata,
  \<^verbatim>\<open>pg.config\<close> and the two files are as \<^verbatim>\<open>_make_release\<close> left them; both paths enter the
  one function \<^verbatim>\<open>_rollback\<close>. If the failure is a \<^verbatim>\<open>sys.exit\<close> of a step, then the process
  ends with that status, 1 or 2, in the state \<^verbatim>\<open>_make_release\<close> left, and \<^verbatim>\<open>_rollback\<close> has
  not been entered. Where such an exit comes in the steps up to the prompt (local
  changes, an invalid version, a version that cannot be incremented, an existing tag, a
  declined prompt), nothing has been written by then: the two files are as at the start
  and the run has added read-only actions only. In every case of failure the exit
  status is not 0.
\<close>

theorem failures_and_rollback:
  fixes env :: "'v env" and s :: world
  defines "r0 \<equiv> fst (make_release_steps env s)"
    and "s0 \<equiv> snd (make_release_steps env s)"
    and "r \<equiv> fst (try_make_release env s)"
    and "s' \<equiv> snd (try_make_release env s)"
    and "checks \<equiv> run_steps (steps_before_tag_check env
                     @ [check_if_tag_with_new_version_already_exists env, prompt_step env]) s"
  shows "((\<exists>e. r0 = Fail (Raise e)) \<or> r0 = Fail Sigint \<longrightarrow>
            rollback_calls s < rollback_calls s' \<and> exit_status r = 1 \<and> same_release s0 s')
     \<and> (\<forall>n. r0 = Fail (SysExit n) \<longrightarrow>
            (n = 1 \<or> n = 2) \<and> r = r0 \<and> s' = s0 \<and> rollback_calls s' = rollback_calls s)
     \<and> (\<forall>f. r0 = Fail f \<longrightarrow> exit_status r \<noteq> 0)
     \<and> (r0 = Ok () \<longrightarrow> r = Ok () \<and> s' = s0 \<and> rollback_calls s' = rollback_calls s)
     \<and> (\<forall>n. fst checks = Fail (SysExit n) \<longrightarrow>
            try_make_release env s = checks \<and> untouched s s'
            \<and> rollback_calls s' = rollback_calls s)"
proof -
  have a: "make_release_steps env s = (r0, s0)" and b: "try_make_release env s = (r, s')"
    by (simp_all add: r0_def s0_def r_def s'_def)
  note c = try_make_release_cases [OF a b]
  from c have keep: "rollback_calls s0 = rollback_calls s" by simp
  from c have ok: "r0 = Ok () \<Longrightarrow> r = Ok () \<and> s' = s0" by simp
  from c have ex: "r0 = Fail (SysExit n) \<Longrightarrow> r = r0 \<and> s' = s0 \<and> (n = 1 \<or> n = 2)" for n
    by simp
  from c have rb: "(\<exists>e. r0 = Fail (Raise e)) \<or> r0 = Fail Sigint \<Longrightarrow>
      rollback_calls s0 < rollback_calls s' \<and> same_release s0 s'
      \<and> (r = Fail (SysExit 1) \<or> (\<exists>e'. r = Fail (Raise e')))" by simp
  have rb': "rollback_calls s < rollback_calls s' \<and> exit_status r = 1 \<and> same_release s0 s'"
    if "(\<exists>e. r0 = Fail (Raise e)) \<or> r0 = Fail Sigint"
    using rb [OF that] keep by auto
  have nz: "exit_status r \<noteq> 0" if "r0 = Fail f" for f
  proof (cases f)
    case (SysExit n)
    with that ex [of n] show ?thesis by auto
  next
    case (Raise e)
    with that rb' show ?thesis by simp
  next
    case Sigint
    with that rb' show ?thesis by simp
  qed
  have early: "try_make_release env s = checks \<and> untouched s s'
      \<and> rollback_calls s' = rollback_calls s" if "fst checks = Fail (SysExit n)" for n
  proof -
    from that have m: "make_release_steps env s = checks"
      unfolding checks_def by (rule make_release_steps_stop)
    with that a have r0: "r0 = Fail (SysExit n)" and s0: "s0 = snd checks" by auto
    from ex [OF r0] a b m have t: "try_make_release env s = checks" by simp
    from guardsD [OF untouched_steps_through_prompt, of s s env]
    have "untouched s (snd checks)" by (simp add: checks_def)
    with ex [OF r0] s0 keep t show ?thesis by simp
  qed
  show ?thesis
  proof (intro conjI allI impI)
    fix n assume "r0 = Fail (SysExit n)"
    from ex [OF this] keep show "n = 1 \<or> n = 2" "r = r0" "s' = s0"
      "rollback_calls s' = rollback_calls s" by simp_all
  next
    assume "r0 = Ok ()"
    from ok [OF this] keep show "r = Ok ()" "s' = s0" "rollback_calls s' = rollback_calls s"
      by simp_all
  next
    fix n assume "fst checks = Fail (SysExit n)"
    from early [OF this] show "try_make_release env s = checks" "untouched s s'"
      "rollback_calls s' = rollback_calls s" by simp_all
  qed (use rb' nz in blast)+
qed

theorem failures_and_rollback_witness:
  "fst (make_release_steps commit_fails_env sample_world) = Fail (Raise GitCommandError)
   \<and> rollback_calls sample_world < rollback_calls (snd (try_make_release commit_fails_env sample_world))
   \<and> exit_status (fst (try_make_release commit_fails_env sample_world)) = 1
   \<and> fst (make_release_steps interrupted_env sample_world) = Fail Sigint
   \<and> rollback_calls sample_world < rollback_calls (snd (try_make_release interrupted_env sample_world))
   \<and> exit_status (fst (try_make_release interrupted_env sample_world)) = 1
   \<and> fst (make_release_steps tag_exists_env sample_world) = Fail (SysExit 1)
   \<and> try_make_release tag_exists_env sample_world = make_release_steps tag_exists_env sample_world
   \<and> rollback_calls (snd (try_make_release tag_exists_env sample_world))
      = rollback_calls sample_world
   \<and> fst (run_steps (steps_before_tag_check tag_exists_env
                      @ [check_if_tag_with_new_version_already_exists tag_exists_env,
                         prompt_step tag_exists_env]) sample_world) = Fail (SysExit 1)
   \<and> untouched sample_world (snd (try_make_release tag_exists_env sample_world))"
proof -
  have a: "fst (make_release_steps commit_fails_env sample_world) = Fail (Raise GitCommandError)"
    by code_simp
  have b: "fst (make_release_steps interrupted_env sample_world) = Fail Sigint" by code_simp
  have c: "fst (make_release_steps tag_exists_env sample_world) = Fail (SysExit 1)" by code_simp
  have d: "fst (run_steps (steps_before_tag_check tag_exists_env
                      @ [check_if_tag_with_new_version_already_exists tag_exists_env,
                         prompt_step tag_exists_env]) sample_world) = Fail (SysExit 1)"
    by code_simp
  from failures_and_rollback [of commit_fails_env sample_world] a
  have 1: "rollback_calls sample_world
        < rollback_calls (snd (try_make_release commit_fails_env sample_world))
      \<and> exit_status (fst (try_make_release commit_fails_env sample_world)) = 1" by simp
  from failures_and_rollback [of interrupted_env sample_world] b
  have 2: "rollback_calls sample_world
        < rollback_calls (snd (try_make_release interrupted_env sample_world))
      \<and> exit_status (fst (try_make_release interrupted_env sample_world)) = 1" by simp
  from failures_and_rollback [of tag_exists_env sample_world] c
  have 3: "try_make_release tag_exists_env sample_world
        = make_release_steps tag_exists_env sample_world
      \<and> rollback_calls (snd (try_make_release tag_exists_env sample_world))
        = rollback_calls sample_world" by (auto simp: prod_eq_iff)
  from failures_and_rollback [of tag_exists_env sample_world] d
  have 4: "untouched sample_world (snd (try_make_release tag_exists_env sample_world))"
    by blast
  from a b c d 1 2 3 4 show ?thesis by blast
qed

text \<open>
  Claim C1 as it is written says that every fatal kind other than the declined prompt
  triggers the rollback. In this run the main repository has local changes: the script
  asks git for the status, prints its message on the error stream and exits with status
  1; \<^verbatim>\<open>_rollback\<close> has not been entered, and no tag deletion and no reset is in the trace.
\<close>

theorem local_changes_exit_counterexample:
  "try_make_release dirty_env sample_world
     = (Fail (SysExit 1),
        sample_world\<lparr>trace :=
          [Git MainRepo ''status'' [Some ''--porcelain''],
           Stderr ''Repository contains local changes. Please remove or commit changes before proceeding.'']\<rparr>)
   \<and> exit_status (fst (try_make_release dirty_env sample_world)) = 1
   \<and> rollback_calls (snd (try_make_release dirty_env sample_world)) = 0
   \<and> Git MainRepo ''tag'' [Some ''-d'', Some ''1.3.0'']
        \<notin> set (trace (snd (try_make_release dirty_env sample_world)))
   \<and> Git MainRepo ''reset'' [Some ''--hard'', Some ''c0ffee'']
        \<notin> set (trace (snd (try_make_release dirty_env sample_world)))
   \<and> Git GhPagesRepo ''reset'' [Some ''--hard'', Some ''d0c5'']
        \<notin> set (trace (snd (try_make_release dirty_env sample_world)))"
  by code_simp

subsection \<open>The claims about dry runs\<close>

lemma active_branch_name_run:
  "\<not> sigint_now env s \<Longrightarrow> active_branch_reply env (trace s) repo = Inr b \<Longrightarrow>
   active_branch_name env repo s = (Ok b, s\<lparr>trace := trace s @ [ActiveBranch repo]\<rparr>)"
  by (simp add: active_branch_name_def act_run)

lemmas dry_step_defs = bnd_def gets_def thn_run print_run unless_dry_run_run
  active_branch_name_run ret_def Let_def

text \<open>
  Claim C3. A run of \<^verbatim>\<open>make_release\<close> with \<^verbatim>\<open>dry_run\<close> set leaves the changelog and
  \<^verbatim>\<open>config.py\<close> as they were, and every action it adds to the trace is read-only: a
  print, a prompt, a look at the clock, the reading of a file or of the name of the
  active branch, or one of the git queries \<^verbatim>\<open>status --porcelain\<close>, \<^verbatim>\<open>rev-parse HEAD\<close> and
  \<^verbatim>\<open>tag -l\<close>; no other git command, no write of a file, no removal or copy of a directory,
  no build of the installers and no request to GitHub. In a state with \<^verbatim>\<open>dry_run\<close> set
  and without an interrupt, each of the steps from the release commit to the GitHub
  release prints what it would do and returns.
\<close>

theorem dry_run_mutates_nothing:
  fixes env :: "'v env" and s :: world and kwargs :: options
  defines "s' \<equiv> snd (make_release env kwargs s)"
  assumes "dry_run kwargs"
  shows "changelog_file s' = changelog_file s \<and> config_file s' = config_file s
     \<and> take (length (trace s)) (trace s') = trace s
     \<and> list_all read_only (drop (length (trace s)) (trace s'))
     \<and> (\<forall>x. dry_run (rm x) \<and> sigint_at env = None \<longrightarrow>
          create_release_tag env x
            = (Ok (), x\<lparr>trace := trace x @
                 [Stdout (''Creating tag '' @ quoted (py_str (new_version (rm x))))]\<rparr>)
          \<and> make_installers env x
            = (Ok (), x\<lparr>trace := trace x @ [Stdout ''Creating installers'']\<rparr>)
          \<and> push_release_tag env x
            = (Ok (), x\<lparr>trace := trace x @
                 [Stdout (''Pushing tag '' @ quoted (py_str (new_version (rm x)))
                          @ '' to remote '' @ quoted (remote_name (rm x)))]\<rparr>)
          \<and> create_github_release env x
            = (Ok (), x\<lparr>trace := trace x @ [Stdout ''Creating GitHub release'']\<rparr>)
          \<and> (\<forall>repo b. active_branch_reply env (trace x) repo = Inr b \<longrightarrow>
                create_release_commit env repo x
                  = (Ok (), x\<lparr>trace := trace x @
                       [ActiveBranch repo,
                        Stdout (''Creating release commit from branch '' @ quoted b)]\<rparr>)
                \<and> push_release_commit env repo None x
                  = (Ok (), x\<lparr>trace := trace x @
                       [ActiveBranch repo,
                        Stdout (''Pushing release commit from branch '' @ quoted b
                                @ '' to remote ''
                                @ quoted (remote_name (rm x) @ '' ''
                                          @ remote_branch (rm x)))]\<rparr>))
          \<and> (\<forall>b. active_branch_reply env (trace x) GhPagesRepo = Inr b \<longrightarrow>
                prepare_gh_pages_for_update env x
                  = (Ok (), x\<lparr>trace := trace x @
                       [ActiveBranch GhPagesRepo,
                        Stdout (''Preparing branch '' @ quoted b @ '' for update'')]\<rparr>)))"
proof -
  from dry_run_untouched [OF assms(2), of s env]
  have u: "untouched s s'" by (simp add: s'_def)
  have steps: "create_release_tag env x
            = (Ok (), x\<lparr>trace := trace x @
                 [Stdout (''Creating tag '' @ quoted (py_str (new_version (rm x))))]\<rparr>)"
    "make_installers env x
            = (Ok (), x\<lparr>trace := trace x @ [Stdout ''Creating installers'']\<rparr>)"
    "push_release_tag env x
            = (Ok (), x\<lparr>trace := trace x @
                 [Stdout (''Pushing tag '' @ quoted (py_str (new_version (rm x)))
                          @ '' to remote '' @ quoted (remote_name (rm x)))]\<rparr>)"
    "create_github_release env x
            = (Ok (), x\<lparr>trace := trace x @ [Stdout ''Creating GitHub release'']\<rparr>)"
    if "dry_run (rm x)" "sigint_at env = None" for x
    using that
    by (simp_all add: create_release_tag_def make_installers_def push_release_tag_def
        create_github_release_def dry_step_defs)
  have branch: "create_release_commit env repo x
                  = (Ok (), x\<lparr>trace := trace x @
                       [ActiveBranch repo,
                        Stdout (''Creating release commit from branch '' @ quoted b)]\<rparr>)"
    "push_release_commit env repo None x
                  = (Ok (), x\<lparr>trace := trace x @
                       [ActiveBranch repo,
                        Stdout (''Pushing release commit from branch '' @ quoted b
                                @ '' to remote ''
                                @ quoted (remote_name (rm x) @ '' ''
                                          @ remote_branch (rm x)))]\<rparr>)"
    if "dry_run (rm x)" "sigint_at env = None" "active_branch_reply env (trace x) repo = Inr b"
    for x repo b
    using that
    by (simp_all add: create_release_commit_def push_release_commit_def dry_step_defs)
  have pages: "prepare_gh_pages_for_update env x
                  = (Ok (), x\<lparr>trace := trace x @
                       [ActiveBranch GhPagesRepo,
                        Stdout (''Preparing branch '' @ quoted b @ '' for update'')]\<rparr>)"
    if "dry_run (rm x)" "sigint_at env = None"
      "active_branch_reply env (trace x) GhPagesRepo = Inr b" for x b
    using that by (simp add: prepare_gh_pages_for_update_def dry_step_defs)
  from u have 1: "changelog_file s' = changelog_file s" "config_file s' = config_file s"
    "take (length (trace s)) (trace s') = trace s"
    "list_all read_only (drop (length (trace s)) (trace s'))"
    by (simp_all add: untouched_def read_only_since_def)
  show ?thesis
  proof (intro conjI allI impI)
    fix x :: world assume "dry_run (rm x) \<and> sigint_at env = None"
    then have d: "dry_run (rm x)" "sigint_at env = None" by simp_all
    from steps [OF d] show "create_release_tag env x
            = (Ok (), x\<lparr>trace := trace x @
                 [Stdout (''Creating tag '' @ quoted (py_str (new_version (rm x))))]\<rparr>)"
      "make_installers env x
            = (Ok (), x\<lparr>trace := trace x @ [Stdout ''Creating installers'']\<rparr>)"
      "push_release_tag env x
            = (Ok (), x\<lparr>trace := trace x @
                 [Stdout (''Pushing tag '' @ quoted (py_str (new_version (rm x)))
                          @ '' to remote '' @ quoted (remote_name (rm x)))]\<rparr>)"
      "create_github_release env x
            = (Ok (), x\<lparr>trace := trace x @ [Stdout ''Creating GitHub release'']\<rparr>)"
      by simp_all
    {
      fix repo b assume a: "active_branch_reply env (trace x) repo = Inr b"
      from branch [OF d a] show "create_release_commit env repo x
                  = (Ok (), x\<lparr>trace := trace x @
                       [ActiveBranch repo,
                        Stdout (''Creating release commit from branch '' @ quoted b)]\<rparr>)"
        "push_release_commit env repo None x
                  = (Ok (), x\<lparr>trace := trace x @
                       [ActiveBranch repo,
                        Stdout (''Pushing release commit from branch '' @ quoted b
                                @ '' to remote ''
                                @ quoted (remote_name (rm x) @ '' ''
                                          @ remote_branch (rm x)))]\<rparr>)"
        by simp_all
    }
    {
      fix b assume a: "active_branch_reply env (trace x) GhPagesRepo = Inr b"
      from pages [OF d a] show "prepare_gh_pages_for_update env x
                  = (Ok (), x\<lparr>trace := trace x @
                       [ActiveBranch GhPagesRepo,
                        Stdout (''Preparing branch '' @ quoted b @ '' for update'')]\<rparr>)" .
    }
  qed (rule 1)+
qed

theorem dry_run_mutates_nothing_witness:
  "dry_run (sample_options\<lparr>dry_run := True\<rparr>)
   \<and> fst (make_release sample_env (sample_options\<lparr>dry_run := True\<rparr>) sample_world) = Ok ()
   \<and> changelog_file (snd (make_release sample_env (sample_options\<lparr>dry_run := True\<rparr>) sample_world))
      = changelog_file sample_world
   \<and> config_file (snd (make_release sample_env (sample_options\<lparr>dry_run := True\<rparr>) sample_world))
      = config_file sample_world
   \<and> list_all read_only
        (drop (length (trace sample_world))
           (trace (snd (make_release sample_env (sample_options\<lparr>dry_run := True\<rparr>) sample_world))))
   \<and> dry_run (rm dry_world) \<and> sigint_at sample_env = None
   \<and> active_branch_reply sample_env (trace dry_world) MainRepo = Inr ''master''
   \<and> active_branch_reply sample_env (trace dry_world) GhPagesRepo = Inr ''gh-pages''
   \<and> create_github_release sample_env dry_world
      = (Ok (), dry_world\<lparr>trace := trace dry_world @ [Stdout ''Creating GitHub release'']\<rparr>)
   \<and> create_release_commit sample_env MainRepo dry_world
      = (Ok (), dry_world\<lparr>trace := trace dry_world @
           [ActiveBranch MainRepo,
            Stdout (''Creating release commit from branch '' @ quoted ''master'')]\<rparr>)
   \<and> prepare_gh_pages_for_update sample_env dry_world
      = (Ok (), dry_world\<lparr>trace := trace dry_world @
           [ActiveBranch GhPagesRepo,
            Stdout (''Preparing branch '' @ quoted ''gh-pages'' @ '' for update'')]\<rparr>)"
proof -
  have a: "dry_run (sample_options\<lparr>dry_run := True\<rparr>)" by simp
  have b: "fst (make_release sample_env (sample_options\<lparr>dry_run := True\<rparr>) sample_world) = Ok ()"
    by code_simp
  have c: "dry_run (rm dry_world)" "sigint_at sample_env = None"
    "active_branch_reply sample_env (trace dry_world) MainRepo = Inr ''master''"
    "active_branch_reply sample_env (trace dry_world) GhPagesRepo = Inr ''gh-pages''"
    by code_simp+
  note t = dry_run_mutates_nothing [OF a, where s = sample_world and env = sample_env]
  from t have 1: "changelog_file (snd (make_release sample_env (sample_options\<lparr>dry_run := True\<rparr>) sample_world))
      = changelog_file sample_world"
    "config_file (snd (make_release sample_env (sample_options\<lparr>dry_run := True\<rparr>) sample_world))
      = config_file sample_world"
    "list_all read_only
        (drop (length (trace sample_world))
           (trace (snd (make_release sample_env (sample_options\<lparr>dry_run := True\<rparr>) sample_world))))"
    by blast+
  from t c have 2: "create_github_release sample_env dry_world
      = (Ok (), dry_world\<lparr>trace := trace dry_world @ [Stdout ''Creating GitHub release'']\<rparr>)"
    "create_release_commit sample_env MainRepo dry_world
      = (Ok (), dry_world\<lparr>trace := trace dry_world @
           [ActiveBranch MainRepo,
            Stdout (''Creating release commit from branch '' @ quoted ''master'')]\<rparr>)"
    "prepare_gh_pages_for_update sample_env dry_world
      = (Ok (), dry_world\<lparr>trace := trace dry_world @
           [ActiveBranch GhPagesRepo,
            Stdout (''Preparing branch '' @ quoted ''gh-pages'' @ '' for update'')]\<rparr>)"
    by blast+
  from a b c 1 2 show ?thesis by blast
qed

text \<open>
  Claim C9. In a state with \<^verbatim>\<open>dry_run\<close> set, \<^verbatim>\<open>_rollback\<close> returns at once: it adds no
  action to the trace (no tag deletion, no look at or removal of the output directory,
  no reset) and changes nothing in the state but the count of its calls. This is so
  where the interrupt handler calls it, and where the \<^verbatim>\<open>except Exception\<close> clause calls
  it: each prints its message, calls \<^verbatim>\<open>_rollback\<close>, and exits with status 1.
\<close>

theorem rollback_noop_in_dry_run:
  fixes env :: "'v env" and s :: world
  assumes "dry_run (rm s)"
  shows "rollback_actions env s = (Ok (), s)
     \<and> rollback env s = (Ok (), s\<lparr>rollback_calls := Suc (rollback_calls s)\<rparr>)
     \<and> handle_sigint env s
        = (Fail (SysExit 1),
           s\<lparr>sigint_delivered := True,
             trace := trace s @ [Stderr (NL # ''Performing rollback and aborting.'')],
             rollback_calls := Suc (rollback_calls s)\<rparr>)
     \<and> (\<forall>e. \<not> sigint_now env s \<longrightarrow>
          except_Exception env e s
          = (Fail (SysExit 1),
             s\<lparr>trace := trace s @
                  [Stderr (NL # ''The following error has occurred:'' @ [NL] @ format_exc env e
                           @ [NL] @ ''Performing rollback and aborting.'')],
               rollback_calls := Suc (rollback_calls s)\<rparr>))"
proof (intro conjI allI impI)
  from assms show "rollback_actions env s = (Ok (), s)"
    by (simp add: rollback_actions_def unless_dry_run_run)
  from assms show "rollback env s = (Ok (), s\<lparr>rollback_calls := Suc (rollback_calls s)\<rparr>)"
    by (rule rollback_dry_run)
  from assms show "handle_sigint env s
        = (Fail (SysExit 1),
           s\<lparr>sigint_delivered := True,
             trace := trace s @ [Stderr (NL # ''Performing rollback and aborting.'')],
             rollback_calls := Suc (rollback_calls s)\<rparr>)"
    by (rule handle_sigint_dry_run)
next
  fix e assume "\<not> sigint_now env s"
  from except_Exception_dry_run [OF this assms]
  show "except_Exception env e s
          = (Fail (SysExit 1),
             s\<lparr>trace := trace s @
                  [Stderr (NL # ''The following error has occurred:'' @ [NL] @ format_exc env e
                           @ [NL] @ ''Performing rollback and aborting.'')],
               rollback_calls := Suc (rollback_calls s)\<rparr>)" .
qed

theorem rollback_noop_in_dry_run_witness:
  "dry_run (rm dry_tagged_world) \<and> \<not> sigint_now sample_env dry_tagged_world
   \<and> rollback sample_env dry_tagged_world
      = (Ok (), dry_tagged_world\<lparr>rollback_calls := Suc (rollback_calls dry_tagged_world)\<rparr>)
   \<and> trace (snd (rollback sample_env dry_tagged_world)) = trace dry_tagged_world
   \<and> fst (handle_sigint sample_env dry_tagged_world) = Fail (SysExit 1)
   \<and> trace (snd (handle_sigint sample_env dry_tagged_world))
      = trace dry_tagged_world @ [Stderr (NL # ''Performing rollback and aborting.'')]
   \<and> fst (except_Exception sample_env GitCommandError dry_tagged_world) = Fail (SysExit 1)
   \<and> trace (snd (except_Exception sample_env GitCommandError dry_tagged_world))
      = trace dry_tagged_world @
          [Stderr (NL # ''The following error has occurred:'' @ [NL] @ ''Traceback''
                   @ [NL] @ ''Performing rollback and aborting.'')]"
proof -
  have a: "dry_run (rm dry_tagged_world)" by code_simp
  have b: "\<not> sigint_now sample_env dry_tagged_world" by code_simp
  have c: "format_exc sample_env GitCommandError = ''Traceback''" by code_simp
  note t = rollback_noop_in_dry_run [OF a, where env = sample_env]
  from t have 1: "rollback sample_env dry_tagged_world
      = (Ok (), dry_tagged_world\<lparr>rollback_calls := Suc (rollback_calls dry_tagged_world)\<rparr>)"
    by blast
  then have 2: "trace (snd (rollback sample_env dry_tagged_world)) = trace dry_tagged_world"
    by simp
  from t have "handle_sigint sample_env dry_tagged_world
        = (Fail (SysExit 1),
           dry_tagged_world\<lparr>sigint_delivered := True,
             trace := trace dry_tagged_world @ [Stderr (NL # ''Performing rollback and aborting.'')],
             rollback_calls := Suc (rollback_calls dry_tagged_world)\<rparr>)" by blast
  then have 3: "fst (handle_sigint sample_env dry_tagged_world) = Fail (SysExit 1)"
    "trace (snd (handle_sigint sample_env dry_tagged_world))
      = trace dry_tagged_world @ [Stderr (NL # ''Performing rollback and aborting.'')]"
    by simp_all
  from t b have "except_Exception sample_env GitCommandError dry_tagged_world
          = (Fail (SysExit 1),
             dry_tagged_world\<lparr>trace := trace dry_tagged_world @
                  [Stderr (NL # ''The following error has occurred:'' @ [NL]
                           @ format_exc sample_env GitCommandError
                           @ [NL] @ ''Performing rollback and aborting.'')],
               rollback_calls := Suc (rollback_calls dry_tagged_world)\<rparr>)" by blast
  with c have 4: "fst (except_Exception sample_env GitCommandError dry_tagged_world)
      = Fail (SysExit 1)"
    "trace (snd (except_Exception sample_env GitCommandError dry_tagged_world))
      = trace dry_tagged_world @
          [Stderr (NL # ''The following error has occurred:'' @ [NL] @ ''Traceback''
                   @ [NL] @ ''Performing rollback and aborting.'')]"
    by simp_all
  from a b 1 2 3 4 show ?thesis by blast
qed

text \<open>
  Claim C10. Unless the interrupt arrives at its first action, the configuration step
  assigns the new version and the new release date to \<^verbatim>\<open>PLUGIN_VERSION\<close> and
  \<^verbatim>\<open>PLUGIN_VERSION_RELEASE_DATE\<close> of \<^verbatim>\<open>pg.config\<close>, with or without \<^verbatim>\<open>dry_run\<close>, and however the
  step ends. In a dry run without an interrupt the step ends well after the assignment
  and one print: \<^verbatim>\<open>config.py\<close> is neither read nor written, and nothing else in the state
  changes.
\<close>

theorem config_assigned_even_in_dry_run:
  fixes env :: "'v env" and s :: world
  defines "c' \<equiv> (config s)\<lparr>PLUGIN_VERSION := new_version (rm s),
                      PLUGIN_VERSION_RELEASE_DATE := Some (gmtime_reply env (trace s))\<rparr>"
  shows "(\<not> sigint_now env s \<longrightarrow>
            config (snd (update_version_and_release_date_in_config env s)) = c')
     \<and> (sigint_at env = None \<and> dry_run (rm s) \<longrightarrow>
          update_version_and_release_date_in_config env s
          = (Ok (),
             s\<lparr>trace := trace s @
                  [GmTime,
                   Stdout (''Modifying the following entries in file ''
                           @ quoted (path_text env PLUGIN_CONFIG_FILEPATH)
                           @ '': PLUGIN_VERSION, PLUGIN_VERSION_RELEASE_DATE'')],
               config := c'\<rparr>))"
proof (intro conjI impI)
  assume "\<not> sigint_now env s"
  from config_step_assigns [OF this]
  show "config (snd (update_version_and_release_date_in_config env s)) = c'"
    by (simp add: c'_def)
next
  assume "sigint_at env = None \<and> dry_run (rm s)"
  then have "sigint_at env = None" "dry_run (rm s)" by simp_all
  from config_step_dry_run [OF this]
  show "update_version_and_release_date_in_config env s
          = (Ok (),
             s\<lparr>trace := trace s @
                  [GmTime,
                   Stdout (''Modifying the following entries in file ''
                           @ quoted (path_text env PLUGIN_CONFIG_FILEPATH)
                           @ '': PLUGIN_VERSION, PLUGIN_VERSION_RELEASE_DATE'')],
               config := c'\<rparr>)"
    by (simp add: c'_def)
qed

theorem config_assigned_even_in_dry_run_witness:
  "sigint_at sample_env = None \<and> dry_run (rm dry_tagged_world)
   \<and> \<not> sigint_now sample_env dry_tagged_world
   \<and> PLUGIN_VERSION (config dry_tagged_world) = Some ''1.2.0''
   \<and> PLUGIN_VERSION_RELEASE_DATE (config dry_tagged_world) = Some ''April 01, 2019''
   \<and> fst (update_version_and_release_date_in_config sample_env dry_tagged_world) = Ok ()
   \<and> PLUGIN_VERSION
        (config (snd (update_version_and_release_date_in_config sample_env dry_tagged_world)))
      = Some ''1.3.0''
   \<and> PLUGIN_VERSION_RELEASE_DATE
        (config (snd (update_version_and_release_date_in_config sample_env dry_tagged_world)))
      = Some ''May 01, 2019''
   \<and> config_file (snd (update_version_and_release_date_in_config sample_env dry_tagged_world))
      = config_file dry_tagged_world"
proof -
  have a: "sigint_at sample_env = None" "dry_run (rm dry_tagged_world)"
    "\<not> sigint_now sample_env dry_tagged_world" by code_simp+
  have b: "PLUGIN_VERSION (config dry_tagged_world) = Some ''1.2.0''"
    "PLUGIN_VERSION_RELEASE_DATE (config dry_tagged_world) = Some ''April 01, 2019''"
    "new_version (rm dry_tagged_world) = Some ''1.3.0''"
    "gmtime_reply sample_env (trace dry_tagged_world) = ''May 01, 2019''" by code_simp+
  from config_assigned_even_in_dry_run [of sample_env dry_tagged_world] a
  have "update_version_and_release_date_in_config sample_env dry_tagged_world
          = (Ok (),
             dry_tagged_world\<lparr>trace := trace dry_tagged_world @
                  [GmTime,
                   Stdout (''Modifying the following entries in file ''
                           @ quoted (path_text sample_env PLUGIN_CONFIG_FILEPATH)
                           @ '': PLUGIN_VERSION, PLUGIN_VERSION_RELEASE_DATE'')],
               config := (config dry_tagged_world)\<lparr>
                  PLUGIN_VERSION := new_version (rm dry_tagged_world),
                  PLUGIN_VERSION_RELEASE_DATE
                    := Some (gmtime_reply sample_env (trace dry_tagged_world))\<rparr>\<rparr>)"
    by blast
  with b have 1: "fst (update_version_and_release_date_in_config sample_env dry_tagged_world) = Ok ()"
    "PLUGIN_VERSION
        (config (snd (update_version_and_release_date_in_config sample_env dry_tagged_world)))
      = Some ''1.3.0''"
    "PLUGIN_VERSION_RELEASE_DATE
        (config (snd (update_version_and_release_date_in_config sample_env dry_tagged_world)))
      = Some ''May 01, 2019''"
    "config_file (snd (update_version_and_release_date_in_config sample_env dry_tagged_world))
      = config_file dry_tagged_world"
    by simp_all
  from a b 1 show ?thesis by blast
qed

subsection \<open>The first header of the changelog\<close>

lemma line_split:
  "NL \<notin> set t \<Longrightarrow> takeWhile (\<lambda>c. c \<noteq> NL) (t @ NL # r) = t"
  "NL \<notin> set t \<Longrightarrow> dropWhile (\<lambda>c. c \<noteq> NL) (t @ NL # r) = NL # r"
  by (induction t) auto

lemma after_line_at: "NL \<notin> set t \<Longrightarrow> after_line (t @ NL # after) = after"
  by (simp add: after_line_def line_split)

lemma hash_header_at:
  "NL \<notin> set title \<Longrightarrow> hash_header (''# '' @ title @ NL # after) = Some title"
  by (simp add: hash_header_def line_split)

lemma underline_run:
  "takeWhile (\<lambda>c. c = CHR ''='') (replicate n (CHR ''='') @ NL # after) = replicate n (CHR ''='')"
  "dropWhile (\<lambda>c. c = CHR ''='') (replicate n (CHR ''='') @ NL # after) = NL # after"
  by (induction n) simp_all

lemma underlined_header_at:
  "NL \<notin> set title \<Longrightarrow> 0 < n \<Longrightarrow>
   underlined_header (title @ NL # replicate n (CHR ''='') @ NL # after) = Some title"
  by (simp add: underlined_header_def after_line_at underline_run line_split)

lemma search_hash_header:
  "NL \<notin> set title \<Longrightarrow>
   search_first_level_header (''# '' @ title @ NL # rest) = Some (Group2 title)"
  using hash_header_at [of title rest] by simp

lemma hash_header_not_at:
  "take 2 title \<noteq> ''# '' \<Longrightarrow> NL \<notin> set title \<Longrightarrow> hash_header (title @ NL # rest) = None"
  by (cases title; cases "tl title") (auto simp: hash_header_def)

lemma search_underlined_header:
  assumes "NL \<notin> set title" and "take 2 title \<noteq> ''# ''" and "0 < n"
  shows "search_first_level_header (title @ NL # replicate n (CHR ''='') @ NL # rest)
    = Some (Group3 title)"
proof -
  obtain c cs where c: "title @ NL # replicate n (CHR ''='') @ NL # rest = c # cs"
    by (cases title) simp_all
  from hash_header_not_at [OF assms(2,1), of "replicate n (CHR ''='') @ NL # rest"] c
  have h: "hash_header (c # cs) = None" by simp
  from underlined_header_at [OF assms(1,3), of rest] c
  have u: "underlined_header (c # cs) = Some title" by simp
  have "search_first_level_header (c # cs) = Some (Group3 title)" by (simp add: h u)
  with c show ?thesis by simp
qed

lemma sub_hash_header_skip:
  "\<forall>i<length before. hash_header (drop i (before @ r)) = None \<Longrightarrow>
   sub_hash_header repl (before @ r) = before @ sub_hash_header repl r"
proof (induction before)
  case Nil
  show ?case by simp
next
  case (Cons p ps)
  from Cons.prems have 0: "hash_header (p # ps @ r) = None" by force
  from Cons.prems have "\<forall>i<length ps. hash_header (drop i (ps @ r)) = None"
    by (metis Suc_less_eq append_Cons drop_Suc_Cons length_Cons)
  from Cons.IH [OF this] 0 show ?case by simp
qed

lemma sub_underlined_header_skip:
  "\<forall>i<length before. underlined_header (drop i (before @ r)) = None \<Longrightarrow>
   sub_underlined_header repl (before @ r) = before @ sub_underlined_header repl r"
proof (induction before)
  case Nil
  show ?case by simp
next
  case (Cons p ps)
  from Cons.prems have 0: "underlined_header (p # ps @ r) = None" by force
  from Cons.prems have "\<forall>i<length ps. underlined_header (drop i (ps @ r)) = None"
    by (metis Suc_less_eq append_Cons drop_Suc_Cons length_Cons)
  from Cons.IH [OF this] 0 show ?case by simp
qed

lemma sub_hash_header_at:
  "NL \<notin> set title \<Longrightarrow>
   sub_hash_header repl (''# '' @ title @ NL # after) = repl @ after"
  using hash_header_at [of title after] by (simp add: after_line_at)

lemma sub_underlined_header_at:
  assumes "NL \<notin> set title" and "0 < n"
  shows "sub_underlined_header repl (title @ NL # replicate n (CHR ''='') @ NL # after)
    = repl @ after"
proof -
  obtain c cs where c: "title @ NL # replicate n (CHR ''='') @ NL # after = c # cs"
    by (cases title) simp_all
  have "sub_underlined_header repl (c # cs)
      = repl @ tl (dropWhile (\<lambda>c. c = CHR ''='') (after_line (c # cs)))"
    using underlined_header_at [OF assms, of after] c by simp
  then show ?thesis
    unfolding c [symmetric] using assms(1) by (simp add: after_line_at underline_run)
qed

lemma retitle_hash_header:
  assumes "title \<noteq> []" and "NL \<notin> set title" and "BSL \<notin> set v"
    and "\<forall>i<length before. hash_header (drop i (before @ ''# '' @ title @ NL # after)) = None"
  shows "retitle re (Group2 title) (Some v) (before @ ''# '' @ title @ NL # after)
    = Inr (before @ ''# '' @ v @ NL # after)"
  using assms(1,3) sub_hash_header_skip [OF assms(4)] sub_hash_header_at [OF assms(2)]
  by (simp add: retitle_def)

lemma retitle_underlined_header:
  assumes "title \<noteq> []" and "NL \<notin> set title" and "BSL \<notin> set v" and "0 < n"
    and "\<forall>i<length before. underlined_header
            (drop i (before @ title @ NL # replicate n (CHR ''='') @ NL # after)) = None"
  shows "retitle re (Group3 title) (Some v) (before @ title @ NL # replicate n (CHR ''='') @ NL # after)
    = Inr (before @ v @ NL # replicate (length v) (CHR ''='') @ NL # after)"
  using assms(1,3) sub_underlined_header_skip [OF assms(5)]
    sub_underlined_header_at [OF assms(2,4)]
  by (simp add: retitle_def)

lemma read_changelog_run:
  "\<not> sigint_now env s \<Longrightarrow> open_reply env (trace s) CHANGELOG_FILEPATH = None \<Longrightarrow>
   read_changelog env s
     = (Ok (changelog_file s), s\<lparr>trace := trace s @ [ReadFile CHANGELOG_FILEPATH]\<rparr>)"
  by (simp add: read_changelog_def thn_run act_run may_raise_def gets_def)

lemma write_changelog_run:
  "\<not> sigint_now env s \<Longrightarrow> open_reply env (trace s) CHANGELOG_FILEPATH = None \<Longrightarrow>
   write_changelog env d s
     = (Ok (), s\<lparr>trace := trace s @ [WriteFile CHANGELOG_FILEPATH d], changelog_file := d\<rparr>)"
  by (simp add: write_changelog_def thn_run act_run may_raise_def modify_def)

lemma changelog_step_released:
  assumes "sigint_at env = None" and "open_reply env (trace s) CHANGELOG_FILEPATH = None"
    and "unreleased_header (released_versions (rm s))
           (fst (find_section env (changelog_file s))) = None"
  shows "get_release_notes_and_modify_changelog_first_header env s
    = (Ok (), s\<lparr>trace := trace s @ [ReadFile CHANGELOG_FILEPATH]\<rparr>)"
  using assms
  by (simp add: get_release_notes_and_modify_changelog_first_header_def bnd_def
      read_changelog_run gets_def ret_def)

lemma changelog_step_retitles:
  assumes "sigint_at env = None" and "\<not> dry_run (rm s)"
    and "\<forall>h. open_reply env h CHANGELOG_FILEPATH = None"
    and "unreleased_header (released_versions (rm s))
           (fst (find_section env (changelog_file s))) = Some m"
    and "retitle (re_sub env) m (new_version (rm s)) (changelog_file s) = Inr d"
  shows "get_release_notes_and_modify_changelog_first_header env s
    = (Ok (),
       s\<lparr>rm := (rm s)\<lparr>new_version_release_notes :=
                   py_strip (snd (find_section env (changelog_file s)))\<rparr>,
         trace := trace s @
           [ReadFile CHANGELOG_FILEPATH,
            Stdout (''Replacing header name '' @ quoted (printed_header_name m)
                    @ '' in the changelog with the new version''),
            WriteFile CHANGELOG_FILEPATH d],
         changelog_file := d\<rparr>)"
  using assms
  by (simp add: get_release_notes_and_modify_changelog_first_header_def bnd_def
      read_changelog_run gets_def thn_run modify_def print_run unless_dry_run_run
      write_changelog_run)

lemma list_all_upt: "list_all P [0..<n] \<longleftrightarrow> (\<forall>i<n. P i)"
  by (auto simp: list_all_iff)

subsection \<open>The claims about the changelog\<close>

text \<open>
  Claim C6. Let the first header have a non-empty title, and let the new version be
  free of backslashes. A header line \<^verbatim>\<open># title\<close> whose title is not a released version
  is found as such, and where it is the first place of the document at which \<^verbatim>\<open># \<close> and
  a line end follow each other, the retitling puts the new version in the place of the
  title and leaves the text before and after the header line as it is. A title line
  underlined by \<^verbatim>\<open>=\<close> characters (that does not itself start with \<^verbatim>\<open># \<close>) is found as
  such, and where it is the first underlined line of the document, the retitling puts
  the new version in the place of the title and as many \<^verbatim>\<open>=\<close> as the new version is
  long in the place of the underline, and leaves the text before and after as it is. The
  step writes this document to the changelog.
\<close>

theorem retitle_rewrites_header_only:
  fixes re :: re_module and env :: "'v env" and s :: world
    and title v before after rest :: string and released :: "string list" and n :: nat
  assumes "title \<noteq> []" and "NL \<notin> set title" and "BSL \<notin> set v"
  shows "(title \<notin> set released \<longrightarrow>
            unreleased_header released (''# '' @ title @ NL # rest) = Some (Group2 title))
     \<and> ((\<forall>i<length before. hash_header (drop i (before @ ''# '' @ title @ NL # after)) = None)
          \<longrightarrow> retitle re (Group2 title) (Some v) (before @ ''# '' @ title @ NL # after)
                = Inr (before @ ''# '' @ v @ NL # after))
     \<and> (title \<notin> set released \<and> take 2 title \<noteq> ''# '' \<and> 0 < n \<longrightarrow>
            unreleased_header released (title @ NL # replicate n (CHR ''='') @ NL # rest)
              = Some (Group3 title))
     \<and> (0 < n \<and> (\<forall>i<length before. underlined_header
                     (drop i (before @ title @ NL # replicate n (CHR ''='') @ NL # after)) = None)
          \<longrightarrow> retitle re (Group3 title) (Some v)
                  (before @ title @ NL # replicate n (CHR ''='') @ NL # after)
                = Inr (before @ v @ NL # replicate (length v) (CHR ''='') @ NL # after))
     \<and> (\<forall>m d. sigint_at env = None \<and> \<not> dry_run (rm s)
               \<and> (\<forall>h. open_reply env h CHANGELOG_FILEPATH = None)
               \<and> unreleased_header (released_versions (rm s))
                    (fst (find_section env (changelog_file s))) = Some m
               \<and> retitle (re_sub env) m (new_version (rm s)) (changelog_file s) = Inr d
          \<longrightarrow> fst (get_release_notes_and_modify_changelog_first_header env s) = Ok ()
              \<and> changelog_file (snd (get_release_notes_and_modify_changelog_first_header env s))
                  = d)"
proof (intro conjI allI impI)
  assume "title \<notin> set released"
  with search_hash_header [OF assms(2), of rest]
  show "unreleased_header released (''# '' @ title @ NL # rest) = Some (Group2 title)"
    by (simp add: unreleased_header_def)
next
  assume "\<forall>i<length before. hash_header (drop i (before @ ''# '' @ title @ NL # after)) = None"
  from retitle_hash_header [OF assms this]
  show "retitle re (Group2 title) (Some v) (before @ ''# '' @ title @ NL # after)
      = Inr (before @ ''# '' @ v @ NL # after)" .
next
  assume "title \<notin> set released \<and> take 2 title \<noteq> ''# '' \<and> 0 < n"
  then have a: "title \<notin> set released" "take 2 title \<noteq> ''# ''" "0 < n" by simp_all
  from search_underlined_header [OF assms(2) a(2,3), of rest] a(1)
  show "unreleased_header released (title @ NL # replicate n (CHR ''='') @ NL # rest)
      = Some (Group3 title)"
    by (simp add: unreleased_header_def)
next
  assume "0 < n \<and> (\<forall>i<length before. underlined_header
      (drop i (before @ title @ NL # replicate n (CHR ''='') @ NL # after)) = None)"
  then have a: "0 < n" "\<forall>i<length before. underlined_header
      (drop i (before @ title @ NL # replicate n (CHR ''='') @ NL # after)) = None" by simp_all
  from retitle_underlined_header [OF assms a]
  show "retitle re (Group3 title) (Some v)
        (before @ title @ NL # replicate n (CHR ''='') @ NL # after)
      = Inr (before @ v @ NL # replicate (length v) (CHR ''='') @ NL # after)" .
next
  fix m d
  assume "sigint_at env = None \<and> \<not> dry_run (rm s)
      \<and> (\<forall>h. open_reply env h CHANGELOG_FILEPATH = None)
      \<and> unreleased_header (released_versions (rm s))
           (fst (find_section env (changelog_file s))) = Some m
      \<and> retitle (re_sub env) m (new_version (rm s)) (changelog_file s) = Inr d"
  then have a: "sigint_at env = None" "\<not> dry_run (rm s)"
    "\<forall>h. open_reply env h CHANGELOG_FILEPATH = None"
    "unreleased_header (released_versions (rm s))
       (fst (find_section env (changelog_file s))) = Some m"
    "retitle (re_sub env) m (new_version (rm s)) (changelog_file s) = Inr d" by simp_all
  from changelog_step_retitles [OF a]
  show "fst (get_release_notes_and_modify_changelog_first_header env s) = Ok ()"
    "changelog_file (snd (get_release_notes_and_modify_changelog_first_header env s)) = d"
    by simp_all
qed

theorem retitle_rewrites_header_only_witness:
  "''Unreleased'' \<noteq> [] \<and> NL \<notin> set ''Unreleased'' \<and> BSL \<notin> set ''1.3.0''
   \<and> ''Unreleased'' \<notin> set [''1.1.0'', ''1.2.0''] \<and> take 2 ''Unreleased'' \<noteq> ''# ''
   \<and> list_all (\<lambda>i. hash_header (drop i (''Changes\<newline>\<newline>'' @ ''# '' @ ''Unreleased'' @ NL # ''* Fixed.\<newline>'')) = None)
        [0..<length ''Changes\<newline>\<newline>'']
   \<and> retitle (re_sub sample_env) (Group2 ''Unreleased'') (Some ''1.3.0'')
        (''Changes\<newline>\<newline>'' @ ''# '' @ ''Unreleased'' @ NL # ''* Fixed.\<newline>'')
      = Inr (''Changes\<newline>\<newline>'' @ ''# '' @ ''1.3.0'' @ NL # ''* Fixed.\<newline>'')
   \<and> list_all (\<lambda>i. underlined_header
                     (drop i (''Changes\<newline>\<newline>'' @ ''Unreleased'' @ NL # replicate 10 (CHR ''='')
                              @ NL # ''* Fixed.\<newline>'')) = None)
        [0..<length ''Changes\<newline>\<newline>'']
   \<and> retitle (re_sub sample_env) (Group3 ''Unreleased'') (Some ''1.3.0'')
        (''Changes\<newline>\<newline>'' @ ''Unreleased'' @ NL # replicate 10 (CHR ''='') @ NL # ''* Fixed.\<newline>'')
      = Inr (''Changes\<newline>\<newline>'' @ ''1.3.0'' @ NL # replicate (length ''1.3.0'') (CHR ''='')
             @ NL # ''* Fixed.\<newline>'')
   \<and> unreleased_header [''1.1.0'', ''1.2.0''] (''# '' @ ''Unreleased'' @ NL # [])
      = Some (Group2 ''Unreleased'')
   \<and> unreleased_header [''1.1.0'', ''1.2.0'']
        (''Unreleased'' @ NL # replicate 10 (CHR ''='') @ NL # [])
      = Some (Group3 ''Unreleased'')
   \<and> fst (get_release_notes_and_modify_changelog_first_header sample_env tagged_world) = Ok ()
   \<and> changelog_file (snd (get_release_notes_and_modify_changelog_first_header sample_env
                             tagged_world))
      = ''# 1.3.0\<newline>\<newline>* Fixed a bug.\<newline>\<newline># 1.2.0\<newline>''
   \<and> fst (get_release_notes_and_modify_changelog_first_header underline_env underlined_world)
      = Ok ()
   \<and> changelog_file (snd (get_release_notes_and_modify_changelog_first_header underline_env
                             underlined_world))
      = ''1.3.0\<newline>=====\<newline>\<newline>* Fixed a bug.\<newline>''"
proof -
  have a: "''Unreleased'' \<noteq> []" "NL \<notin> set ''Unreleased''" "BSL \<notin> set ''1.3.0''"
    "''Unreleased'' \<notin> set [''1.1.0'', ''1.2.0'']" "take 2 ''Unreleased'' \<noteq> ''# ''"
    "0 < (10::nat)" by simp_all
  have b: "list_all (\<lambda>i. hash_header (drop i (''Changes\<newline>\<newline>'' @ ''# '' @ ''Unreleased'' @ NL # ''* Fixed.\<newline>'')) = None)
        [0..<length ''Changes\<newline>\<newline>'']" by code_simp
  have c: "list_all (\<lambda>i. underlined_header
                     (drop i (''Changes\<newline>\<newline>'' @ ''Unreleased'' @ NL # replicate 10 (CHR ''='')
                              @ NL # ''* Fixed.\<newline>'')) = None)
        [0..<length ''Changes\<newline>\<newline>'']" by code_simp
  from b have b': "\<forall>i<length ''Changes\<newline>\<newline>''.
      hash_header (drop i (''Changes\<newline>\<newline>'' @ ''# '' @ ''Unreleased'' @ NL # ''* Fixed.\<newline>'')) = None"
    unfolding list_all_upt .
  from c have c': "\<forall>i<length ''Changes\<newline>\<newline>''. underlined_header
                     (drop i (''Changes\<newline>\<newline>'' @ ''Unreleased'' @ NL # replicate 10 (CHR ''='')
                              @ NL # ''* Fixed.\<newline>'')) = None"
    unfolding list_all_upt .
  note t = retitle_rewrites_header_only [OF a(1,2,3), where re = "re_sub sample_env"
      and released = "[''1.1.0'', ''1.2.0'']" and n = 10 and rest = "[]"
      and before = "''Changes\<newline>\<newline>''" and after = "''* Fixed.\<newline>''"]
  from t b' have 1: "retitle (re_sub sample_env) (Group2 ''Unreleased'') (Some ''1.3.0'')
        (''Changes\<newline>\<newline>'' @ ''# '' @ ''Unreleased'' @ NL # ''* Fixed.\<newline>'')
      = Inr (''Changes\<newline>\<newline>'' @ ''# '' @ ''1.3.0'' @ NL # ''* Fixed.\<newline>'')" by blast
  from t c' a(6) have 2: "retitle (re_sub sample_env) (Group3 ''Unreleased'') (Some ''1.3.0'')
        (''Changes\<newline>\<newline>'' @ ''Unreleased'' @ NL # replicate 10 (CHR ''='') @ NL # ''* Fixed.\<newline>'')
      = Inr (''Changes\<newline>\<newline>'' @ ''1.3.0'' @ NL # replicate (length ''1.3.0'') (CHR ''='')
             @ NL # ''* Fixed.\<newline>'')" by blast
  from t a(4) have 3: "unreleased_header [''1.1.0'', ''1.2.0''] (''# '' @ ''Unreleased'' @ NL # [])
      = Some (Group2 ''Unreleased'')" by blast
  from t a(4,5,6) have 4: "unreleased_header [''1.1.0'', ''1.2.0'']
        (''Unreleased'' @ NL # replicate 10 (CHR ''='') @ NL # [])
      = Some (Group3 ''Unreleased'')" by blast
  have 5: "fst (get_release_notes_and_modify_changelog_first_header sample_env tagged_world) = Ok ()"
    "changelog_file (snd (get_release_notes_and_modify_changelog_first_header sample_env
                             tagged_world))
      = ''# 1.3.0\<newline>\<newline>* Fixed a bug.\<newline>\<newline># 1.2.0\<newline>''"
    "fst (get_release_notes_and_modify_changelog_first_header underline_env underlined_world)
      = Ok ()"
    "changelog_file (snd (get_release_notes_and_modify_changelog_first_header underline_env
                             underlined_world))
      = ''1.3.0\<newline>=====\<newline>\<newline>* Fixed a bug.\<newline>''"
    by code_simp+
  from a b c 1 2 3 4 5 show ?thesis by blast
qed

text \<open>
  Claim C6 as it is written holds for every document whose first header has a title
  that is not a released version. In this run the first header is \<^verbatim>\<open># \<close> with the empty
  title, which is not a released version: the script prints that it replaces the header
  name \<^verbatim>\<open>None\<close>, takes neither branch of lines 224 to 237, and writes the changelog back
  as it was. The title has not become the new version.
\<close>

theorem empty_title_is_not_retitled:
  "changelog_file untitled_world = ''# \<newline>\<newline>* Fixed a bug.\<newline>\<newline># 1.2.0\<newline>''
   \<and> released_versions (rm untitled_world) = [''1.1.0'', ''1.2.0'']
   \<and> new_version (rm untitled_world) = Some ''1.3.0''
   \<and> unreleased_header (released_versions (rm untitled_world))
        (fst (find_section sample_env (changelog_file untitled_world))) = Some (Group2 [])
   \<and> get_release_notes_and_modify_changelog_first_header sample_env untitled_world
      = (Ok (),
         untitled_world\<lparr>rm := (rm untitled_world)\<lparr>new_version_release_notes := ''* Fixed a bug.\<newline>\<newline># 1.2.0''\<rparr>,
           trace :=
             [ReadFile CHANGELOG_FILEPATH,
              Stdout (''Replacing header name '' @ quoted ''None''
                      @ '' in the changelog with the new version''),
              WriteFile CHANGELOG_FILEPATH ''# \<newline>\<newline>* Fixed a bug.\<newline>\<newline># 1.2.0\<newline>'']\<rparr>)
   \<and> changelog_file (snd (get_release_notes_and_modify_changelog_first_header sample_env
                             untitled_world))
      = changelog_file untitled_world"
  by code_simp

text \<open>
  Claim C7. Let the step run without an interrupt and not as a dry run, on a changelog
  whose first header has a non-empty title that is not a released version, with a new
  version free of backslashes and line ends, and let \<^verbatim>\<open>find_section\<close> give the header of
  the document at the start of its first part. Then the step writes the changelog with
  the new version as the title of its first header, in the style of the header. Run
  again, in any state with that changelog and with the new version among the released
  versions, the step reads the changelog, finds the new version as the title of the
  first header, and returns: it prints nothing and writes nothing.
\<close>

theorem retitled_changelog_counts_as_released:
  fixes env :: "'v env" and s :: world
    and title v before after rest rest' :: string and n :: nat
  defines "s1 \<equiv> snd (get_release_notes_and_modify_changelog_first_header env s)"
  assumes "sigint_at env = None" and "\<forall>h. open_reply env h CHANGELOG_FILEPATH = None"
    and "\<not> dry_run (rm s)" and "new_version (rm s) = Some v"
    and "BSL \<notin> set v" and "NL \<notin> set v"
    and "title \<noteq> []" and "NL \<notin> set title" and "title \<notin> set (released_versions (rm s))"
  shows "(changelog_file s = before @ ''# '' @ title @ NL # after
          \<and> (\<forall>i<length before. hash_header (drop i (changelog_file s)) = None)
          \<and> fst (find_section env (changelog_file s)) = ''# '' @ title @ NL # rest
          \<and> fst (find_section env (before @ ''# '' @ v @ NL # after)) = ''# '' @ v @ NL # rest'
          \<longrightarrow> changelog_file s1 = before @ ''# '' @ v @ NL # after
              \<and> search_first_level_header (fst (find_section env (changelog_file s1)))
                  = Some (Group2 v)
              \<and> (\<forall>s2. changelog_file s2 = changelog_file s1
                        \<and> v \<in> set (released_versions (rm s2)) \<longrightarrow>
                     get_release_notes_and_modify_changelog_first_header env s2
                     = (Ok (), s2\<lparr>trace := trace s2 @ [ReadFile CHANGELOG_FILEPATH]\<rparr>)))
     \<and> (changelog_file s = before @ title @ NL # replicate n (CHR ''='') @ NL # after
          \<and> 0 < n \<and> take 2 title \<noteq> ''# '' \<and> v \<noteq> [] \<and> take 2 v \<noteq> ''# ''
          \<and> (\<forall>i<length before. underlined_header (drop i (changelog_file s)) = None)
          \<and> fst (find_section env (changelog_file s))
              = title @ NL # replicate n (CHR ''='') @ NL # rest
          \<and> fst (find_section env
                    (before @ v @ NL # replicate (length v) (CHR ''='') @ NL # after))
              = v @ NL # replicate (length v) (CHR ''='') @ NL # rest'
          \<longrightarrow> changelog_file s1 = before @ v @ NL # replicate (length v) (CHR ''='') @ NL # after
              \<and> search_first_level_header (fst (find_section env (changelog_file s1)))
                  = Some (Group3 v)
              \<and> (\<forall>s2. changelog_file s2 = changelog_file s1
                        \<and> v \<in> set (released_versions (rm s2)) \<longrightarrow>
                     get_release_notes_and_modify_changelog_first_header env s2
                     = (Ok (), s2\<lparr>trace := trace s2 @ [ReadFile CHANGELOG_FILEPATH]\<rparr>)))"
proof -
  have again: "get_release_notes_and_modify_changelog_first_header env s2
      = (Ok (), s2\<lparr>trace := trace s2 @ [ReadFile CHANGELOG_FILEPATH]\<rparr>)"
    if "search_first_level_header (fst (find_section env (changelog_file s1))) = Some m"
      "match_title m = v" "changelog_file s2 = changelog_file s1"
      "v \<in> set (released_versions (rm s2))" for m s2
  proof -
    from that have "unreleased_header (released_versions (rm s2))
        (fst (find_section env (changelog_file s2))) = None"
      by (simp add: unreleased_header_def)
    with assms(2,3) show ?thesis by (simp add: changelog_step_released)
  qed
  have hash: "changelog_file s1 = before @ ''# '' @ v @ NL # after
      \<and> search_first_level_header (fst (find_section env (changelog_file s1)))
          = Some (Group2 v)"
    if c: "changelog_file s = before @ ''# '' @ title @ NL # after"
      and e: "\<forall>i<length before. hash_header (drop i (changelog_file s)) = None"
      and f: "fst (find_section env (changelog_file s)) = ''# '' @ title @ NL # rest"
      and g: "fst (find_section env (before @ ''# '' @ v @ NL # after)) = ''# '' @ v @ NL # rest'"
  proof -
    from f assms(10) search_hash_header [OF assms(9), of rest]
    have u: "unreleased_header (released_versions (rm s))
        (fst (find_section env (changelog_file s))) = Some (Group2 title)"
      by (simp add: unreleased_header_def)
    from e c have "\<forall>i<length before.
        hash_header (drop i (before @ ''# '' @ title @ NL # after)) = None" by simp
    from retitle_hash_header [OF assms(8,9,6) this, of "re_sub env"] c assms(5)
    have r: "retitle (re_sub env) (Group2 title) (new_version (rm s)) (changelog_file s)
        = Inr (before @ ''# '' @ v @ NL # after)" by simp
    from changelog_step_retitles [OF assms(2,4,3) u r]
    have 1: "changelog_file s1 = before @ ''# '' @ v @ NL # after" by (simp add: s1_def)
    from search_hash_header [OF assms(7), of rest'] 1 g show ?thesis by simp
  qed
  have underlined:
    "changelog_file s1 = before @ v @ NL # replicate (length v) (CHR ''='') @ NL # after
      \<and> search_first_level_header (fst (find_section env (changelog_file s1)))
          = Some (Group3 v)"
    if c: "changelog_file s = before @ title @ NL # replicate n (CHR ''='') @ NL # after"
      and n: "0 < n" and t: "take 2 title \<noteq> ''# ''" and v: "v \<noteq> []" "take 2 v \<noteq> ''# ''"
      and e: "\<forall>i<length before. underlined_header (drop i (changelog_file s)) = None"
      and f: "fst (find_section env (changelog_file s))
          = title @ NL # replicate n (CHR ''='') @ NL # rest"
      and g: "fst (find_section env
                (before @ v @ NL # replicate (length v) (CHR ''='') @ NL # after))
          = v @ NL # replicate (length v) (CHR ''='') @ NL # rest'"
  proof -
    from f assms(10) search_underlined_header [OF assms(9) t n, of rest]
    have u: "unreleased_header (released_versions (rm s))
        (fst (find_section env (changelog_file s))) = Some (Group3 title)"
      by (simp add: unreleased_header_def)
    from e c have "\<forall>i<length before. underlined_header
        (drop i (before @ title @ NL # replicate n (CHR ''='') @ NL # after)) = None" by simp
    from retitle_underlined_header [OF assms(8,9,6) n this, of "re_sub env"] c assms(5)
    have r: "retitle (re_sub env) (Group3 title) (new_version (rm s)) (changelog_file s)
        = Inr (before @ v @ NL # replicate (length v) (CHR ''='') @ NL # after)" by simp
    from changelog_step_retitles [OF assms(2,4,3) u r]
    have 1: "changelog_file s1
        = before @ v @ NL # replicate (length v) (CHR ''='') @ NL # after"
      by (simp add: s1_def)
    from v(1) have "0 < length v" by simp
    from search_underlined_header [OF assms(7) v(2) this, of rest'] 1 g
    show ?thesis by simp
  qed
  show ?thesis
  proof (intro conjI impI allI)
    assume a: "changelog_file s = before @ ''# '' @ title @ NL # after
          \<and> (\<forall>i<length before. hash_header (drop i (changelog_file s)) = None)
          \<and> fst (find_section env (changelog_file s)) = ''# '' @ title @ NL # rest
          \<and> fst (find_section env (before @ ''# '' @ v @ NL # after)) = ''# '' @ v @ NL # rest'"
    then have "changelog_file s = before @ ''# '' @ title @ NL # after"
      "\<forall>i<length before. hash_header (drop i (changelog_file s)) = None"
      "fst (find_section env (changelog_file s)) = ''# '' @ title @ NL # rest"
      "fst (find_section env (before @ ''# '' @ v @ NL # after)) = ''# '' @ v @ NL # rest'"
      by blast+
    then have h: "changelog_file s1 = before @ ''# '' @ v @ NL # after
      \<and> search_first_level_header (fst (find_section env (changelog_file s1)))
          = Some (Group2 v)" by (rule hash)
    then show "changelog_file s1 = before @ ''# '' @ v @ NL # after"
      "search_first_level_header (fst (find_section env (changelog_file s1))) = Some (Group2 v)"
      by blast+
    fix s2 :: world assume "changelog_file s2 = changelog_file s1 \<and> v \<in> set (released_versions (rm s2))"
    with h again [of "Group2 v" s2] match_title.simps(1) [of v]
    show "get_release_notes_and_modify_changelog_first_header env s2
        = (Ok (), s2\<lparr>trace := trace s2 @ [ReadFile CHANGELOG_FILEPATH]\<rparr>)" by blast
  next
    assume a: "changelog_file s = before @ title @ NL # replicate n (CHR ''='') @ NL # after
          \<and> 0 < n \<and> take 2 title \<noteq> ''# '' \<and> v \<noteq> [] \<and> take 2 v \<noteq> ''# ''
          \<and> (\<forall>i<length before. underlined_header (drop i (changelog_file s)) = None)
          \<and> fst (find_section env (changelog_file s))
              = title @ NL # replicate n (CHR ''='') @ NL # rest
          \<and> fst (find_section env
                    (before @ v @ NL # replicate (length v) (CHR ''='') @ NL # after))
              = v @ NL # replicate (length v) (CHR ''='') @ NL # rest'"
    then have "changelog_file s = before @ title @ NL # replicate n (CHR ''='') @ NL # after"
      "0 < n" "take 2 title \<noteq> ''# ''" "v \<noteq> []" "take 2 v \<noteq> ''# ''"
      "\<forall>i<length before. underlined_header (drop i (changelog_file s)) = None"
      "fst (find_section env (changelog_file s))
          = title @ NL # replicate n (CHR ''='') @ NL # rest"
      "fst (find_section env
                (before @ v @ NL # replicate (length v) (CHR ''='') @ NL # after))
          = v @ NL # replicate (length v) (CHR ''='') @ NL # rest'"
      by blast+
    then have h: "changelog_file s1
        = before @ v @ NL # replicate (length v) (CHR ''='') @ NL # after
      \<and> search_first_level_header (fst (find_section env (changelog_file s1)))
          = Some (Group3 v)" by (rule underlined)
    then show "changelog_file s1
        = before @ v @ NL # replicate (length v) (CHR ''='') @ NL # after"
      "search_first_level_header (fst (find_section env (changelog_file s1))) = Some (Group3 v)"
      by blast+
    fix s2 :: world assume "changelog_file s2 = changelog_file s1 \<and> v \<in> set (released_versions (rm s2))"
    with h again [of "Group3 v" s2] match_title.simps(2) [of v]
    show "get_release_notes_and_modify_changelog_first_header env s2
        = (Ok (), s2\<lparr>trace := trace s2 @ [ReadFile CHANGELOG_FILEPATH]\<rparr>)" by blast
  qed
qed

theorem retitled_changelog_counts_as_released_witness:
  "sigint_at sample_env = None \<and> \<not> dry_run (rm tagged_world)
   \<and> new_version (rm tagged_world) = Some ''1.3.0''
   \<and> ''Unreleased'' \<notin> set (released_versions (rm tagged_world))
   \<and> changelog_file tagged_world
      = [] @ ''# '' @ ''Unreleased'' @ NL # ''\<newline>* Fixed a bug.\<newline>\<newline># 1.2.0\<newline>''
   \<and> fst (find_section sample_env (changelog_file tagged_world)) = ''# '' @ ''Unreleased'' @ NL # []
   \<and> changelog_file (snd (get_release_notes_and_modify_changelog_first_header sample_env
                             tagged_world))
      = ''# 1.3.0\<newline>\<newline>* Fixed a bug.\<newline>\<newline># 1.2.0\<newline>''
   \<and> ''1.3.0'' \<in> set (released_versions (rm (released_in
          (snd (get_release_notes_and_modify_changelog_first_header sample_env tagged_world)))))
   \<and> get_release_notes_and_modify_changelog_first_header sample_env
        (released_in (snd (get_release_notes_and_modify_changelog_first_header sample_env
                             tagged_world)))
      = (Ok (),
         (released_in (snd (get_release_notes_and_modify_changelog_first_header sample_env
                              tagged_world)))
           \<lparr>trace := trace (released_in (snd (get_release_notes_and_modify_changelog_first_header
                                               sample_env tagged_world)))
                     @ [ReadFile CHANGELOG_FILEPATH]\<rparr>)"
proof -
  let ?s1 = "snd (get_release_notes_and_modify_changelog_first_header sample_env tagged_world)"
  have a: "sigint_at sample_env = None" "\<not> dry_run (rm tagged_world)"
    "new_version (rm tagged_world) = Some ''1.3.0''"
    "''Unreleased'' \<notin> set (released_versions (rm tagged_world))"
    "changelog_file tagged_world
      = [] @ ''# '' @ ''Unreleased'' @ NL # ''\<newline>* Fixed a bug.\<newline>\<newline># 1.2.0\<newline>''"
    "fst (find_section sample_env (changelog_file tagged_world)) = ''# '' @ ''Unreleased'' @ NL # []"
    by code_simp+
  have b: "\<forall>h. open_reply sample_env h CHANGELOG_FILEPATH = None"
    by (simp add: sample_env_def)
  have c: "BSL \<notin> set ''1.3.0''" "NL \<notin> set ''1.3.0''" "''Unreleased'' \<noteq> []"
    "NL \<notin> set ''Unreleased''" by simp_all
  have d: "fst (find_section sample_env ([] @ ''# '' @ ''1.3.0'' @ NL # ''\<newline>* Fixed a bug.\<newline>\<newline># 1.2.0\<newline>''))
      = ''# '' @ ''1.3.0'' @ NL # []" by code_simp
  have e: "\<forall>i<length ([]::string). hash_header (drop i (changelog_file tagged_world)) = None"
    by simp
  have f: "changelog_file (released_in ?s1) = changelog_file ?s1"
    "''1.3.0'' \<in> set (released_versions (rm (released_in ?s1)))"
    by (simp_all add: released_in_def)
  note t = retitled_changelog_counts_as_released [OF a(1) b a(2,3) c(1,2,3,4) a(4),
      where before = "[]" and after = "''\<newline>* Fixed a bug.\<newline>\<newline># 1.2.0\<newline>''"
        and rest = "[]" and rest' = "[]"]
  from t a(5,6) d e have 1: "changelog_file ?s1
      = [] @ ''# '' @ ''1.3.0'' @ NL # ''\<newline>* Fixed a bug.\<newline>\<newline># 1.2.0\<newline>''" by blast
  from t a(5,6) d e f have 2: "get_release_notes_and_modify_changelog_first_header sample_env
        (released_in ?s1)
      = (Ok (), (released_in ?s1)\<lparr>trace := trace (released_in ?s1)
                     @ [ReadFile CHANGELOG_FILEPATH]\<rparr>)" by blast
  from 1 have 3: "changelog_file ?s1 = ''# 1.3.0\<newline>\<newline>* Fixed a bug.\<newline>\<newline># 1.2.0\<newline>''" by simp
  from a 2 3 f(2) show ?thesis by blast
qed

text \<open>
  Claim C7 as it is written holds for every document. In this run the first header is
  \<^verbatim>\<open># \<close> with the empty title: the first run writes the changelog back as it was, and a
  second run on it, with the new version 1.3.0 among the released versions, still finds
  the empty title, not 1.3.0, does not take it for released, and prints and writes
  again.
\<close>

theorem empty_title_is_retitled_again:
  "changelog_file (snd (get_release_notes_and_modify_changelog_first_header sample_env
                          untitled_world))
     = ''# \<newline>\<newline>* Fixed a bug.\<newline>\<newline># 1.2.0\<newline>''
   \<and> released_versions (rm (released_in
          (snd (get_release_notes_and_modify_changelog_first_header sample_env untitled_world))))
      = [''1.1.0'', ''1.2.0'', ''1.3.0'']
   \<and> search_first_level_header
        (fst (find_section sample_env
               (changelog_file (snd (get_release_notes_and_modify_changelog_first_header
                                       sample_env untitled_world)))))
      = Some (Group2 [])
   \<and> unreleased_header [''1.1.0'', ''1.2.0'', ''1.3.0'']
        (fst (find_section sample_env
               (changelog_file (snd (get_release_notes_and_modify_changelog_first_header
                                       sample_env untitled_world)))))
      = Some (Group2 [])
   \<and> fst (get_release_notes_and_modify_changelog_first_header sample_env
            (released_in (snd (get_release_notes_and_modify_changelog_first_header sample_env
                                 untitled_world)))) = Ok ()
   \<and> drop 3 (trace (snd (get_release_notes_and_modify_changelog_first_header sample_env
            (released_in (snd (get_release_notes_and_modify_changelog_first_header sample_env
                                 untitled_world))))))
      = [ReadFile CHANGELOG_FILEPATH,
         Stdout (''Replacing header name '' @ quoted ''None''
                 @ '' in the changelog with the new version''),
         WriteFile CHANGELOG_FILEPATH ''# \<newline>\<newline>* Fixed a bug.\<newline>\<newline># 1.2.0\<newline>'']"
  by code_simp

end
